theory Spec2Isabelle
  imports Main "HOL-Library.Word" "HOL-Library.Sublist"
begin

unbundle bit_operations_syntax

section \<open>Identifier codec\<close>

text \<open>
  \<^verbatim>\<open>pcommon.SpanID\<close> is \<^verbatim>\<open>[8]byte\<close> and \<^verbatim>\<open>pcommon.TraceID\<close> is \<^verbatim>\<open>[16]byte\<close>.
  Both are modelled as byte lists; the width is a hypothesis of the theorems about them.
  \<^verbatim>\<open>IsEmpty\<close> of the pdata library compares the array with the zero array of its width.
\<close>

type_synonym byte = "8 word"

definition IsEmpty :: "byte list \<Rightarrow> bool" where
  "IsEmpty bs = (bs = replicate (length bs) 0)"

text \<open>
  \<^verbatim>\<open>encoding/hex\<close> of the Go standard library:
  \<^verbatim>\<open>const hextable = "0123456789abcdef"\<close> and, for every byte \<^verbatim>\<open>v\<close> of the source,
  \<^verbatim>\<open>dst[j] = hextable[v>>4]; dst[j+1] = hextable[v&0x0f]\<close>.
\<close>

definition hextable :: string where
  "hextable = ''0123456789abcdef''"

fun EncodeToString :: "byte list \<Rightarrow> string" where
  "EncodeToString [] = []"
| "EncodeToString (v # src) =
     hextable ! unat (drop_bit 4 v) # hextable ! unat (v AND 0x0f) # EncodeToString src"

text \<open>src/unnamed/part_002, lines 11-25.\<close>

definition SpanIDToHexOrEmptyString :: "byte list \<Rightarrow> string" where
  "SpanIDToHexOrEmptyString sid = (if IsEmpty sid then [] else EncodeToString sid)"

definition TraceIDToHexOrEmptyString :: "byte list \<Rightarrow> string" where
  "TraceIDToHexOrEmptyString tid = (if IsEmpty tid then [] else EncodeToString tid)"

text \<open>
  What "lowercase hexadecimal" means, written without the table: the digit character of a
  value below sixteen, and the two digits of a byte (high nibble first).
\<close>

definition lower_hex_digit :: "nat \<Rightarrow> char" where
  "lower_hex_digit d = (if d < 10 then char_of (48 + d) else char_of (87 + d))"

definition lower_hex_of_byte :: "byte \<Rightarrow> string" where
  "lower_hex_of_byte v = [lower_hex_digit (unat v div 16), lower_hex_digit (unat v mod 16)]"

definition is_lower_hex :: "byte list \<Rightarrow> string \<Rightarrow> bool" where
  "is_lower_hex bs s = (s = concat (map lower_hex_of_byte bs))"

section \<open>Values of the Go, pdata and driver libraries\<close>

text \<open>
  \<^verbatim>\<open>pcommon.Timestamp\<close> is a \<^verbatim>\<open>uint64\<close> of nanoseconds since the epoch. Its \<^verbatim>\<open>AsTime()\<close> is
  \<^verbatim>\<open>time.Unix(0, int64(ts)).UTC()\<close>: a \<^verbatim>\<open>time.Time\<close> is modelled by its signed count of
  nanoseconds since the epoch.
\<close>

type_synonym Timestamp = "64 word"
type_synonym Time = int

definition AsTime :: "Timestamp \<Rightarrow> Time" where
  "AsTime ts = sint ts"

text \<open>
  \<^verbatim>\<open>t.Sub(u)\<close> of package \<^verbatim>\<open>time\<close> is the difference as a \<^verbatim>\<open>Duration\<close> (an \<^verbatim>\<open>int64\<close> of
  nanoseconds), saturated at the least and the greatest \<^verbatim>\<open>Duration\<close>; \<^verbatim>\<open>Nanoseconds()\<close>
  reads that \<^verbatim>\<open>int64\<close>.
\<close>

definition minDuration :: int where
  "minDuration = - (2 ^ 63)"

definition maxDuration :: int where
  "maxDuration = 2 ^ 63 - 1"

definition Sub_Nanoseconds :: "Time \<Rightarrow> Time \<Rightarrow> int" where
  "Sub_Nanoseconds t u =
     (let d = t - u in
      if d < minDuration then minDuration else if maxDuration < d then maxDuration else d)"

text \<open>
  A \<^verbatim>\<open>float64\<close> is kept symbolic: either the value a pdata field holds (its IEEE-754
  bits), or the conversion \<^verbatim>\<open>float64(i)\<close> of an \<^verbatim>\<open>int64\<close>, whose rounding is not modelled.
\<close>

datatype float64 = Float64bits "64 word" | Float64_of_int64 "64 word"

text \<open>
  \<^verbatim>\<open>pcommon.Map\<close>: the attributes in their order, every value kept as the string its
  \<^verbatim>\<open>AsString()\<close> yields.
\<close>

type_synonym Map = "(string \<times> string) list"

text \<open>
  The arguments handed to \<^verbatim>\<open>ExecContext\<close>, by their Go type. \<^verbatim>\<open>ArgArraySet\<close> is
  \<^verbatim>\<open>clickhouse.ArraySet\<close> (a \<^verbatim>\<open>[]any\<close>).
\<close>

datatype arg =
    ArgString string
  | ArgTime Time
  | ArgInt64 int
  | ArgInt32 "32 word"
  | ArgUint32 "32 word"
  | ArgUint64 "64 word"
  | ArgFloat64 float64
  | ArgBool bool
  | ArgTimes "Time list"
  | ArgStrings "string list"
  | ArgArraySet "arg list"

text \<open>
  Errors: \<^verbatim>\<open>errors.New(msg)\<close>, and \<^verbatim>\<open>fmt.Errorf(msg + "%w", err)\<close>, which wraps
  \<^verbatim>\<open>err\<close>. The errors of the driver are arbitrary values of this type. \<^verbatim>\<open>errors.Is\<close>
  follows the chain of wrapped errors.
\<close>

datatype error = errors_New string | Errorf string error

fun errors_Is :: "error \<Rightarrow> error \<Rightarrow> bool" where
  "errors_Is (errors_New msg) target = (errors_New msg = target)"
| "errors_Is (Errorf msg err) target = (Errorf msg err = target \<or> errors_Is err target)"

section \<open>Traces: the telemetry tree (ptrace)\<close>

record SpanEvent =
  event_Timestamp :: Timestamp
  event_Name :: string
  event_Attributes :: Map

record SpanLink =
  link_TraceID :: "byte list"
  link_SpanID :: "byte list"
  link_TraceState :: string
  link_Attributes :: Map

record Span =
  span_TraceID :: "byte list"
  span_SpanID :: "byte list"
  span_ParentSpanID :: "byte list"
  span_TraceState :: string
  span_Name :: string
  span_Kind :: "32 word"
  span_StartTimestamp :: Timestamp
  span_EndTimestamp :: Timestamp
  span_Attributes :: Map
  span_StatusCode :: "32 word"
  span_StatusMessage :: string
  span_Events :: "SpanEvent list"
  span_Links :: "SpanLink list"

record ScopeSpans =
  ss_ScopeName :: string
  ss_ScopeVersion :: string
  ss_Spans :: "Span list"

record ResourceSpans =
  rs_ResourceAttributes :: Map
  rs_ScopeSpans :: "ScopeSpans list"

type_synonym Traces = "ResourceSpans list"

text \<open>
  \<^verbatim>\<open>SpanKind.String()\<close> and \<^verbatim>\<open>StatusCode.String()\<close> of ptrace: the label of the enum
  value, and the empty string for a value outside the enum.
\<close>

definition SpanKind_String :: "32 word \<Rightarrow> string" where
  "SpanKind_String k =
     (if k = 0 then ''Unspecified'' else if k = 1 then ''Internal''
      else if k = 2 then ''Server'' else if k = 3 then ''Client''
      else if k = 4 then ''Producer'' else if k = 5 then ''Consumer'' else [])"

definition StatusCode_String :: "32 word \<Rightarrow> string" where
  "StatusCode_String c =
     (if c = 0 then ''Unset'' else if c = 1 then ''Ok'' else if c = 2 then ''Error'' else [])"

section \<open>Traces: span events and links (src/exporter/clickhouse/exporter\_traces.go)\<close>

text \<open>
  \<^verbatim>\<open>internal.AttributesToJSON\<close> is not under src/: every function that calls it takes it as
  the parameter \<open>J\<close>.

  \<^verbatim>\<open>convertEvents\<close> (lines 126-134) and \<^verbatim>\<open>convertLinks\<close> (lines 136-145): the named
  results start as nil slices, and every round of the loop appends to each of them.
\<close>

fun convertEvents_loop ::
  "(Map \<Rightarrow> string) \<Rightarrow> SpanEvent list \<Rightarrow> Time list \<times> string list \<times> string list
    \<Rightarrow> Time list \<times> string list \<times> string list" where
  "convertEvents_loop J [] (times', names, attrs) = (times', names, attrs)"
| "convertEvents_loop J (event # events) (times', names, attrs) =
     convertEvents_loop J events
       (times' @ [AsTime (event_Timestamp event)],
        names @ [event_Name event],
        attrs @ [J (event_Attributes event)])"

definition convertEvents ::
  "(Map \<Rightarrow> string) \<Rightarrow> SpanEvent list \<Rightarrow> Time list \<times> string list \<times> string list" where
  "convertEvents J events = convertEvents_loop J events ([], [], [])"

fun convertLinks_loop ::
  "(Map \<Rightarrow> string) \<Rightarrow> SpanLink list \<Rightarrow> string list \<times> string list \<times> string list \<times> string list
    \<Rightarrow> string list \<times> string list \<times> string list \<times> string list" where
  "convertLinks_loop J [] (traceIDs, spanIDs, states, attrs) = (traceIDs, spanIDs, states, attrs)"
| "convertLinks_loop J (link # links) (traceIDs, spanIDs, states, attrs) =
     convertLinks_loop J links
       (traceIDs @ [TraceIDToHexOrEmptyString (link_TraceID link)],
        spanIDs @ [SpanIDToHexOrEmptyString (link_SpanID link)],
        states @ [link_TraceState link],
        attrs @ [J (link_Attributes link)])"

definition convertLinks ::
  "(Map \<Rightarrow> string) \<Rightarrow> SpanLink list
    \<Rightarrow> string list \<times> string list \<times> string list \<times> string list" where
  "convertLinks J links = convertLinks_loop J links ([], [], [], [])"

section \<open>The store behind database/sql\<close>

text \<open>
  The exporter reaches the store through \<^verbatim>\<open>database/sql\<close> only. The model of that
  library keeps the rows the store holds (each with the statement that inserted it) and
  the calls made on the connection, in order. What the driver answers is given by a
  \<open>driver\<close>: the error (if any) of \<^verbatim>\<open>Begin\<close>, of preparing a query, of executing the
  prepared statement when \<open>n\<close> rows are already pending in the transaction, and of
  \<^verbatim>\<open>Commit\<close>.
\<close>

datatype call = Begin | PrepareContext string | ExecContext "arg list" | Close | Commit | Rollback

record driver =
  BeginErr :: "error option"
  PrepareErr :: "string \<Rightarrow> error option"
  ExecErr :: "nat \<Rightarrow> arg list \<Rightarrow> error option"
  CommitErr :: "error option"

record DB =
  stored :: "(string \<times> arg list) list"
  calls :: "call list"

record Tx =
  pending :: "(string \<times> arg list) list"
  tx_calls :: "call list"

definition Tx_PrepareContext :: "driver \<Rightarrow> string \<Rightarrow> Tx \<Rightarrow> error option \<times> Tx" where
  "Tx_PrepareContext drv query tx =
     (PrepareErr drv query, tx\<lparr>tx_calls := tx_calls tx @ [PrepareContext query]\<rparr>)"

definition Stmt_ExecContext :: "driver \<Rightarrow> string \<Rightarrow> arg list \<Rightarrow> Tx \<Rightarrow> error option \<times> Tx" where
  "Stmt_ExecContext drv statement args tx =
     (case ExecErr drv (length (pending tx)) args of
        Some err \<Rightarrow> (Some err, tx\<lparr>tx_calls := tx_calls tx @ [ExecContext args]\<rparr>)
      | None \<Rightarrow>
          (None, tx\<lparr>pending := pending tx @ [(statement, args)],
                    tx_calls := tx_calls tx @ [ExecContext args]\<rparr>))"

definition Stmt_Close :: "Tx \<Rightarrow> Tx" where
  "Stmt_Close tx = tx\<lparr>tx_calls := tx_calls tx @ [Close]\<rparr>"

text \<open>
  \<^verbatim>\<open>doWithTx\<close> (src/unnamed/part_000, lines 248-260). The deferred \<^verbatim>\<open>tx.Rollback()\<close> runs
  on every exit once \<^verbatim>\<open>Begin\<close> has succeeded: it discards the pending rows, and after a
  \<^verbatim>\<open>Commit\<close> it finds the transaction done and changes nothing. A \<^verbatim>\<open>Commit\<close> that returns
  an error stores no row.
\<close>

definition doWithTx ::
  "driver \<Rightarrow> DB \<Rightarrow> (Tx \<Rightarrow> error option \<times> Tx) \<Rightarrow> error option \<times> DB" where
  "doWithTx drv db fn =
     (case BeginErr drv of
        Some err \<Rightarrow> (Some (Errorf ''db.Begin: '' err), db\<lparr>calls := calls db @ [Begin]\<rparr>)
      | None \<Rightarrow>
          (case fn \<lparr>pending = [], tx_calls = calls db @ [Begin]\<rparr> of
             (Some err, tx) \<Rightarrow> (Some err, db\<lparr>calls := tx_calls tx @ [Rollback]\<rparr>)
           | (None, tx) \<Rightarrow>
               (case CommitErr drv of
                  Some err \<Rightarrow> (Some err, db\<lparr>calls := tx_calls tx @ [Commit, Rollback]\<rparr>)
                | None \<Rightarrow>
                    (None, \<lparr>stored = stored db @ pending tx,
                            calls = tx_calls tx @ [Commit, Rollback]\<rparr>))))"

text \<open>
  A Go \<^verbatim>\<open>for ... range\<close> loop over a slice whose body may leave the function with
  \<^verbatim>\<open>return err\<close>: the body's \<open>Some err\<close> ends the loop with that error.
\<close>

fun range_loop :: "('a \<Rightarrow> 's \<Rightarrow> error option \<times> 's) \<Rightarrow> 'a list \<Rightarrow> 's \<Rightarrow> error option \<times> 's" where
  "range_loop body [] s = (None, s)"
| "range_loop body (x # xs) s =
     (case body x s of
        (Some err, s') \<Rightarrow> (Some err, s')
      | (None, s') \<Rightarrow> range_loop body xs s')"

section \<open>Service name\<close>

text \<open>
  Modelled from the spec: \<^verbatim>\<open>internal.GetServiceName\<close> is not under src/. Section 4.3 of the
  spec: "Given a resource's attribute map, returns the service name by looking up a
  well-known attribute key; if absent, returns a fixed fallback constant", the constant
  being "a fixed sentinel such as unknown\_service" (section 3). The well-known key is
  \<^verbatim>\<open>service.name\<close>.
\<close>

definition GetServiceName :: "Map \<Rightarrow> string" where
  "GetServiceName resAttr =
     (case map_of resAttr ''service.name'' of Some v \<Rightarrow> v | None \<Rightarrow> ''unknown_service'')"

section \<open>Traces: pushTraceData (src/exporter/clickhouse/exporter\_traces.go, lines 62-124)\<close>

text \<open>The 22 arguments of the \<^verbatim>\<open>ExecContext\<close> call of lines 88-111, in the order written.\<close>

definition traces_args ::
  "(Map \<Rightarrow> string) \<Rightarrow> string \<Rightarrow> string \<Rightarrow> string \<Rightarrow> string \<Rightarrow> Span \<Rightarrow> arg list" where
  "traces_args J serviceName resAttr scopeName scopeVersion r =
     (let spanAttr = J (span_Attributes r) in
      case convertEvents J (span_Events r) of (eventTimes, eventNames, eventAttrs) \<Rightarrow>
      case convertLinks J (span_Links r) of
        (linksTraceIDs, linksSpanIDs, linksTraceStates, linksAttrs) \<Rightarrow>
      [ArgTime (AsTime (span_StartTimestamp r)),
       ArgString (TraceIDToHexOrEmptyString (span_TraceID r)),
       ArgString (SpanIDToHexOrEmptyString (span_SpanID r)),
       ArgString (SpanIDToHexOrEmptyString (span_ParentSpanID r)),
       ArgString (span_TraceState r),
       ArgString (span_Name r),
       ArgString (SpanKind_String (span_Kind r)),
       ArgString serviceName,
       ArgString resAttr,
       ArgString scopeName,
       ArgString scopeVersion,
       ArgString spanAttr,
       ArgInt64 (Sub_Nanoseconds (AsTime (span_EndTimestamp r)) (AsTime (span_StartTimestamp r))),
       ArgString (StatusCode_String (span_StatusCode r)),
       ArgString (span_StatusMessage r),
       ArgTimes eventTimes,
       ArgStrings eventNames,
       ArgStrings eventAttrs,
       ArgStrings linksTraceIDs,
       ArgStrings linksSpanIDs,
       ArgStrings linksTraceStates,
       ArgStrings linksAttrs])"

text \<open>
  The function handed to \<^verbatim>\<open>doWithTx\<close> (lines 64-119). The deferred
  \<^verbatim>\<open>statement.Close()\<close> runs on every exit after the statement was prepared.
\<close>

definition pushTraceData_fn ::
  "(Map \<Rightarrow> string) \<Rightarrow> driver \<Rightarrow> string \<Rightarrow> Traces \<Rightarrow> Tx \<Rightarrow> error option \<times> Tx" where
  "pushTraceData_fn J drv insertSQL td tx =
     (case Tx_PrepareContext drv insertSQL tx of
        (Some err, tx1) \<Rightarrow> (Some (Errorf ''PrepareContext:'' err), tx1)
      | (None, tx1) \<Rightarrow>
          (case range_loop
                  (\<lambda>spans.
                     let resAttr = J (rs_ResourceAttributes spans);
                         serviceName = GetServiceName (rs_ResourceAttributes spans)
                     in range_loop
                          (\<lambda>scope.
                             let rs = ss_Spans scope;
                                 scopeName = ss_ScopeName scope;
                                 scopeVersion = ss_ScopeVersion scope
                             in range_loop
                                  (\<lambda>r tx2.
                                     case Stmt_ExecContext drv insertSQL
                                            (traces_args J serviceName resAttr scopeName
                                               scopeVersion r) tx2 of
                                       (Some err, tx3) \<Rightarrow> (Some (Errorf ''ExecContext:'' err), tx3)
                                     | (None, tx3) \<Rightarrow> (None, tx3))
                                  rs)
                          (rs_ScopeSpans spans))
                  td tx1 of
             (res, tx4) \<Rightarrow> (res, Stmt_Close tx4)))"

definition pushTraceData ::
  "(Map \<Rightarrow> string) \<Rightarrow> driver \<Rightarrow> string \<Rightarrow> DB \<Rightarrow> Traces \<Rightarrow> error option \<times> DB" where
  "pushTraceData J drv insertSQL db td = doWithTx drv db (pushTraceData_fn J drv insertSQL td)"

section \<open>Logs: pushLogsData (src/unnamed/part\_000, lines 62-125)\<close>

record LogRecord =
  log_Timestamp :: Timestamp
  log_ObservedTimestamp :: Timestamp
  log_TraceID :: "byte list"
  log_SpanID :: "byte list"
  log_Flags :: "32 word"
  log_SeverityText :: string
  log_SeverityNumber :: "32 word"
  log_Body :: string
  log_Attributes :: Map

record ScopeLogs =
  sl_SchemaUrl :: string
  sl_ScopeName :: string
  sl_ScopeVersion :: string
  sl_ScopeAttributes :: Map
  sl_LogRecords :: "LogRecord list"

record ResourceLogs =
  rl_ResourceAttributes :: Map
  rl_SchemaUrl :: string
  rl_ScopeLogs :: "ScopeLogs list"

type_synonym Logs = "ResourceLogs list"

text \<open>
  Lines 90-93 and the 15 arguments of the \<^verbatim>\<open>ExecContext\<close> call of lines 96-112.
  \<^verbatim>\<open>log_Body\<close> is the string \<^verbatim>\<open>r.Body().AsString()\<close>.
\<close>

definition logs_args ::
  "(Map \<Rightarrow> string) \<Rightarrow> string \<Rightarrow> string \<Rightarrow> string \<Rightarrow> string \<Rightarrow> string \<Rightarrow> string \<Rightarrow> string
    \<Rightarrow> LogRecord \<Rightarrow> arg list" where
  "logs_args J serviceName resURL resAttr scopeURL scopeName scopeVersion scopeAttr r =
     (let timestamp = log_Timestamp r;
          timestamp = (if timestamp = 0 then log_ObservedTimestamp r else timestamp);
          logAttr = J (log_Attributes r)
      in
      [ArgTime (AsTime timestamp),
       ArgString (TraceIDToHexOrEmptyString (log_TraceID r)),
       ArgString (SpanIDToHexOrEmptyString (log_SpanID r)),
       ArgUint32 (log_Flags r),
       ArgString (log_SeverityText r),
       ArgInt32 (log_SeverityNumber r),
       ArgString serviceName,
       ArgString (log_Body r),
       ArgString resURL,
       ArgString resAttr,
       ArgString scopeURL,
       ArgString scopeName,
       ArgString scopeVersion,
       ArgString scopeAttr,
       ArgString logAttr])"

definition pushLogsData_fn ::
  "(Map \<Rightarrow> string) \<Rightarrow> driver \<Rightarrow> string \<Rightarrow> Logs \<Rightarrow> Tx \<Rightarrow> error option \<times> Tx" where
  "pushLogsData_fn J drv insertSQL ld tx =
     (case Tx_PrepareContext drv insertSQL tx of
        (Some err, tx1) \<Rightarrow> (Some (Errorf ''PrepareContext:'' err), tx1)
      | (None, tx1) \<Rightarrow>
          (case range_loop
                  (\<lambda>logs.
                     let resURL = rl_SchemaUrl logs;
                         resAttr = J (rl_ResourceAttributes logs);
                         serviceName = GetServiceName (rl_ResourceAttributes logs)
                     in range_loop
                          (\<lambda>scope.
                             let rs = sl_LogRecords scope;
                                 scopeURL = sl_SchemaUrl scope;
                                 scopeName = sl_ScopeName scope;
                                 scopeVersion = sl_ScopeVersion scope;
                                 scopeAttr = J (sl_ScopeAttributes scope)
                             in range_loop
                                  (\<lambda>r tx2.
                                     case Stmt_ExecContext drv insertSQL
                                            (logs_args J serviceName resURL resAttr scopeURL
                                               scopeName scopeVersion scopeAttr r) tx2 of
                                       (Some err, tx3) \<Rightarrow> (Some (Errorf ''ExecContext:'' err), tx3)
                                     | (None, tx3) \<Rightarrow> (None, tx3))
                                  rs)
                          (rl_ScopeLogs logs))
                  ld tx1 of
             (res, tx4) \<Rightarrow> (res, Stmt_Close tx4)))"

definition pushLogsData ::
  "(Map \<Rightarrow> string) \<Rightarrow> driver \<Rightarrow> string \<Rightarrow> DB \<Rightarrow> Logs \<Rightarrow> error option \<times> DB" where
  "pushLogsData J drv insertSQL db ld = doWithTx drv db (pushLogsData_fn J drv insertSQL ld)"

section \<open>Metrics: the telemetry tree (pmetric)\<close>

record InstrumentationScope =
  scope_Name :: string
  scope_Version :: string
  scope_Attributes :: Map
  scope_DroppedAttributesCount :: "32 word"

text \<open>
  \<^verbatim>\<open>MetricsMetaData\<close> is declared outside src/; its four fields are the ones the
  \<^verbatim>\<open>Add\<close> functions fill and the \<^verbatim>\<open>insert\<close> functions read.
\<close>

record MetricsMetaData =
  ResAttr :: Map
  ResURL :: string
  ScopeURL :: string
  ScopeInstr :: InstrumentationScope

text \<open>
  The value of a number data point or of an exemplar is a tagged union in pdata:
  \<^verbatim>\<open>ValueType()\<close> is the tag, \<^verbatim>\<open>IntValue()\<close> and \<^verbatim>\<open>DoubleValue()\<close> read the members.
\<close>

datatype ValueType = ValueTypeEmpty | ValueTypeInt | ValueTypeDouble

record Exemplar =
  exemplar_FilteredAttributes :: Map
  exemplar_Timestamp :: Timestamp
  exemplar_ValueType :: ValueType
  exemplar_IntValue :: "64 word"
  exemplar_DoubleValue :: float64
  exemplar_SpanID :: "byte list"
  exemplar_TraceID :: "byte list"

record NumberDataPoint =
  ndp_Attributes :: Map
  ndp_StartTimestamp :: Timestamp
  ndp_Timestamp :: Timestamp
  ndp_ValueType :: ValueType
  ndp_IntValue :: "64 word"
  ndp_DoubleValue :: float64
  ndp_Flags :: "32 word"
  ndp_Exemplars :: "Exemplar list"

text \<open>
  \<^verbatim>\<open>AggregationTemporality\<close> is an \<^verbatim>\<open>int32\<close> enum of pmetric: 0 unspecified, 1 delta,
  2 cumulative.
\<close>

definition AggregationTemporalityCumulative :: "32 word" where
  "AggregationTemporalityCumulative = 2"

record Sum =
  sum_DataPoints :: "NumberDataPoint list"
  sum_AggregationTemporality :: "32 word"
  sum_IsMonotonic :: bool

record Gauge =
  gauge_DataPoints :: "NumberDataPoint list"

record HistogramDataPoint =
  hdp_Attributes :: Map
  hdp_StartTimestamp :: Timestamp
  hdp_Timestamp :: Timestamp
  hdp_Count :: "64 word"
  hdp_Sum :: float64
  hdp_BucketCounts :: "64 word list"
  hdp_ExplicitBounds :: "float64 list"
  hdp_Exemplars :: "Exemplar list"
  hdp_Flags :: "32 word"
  hdp_Min :: float64
  hdp_Max :: float64

record Histogram =
  histogram_DataPoints :: "HistogramDataPoint list"
  histogram_AggregationTemporality :: "32 word"

record Buckets =
  buckets_Offset :: "32 word"
  buckets_BucketCounts :: "64 word list"

record ExponentialHistogramDataPoint =
  edp_Attributes :: Map
  edp_StartTimestamp :: Timestamp
  edp_Timestamp :: Timestamp
  edp_Count :: "64 word"
  edp_Sum :: float64
  edp_Scale :: "32 word"
  edp_ZeroCount :: "64 word"
  edp_Positive :: Buckets
  edp_Negative :: Buckets
  edp_Exemplars :: "Exemplar list"
  edp_Flags :: "32 word"
  edp_Min :: float64
  edp_Max :: float64

record ExponentialHistogram =
  expHistogram_DataPoints :: "ExponentialHistogramDataPoint list"
  expHistogram_AggregationTemporality :: "32 word"

record SummaryDataPoint =
  sdp_Attributes :: Map
  sdp_StartTimestamp :: Timestamp
  sdp_Timestamp :: Timestamp
  sdp_Count :: "64 word"
  sdp_Sum :: float64
  sdp_QuantileValues :: "(float64 \<times> float64) list"
  sdp_Flags :: "32 word"

record Summary =
  summary_DataPoints :: "SummaryDataPoint list"

text \<open>
  The \<^verbatim>\<open>metrics any\<close> parameter of the \<^verbatim>\<open>Add\<close> functions: one of the five pmetric types,
  or any other Go value.
\<close>

datatype any_metrics =
    AnySum Sum
  | AnyGauge Gauge
  | AnyHistogram Histogram
  | AnyExponentialHistogram ExponentialHistogram
  | AnySummary Summary
  | AnyOther

section \<open>Metrics: helpers of the package that are not under src/\<close>

text \<open>
  Modelled from the spec: \<^verbatim>\<open>getValue\<close> is not under src/. Section 4.5 of the spec: "a data
  point carries a declared value-type tag (integer or floating-point); the builder must
  read the correctly-typed field and always emit a double-precision column". The spec
  names no result for an unset value; the model gives 0.0 there.
\<close>

definition getValue :: "64 word \<Rightarrow> float64 \<Rightarrow> ValueType \<Rightarrow> float64" where
  "getValue intValue floatValue dataType =
     (case dataType of
        ValueTypeDouble \<Rightarrow> floatValue
      | ValueTypeInt \<Rightarrow> Float64_of_int64 intValue
      | ValueTypeEmpty \<Rightarrow> Float64bits 0)"

text \<open>
  Modelled from the spec: \<^verbatim>\<open>convertExemplars\<close> is not under src/. Sections 2 and 4.4 of the
  spec: it "converts a record's exemplar list into five parallel arrays (filtered-attribute
  JSON, timestamp, value, span id, trace id), index-aligned", "order preserved from input
  order", "zero exemplars => five empty sequences". The order of the five results is the
  one of the call sites under src/: \<^verbatim>\<open>attrs, times, values, traceIDs, spanIDs\<close>. The spec
  does not say how an exemplar's ids are encoded; the model uses the identifier codec.
\<close>

definition convertExemplars ::
  "(Map \<Rightarrow> string) \<Rightarrow> Exemplar list \<Rightarrow> arg \<times> arg \<times> arg \<times> arg \<times> arg" where
  "convertExemplars J exemplars =
     (ArgArraySet (map (\<lambda>e. ArgString (J (exemplar_FilteredAttributes e))) exemplars),
      ArgArraySet (map (\<lambda>e. ArgTime (AsTime (exemplar_Timestamp e))) exemplars),
      ArgArraySet (map (\<lambda>e. ArgFloat64 (getValue (exemplar_IntValue e) (exemplar_DoubleValue e)
                                            (exemplar_ValueType e))) exemplars),
      ArgArraySet (map (\<lambda>e. ArgString (TraceIDToHexOrEmptyString (exemplar_TraceID e))) exemplars),
      ArgArraySet (map (\<lambda>e. ArgString (SpanIDToHexOrEmptyString (exemplar_SpanID e))) exemplars))"

text \<open>
  Modelled from the spec: \<^verbatim>\<open>convertSliceToArraySet\<close> and \<^verbatim>\<open>convertValueAtQuantile\<close> are
  not under src/. Section 4.5 of the spec: the bucket-count and bounds arrays are emitted
  as they are ("must be preserved, not recomputed"), and a summary point gives "two
  parallel arrays (quantile, value-at-quantile) of equal length". \<open>elem\<close> is the Go type
  of the slice's elements.
\<close>

definition convertSliceToArraySet :: "('a \<Rightarrow> arg) \<Rightarrow> 'a list \<Rightarrow> arg" where
  "convertSliceToArraySet elem xs = ArgArraySet (map elem xs)"

definition convertValueAtQuantile :: "(float64 \<times> float64) list \<Rightarrow> arg \<times> arg" where
  "convertValueAtQuantile qvs =
     (ArgArraySet (map (\<lambda>qv. ArgFloat64 (fst qv)) qvs),
      ArgArraySet (map (\<lambda>qv. ArgFloat64 (snd qv)) qvs))"

section \<open>Metrics: sumMetrics (src/exporter/clickhouse/internal/sum\_metrics.go)\<close>

record sumModel =
  sumModel_metricName :: string
  sumModel_metricDescription :: string
  sumModel_metricUnit :: string
  sumModel_metadata :: MetricsMetaData
  sumModel_sum :: Sum

record sumMetrics =
  sumMetrics_sumModel :: "sumModel list"
  sumMetrics_insertSQL :: string
  sumMetrics_count :: int

text \<open>The 23 arguments of the \<^verbatim>\<open>ExecContext\<close> call of lines 117-141, in the order written.\<close>

definition sum_args ::
  "(Map \<Rightarrow> string) \<Rightarrow> string \<Rightarrow> string \<Rightarrow> string \<Rightarrow> sumModel \<Rightarrow> NumberDataPoint \<Rightarrow> arg list" where
  "sum_args J resAttr scopeAttr serviceName model dp =
     (case convertExemplars J (ndp_Exemplars dp) of (attrs, times', values, traceIDs, spanIDs) \<Rightarrow>
      [ArgString resAttr,
       ArgString (ResURL (sumModel_metadata model)),
       ArgString (scope_Name (ScopeInstr (sumModel_metadata model))),
       ArgString (scope_Version (ScopeInstr (sumModel_metadata model))),
       ArgString scopeAttr,
       ArgUint32 (scope_DroppedAttributesCount (ScopeInstr (sumModel_metadata model))),
       ArgString (ScopeURL (sumModel_metadata model)),
       ArgString serviceName,
       ArgString (sumModel_metricName model),
       ArgString (sumModel_metricDescription model),
       ArgString (sumModel_metricUnit model),
       ArgString (J (ndp_Attributes dp)),
       ArgTime (AsTime (ndp_StartTimestamp dp)),
       ArgTime (AsTime (ndp_Timestamp dp)),
       ArgFloat64 (getValue (ndp_IntValue dp) (ndp_DoubleValue dp) (ndp_ValueType dp)),
       ArgUint32 (ndp_Flags dp),
       attrs,
       times',
       values,
       spanIDs,
       traceIDs,
       ArgInt32 (sum_AggregationTemporality (sumModel_sum model)),
       ArgBool (sum_IsMonotonic (sumModel_sum model))])"

text \<open>\<^verbatim>\<open>sumMetrics.insert\<close> (lines 94-159): the function handed to \<^verbatim>\<open>doWithTx\<close>, then the method.\<close>

definition sumMetrics_insert_fn ::
  "(Map \<Rightarrow> string) \<Rightarrow> driver \<Rightarrow> sumMetrics \<Rightarrow> Tx \<Rightarrow> error option \<times> Tx" where
  "sumMetrics_insert_fn J drv s tx =
     (case Tx_PrepareContext drv (sumMetrics_insertSQL s) tx of
        (Some err, tx1) \<Rightarrow> (Some err, tx1)
      | (None, tx1) \<Rightarrow>
          (case range_loop
                  (\<lambda>model.
                     let resAttr = J (ResAttr (sumModel_metadata model));
                         scopeAttr = J (scope_Attributes (ScopeInstr (sumModel_metadata model)));
                         serviceName = GetServiceName (ResAttr (sumModel_metadata model))
                     in range_loop
                          (\<lambda>dp tx2.
                             case Stmt_ExecContext drv (sumMetrics_insertSQL s)
                                    (sum_args J resAttr scopeAttr serviceName model dp) tx2 of
                               (Some err, tx3) \<Rightarrow> (Some (Errorf ''ExecContext:'' err), tx3)
                             | (None, tx3) \<Rightarrow> (None, tx3))
                          (sum_DataPoints (sumModel_sum model)))
                  (sumMetrics_sumModel s) tx1 of
             (res, tx4) \<Rightarrow> (res, Stmt_Close tx4)))"

definition sumMetrics_insert ::
  "(Map \<Rightarrow> string) \<Rightarrow> driver \<Rightarrow> sumMetrics \<Rightarrow> DB \<Rightarrow> error option \<times> DB" where
  "sumMetrics_insert J drv s db =
     (if sumMetrics_count s = 0 then (None, db)
      else
        (case doWithTx drv db (sumMetrics_insert_fn J drv s) of
           (Some err, db1) \<Rightarrow> (Some (Errorf ''insert sum metrics fail:'' err), db1)
         | (None, db1) \<Rightarrow> (None, db1)))"

text \<open>
  \<^verbatim>\<open>sumMetrics.Add\<close> (lines 161-180). The method changes the receiver in place and returns
  an error: the model returns the error and the receiver after the call.
\<close>

definition sumMetrics_Add ::
  "sumMetrics \<Rightarrow> Map \<Rightarrow> string \<Rightarrow> InstrumentationScope \<Rightarrow> string \<Rightarrow> any_metrics
    \<Rightarrow> string \<Rightarrow> string \<Rightarrow> string \<Rightarrow> error option \<times> sumMetrics" where
  "sumMetrics_Add s resAttr resURL scopeInstr scopeURL metrics name description unit =
     (case metrics of
        AnySum sum_v \<Rightarrow>
          (None,
           s\<lparr>sumMetrics_count := sumMetrics_count s + int (length (sum_DataPoints sum_v)),
             sumMetrics_sumModel := sumMetrics_sumModel s @
               [\<lparr>sumModel_metricName = name,
                 sumModel_metricDescription = description,
                 sumModel_metricUnit = unit,
                 sumModel_metadata =
                   \<lparr>ResAttr = resAttr, ResURL = resURL, ScopeURL = scopeURL,
                    ScopeInstr = scopeInstr\<rparr>,
                 sumModel_sum = sum_v\<rparr>]\<rparr>)
      | _ \<Rightarrow> (Some (errors_New ''metrics param is not type of Sum''), s))"

section \<open>Metrics: gaugeMetrics (src/unnamed/part\_001)\<close>

record gaugeModel =
  gaugeModel_metricName :: string
  gaugeModel_metricDescription :: string
  gaugeModel_metricUnit :: string
  gaugeModel_metadata :: MetricsMetaData
  gaugeModel_gauge :: Gauge

record gaugeMetrics =
  gaugeMetrics_gaugeModels :: "gaugeModel list"
  gaugeMetrics_insertSQL :: string
  gaugeMetrics_count :: int

text \<open>The 21 arguments of the \<^verbatim>\<open>ExecContext\<close> call of lines 113-135, in the order written.\<close>

definition gauge_args ::
  "(Map \<Rightarrow> string) \<Rightarrow> string \<Rightarrow> string \<Rightarrow> string \<Rightarrow> gaugeModel \<Rightarrow> NumberDataPoint \<Rightarrow> arg list" where
  "gauge_args J resAttr scopeAttr serviceName model dp =
     (case convertExemplars J (ndp_Exemplars dp) of (attrs, times', values, traceIDs, spanIDs) \<Rightarrow>
      [ArgString resAttr,
       ArgString (ResURL (gaugeModel_metadata model)),
       ArgString (scope_Name (ScopeInstr (gaugeModel_metadata model))),
       ArgString (scope_Version (ScopeInstr (gaugeModel_metadata model))),
       ArgString scopeAttr,
       ArgUint32 (scope_DroppedAttributesCount (ScopeInstr (gaugeModel_metadata model))),
       ArgString (ScopeURL (gaugeModel_metadata model)),
       ArgString serviceName,
       ArgString (gaugeModel_metricName model),
       ArgString (gaugeModel_metricDescription model),
       ArgString (gaugeModel_metricUnit model),
       ArgString (J (ndp_Attributes dp)),
       ArgTime (AsTime (ndp_StartTimestamp dp)),
       ArgTime (AsTime (ndp_Timestamp dp)),
       ArgFloat64 (getValue (ndp_IntValue dp) (ndp_DoubleValue dp) (ndp_ValueType dp)),
       ArgUint32 (ndp_Flags dp),
       attrs,
       times',
       values,
       spanIDs,
       traceIDs])"

text \<open>\<^verbatim>\<open>gaugeMetrics.insert\<close> (lines 90-149): the function handed to \<^verbatim>\<open>doWithTx\<close>, then the method.\<close>

definition gaugeMetrics_insert_fn ::
  "(Map \<Rightarrow> string) \<Rightarrow> driver \<Rightarrow> gaugeMetrics \<Rightarrow> Tx \<Rightarrow> error option \<times> Tx" where
  "gaugeMetrics_insert_fn J drv g tx =
     (case Tx_PrepareContext drv (gaugeMetrics_insertSQL g) tx of
        (Some err, tx1) \<Rightarrow> (Some err, tx1)
      | (None, tx1) \<Rightarrow>
          (case range_loop
                  (\<lambda>model.
                     let resAttr = J (ResAttr (gaugeModel_metadata model));
                         scopeAttr = J (scope_Attributes (ScopeInstr (gaugeModel_metadata model)));
                         serviceName = GetServiceName (ResAttr (gaugeModel_metadata model))
                     in range_loop
                          (\<lambda>dp tx2.
                             case Stmt_ExecContext drv (gaugeMetrics_insertSQL g)
                                    (gauge_args J resAttr scopeAttr serviceName model dp) tx2 of
                               (Some err, tx3) \<Rightarrow> (Some (Errorf ''ExecContext:'' err), tx3)
                             | (None, tx3) \<Rightarrow> (None, tx3))
                          (gauge_DataPoints (gaugeModel_gauge model)))
                  (gaugeMetrics_gaugeModels g) tx1 of
             (res, tx4) \<Rightarrow> (res, Stmt_Close tx4)))"

definition gaugeMetrics_insert ::
  "(Map \<Rightarrow> string) \<Rightarrow> driver \<Rightarrow> gaugeMetrics \<Rightarrow> DB \<Rightarrow> error option \<times> DB" where
  "gaugeMetrics_insert J drv g db =
     (if gaugeMetrics_count g = 0 then (None, db)
      else
        (case doWithTx drv db (gaugeMetrics_insert_fn J drv g) of
           (Some err, db1) \<Rightarrow> (Some (Errorf ''insert gauge metrics fail:'' err), db1)
         | (None, db1) \<Rightarrow> (None, db1)))"

text \<open>
  \<^verbatim>\<open>gaugeMetrics.Add\<close> (lines 151-170). The method changes the receiver in place and returns
  an error: the model returns the error and the receiver after the call.
\<close>

definition gaugeMetrics_Add ::
  "gaugeMetrics \<Rightarrow> Map \<Rightarrow> string \<Rightarrow> InstrumentationScope \<Rightarrow> string \<Rightarrow> any_metrics
    \<Rightarrow> string \<Rightarrow> string \<Rightarrow> string \<Rightarrow> error option \<times> gaugeMetrics" where
  "gaugeMetrics_Add g resAttr resURL scopeInstr scopeURL metrics name description unit =
     (case metrics of
        AnyGauge gauge \<Rightarrow>
          (None,
           g\<lparr>gaugeMetrics_count := gaugeMetrics_count g + int (length (gauge_DataPoints gauge)),
             gaugeMetrics_gaugeModels := gaugeMetrics_gaugeModels g @
               [\<lparr>gaugeModel_metricName = name,
                 gaugeModel_metricDescription = description,
                 gaugeModel_metricUnit = unit,
                 gaugeModel_metadata =
                   \<lparr>ResAttr = resAttr, ResURL = resURL, ScopeURL = scopeURL,
                    ScopeInstr = scopeInstr\<rparr>,
                 gaugeModel_gauge = gauge\<rparr>]\<rparr>)
      | _ \<Rightarrow> (Some (errors_New ''metrics param is not type of Gauge''), g))"

section \<open>Metrics: histogramMetrics (src/unnamed/part\_003)\<close>

record histogramModel =
  histogramModel_metricName :: string
  histogramModel_metricDescription :: string
  histogramModel_metricUnit :: string
  histogramModel_metadata :: MetricsMetaData
  histogramModel_histogram :: Histogram

record histogramMetrics =
  histogramMetrics_histogramModel :: "histogramModel list"
  histogramMetrics_insertSQL :: string
  histogramMetrics_count :: int

text \<open>The 27 arguments of the \<^verbatim>\<open>ExecContext\<close> call of lines 125-153, in the order written.\<close>

definition histogram_args ::
  "(Map \<Rightarrow> string) \<Rightarrow> string \<Rightarrow> string \<Rightarrow> string \<Rightarrow> histogramModel \<Rightarrow> HistogramDataPoint \<Rightarrow> arg list" where
  "histogram_args J resAttr scopeAttr serviceName model dp =
     (case convertExemplars J (hdp_Exemplars dp) of (attrs, times', values, traceIDs, spanIDs) \<Rightarrow>
      [ArgString resAttr,
       ArgString (ResURL (histogramModel_metadata model)),
       ArgString (scope_Name (ScopeInstr (histogramModel_metadata model))),
       ArgString (scope_Version (ScopeInstr (histogramModel_metadata model))),
       ArgString scopeAttr,
       ArgUint32 (scope_DroppedAttributesCount (ScopeInstr (histogramModel_metadata model))),
       ArgString (ScopeURL (histogramModel_metadata model)),
       ArgString serviceName,
       ArgString (histogramModel_metricName model),
       ArgString (histogramModel_metricDescription model),
       ArgString (histogramModel_metricUnit model),
       ArgString (J (hdp_Attributes dp)),
       ArgTime (AsTime (hdp_StartTimestamp dp)),
       ArgTime (AsTime (hdp_Timestamp dp)),
       ArgUint64 (hdp_Count dp),
       ArgFloat64 (hdp_Sum dp),
       convertSliceToArraySet ArgUint64 (hdp_BucketCounts dp),
       convertSliceToArraySet ArgFloat64 (hdp_ExplicitBounds dp),
       attrs,
       times',
       values,
       spanIDs,
       traceIDs,
       ArgUint32 (hdp_Flags dp),
       ArgFloat64 (hdp_Min dp),
       ArgFloat64 (hdp_Max dp),
       ArgInt32 (histogram_AggregationTemporality (histogramModel_histogram model))])"

text \<open>\<^verbatim>\<open>histogramMetrics.insert\<close> (lines 102-171): the function handed to \<^verbatim>\<open>doWithTx\<close>, then the method.\<close>

definition histogramMetrics_insert_fn ::
  "(Map \<Rightarrow> string) \<Rightarrow> driver \<Rightarrow> histogramMetrics \<Rightarrow> Tx \<Rightarrow> error option \<times> Tx" where
  "histogramMetrics_insert_fn J drv h tx =
     (case Tx_PrepareContext drv (histogramMetrics_insertSQL h) tx of
        (Some err, tx1) \<Rightarrow> (Some err, tx1)
      | (None, tx1) \<Rightarrow>
          (case range_loop
                  (\<lambda>model.
                     let resAttr = J (ResAttr (histogramModel_metadata model));
                         scopeAttr = J (scope_Attributes (ScopeInstr (histogramModel_metadata model)));
                         serviceName = GetServiceName (ResAttr (histogramModel_metadata model))
                     in range_loop
                          (\<lambda>dp tx2.
                             case Stmt_ExecContext drv (histogramMetrics_insertSQL h)
                                    (histogram_args J resAttr scopeAttr serviceName model dp) tx2 of
                               (Some err, tx3) \<Rightarrow> (Some (Errorf ''ExecContext:'' err), tx3)
                             | (None, tx3) \<Rightarrow> (None, tx3))
                          (histogram_DataPoints (histogramModel_histogram model)))
                  (histogramMetrics_histogramModel h) tx1 of
             (res, tx4) \<Rightarrow> (res, Stmt_Close tx4)))"

definition histogramMetrics_insert ::
  "(Map \<Rightarrow> string) \<Rightarrow> driver \<Rightarrow> histogramMetrics \<Rightarrow> DB \<Rightarrow> error option \<times> DB" where
  "histogramMetrics_insert J drv h db =
     (if histogramMetrics_count h = 0 then (None, db)
      else
        (case doWithTx drv db (histogramMetrics_insert_fn J drv h) of
           (Some err, db1) \<Rightarrow> (Some (Errorf ''insert histogram metrics fail:'' err), db1)
         | (None, db1) \<Rightarrow> (None, db1)))"

text \<open>
  \<^verbatim>\<open>histogramMetrics.Add\<close> (lines 173-192). The method changes the receiver in place and returns
  an error: the model returns the error and the receiver after the call.
\<close>

definition histogramMetrics_Add ::
  "histogramMetrics \<Rightarrow> Map \<Rightarrow> string \<Rightarrow> InstrumentationScope \<Rightarrow> string \<Rightarrow> any_metrics
    \<Rightarrow> string \<Rightarrow> string \<Rightarrow> string \<Rightarrow> error option \<times> histogramMetrics" where
  "histogramMetrics_Add h resAttr resURL scopeInstr scopeURL metrics name description unit =
     (case metrics of
        AnyHistogram histogram \<Rightarrow>
          (None,
           h\<lparr>histogramMetrics_count := histogramMetrics_count h + int (length (histogram_DataPoints histogram)),
             histogramMetrics_histogramModel := histogramMetrics_histogramModel h @
               [\<lparr>histogramModel_metricName = name,
                 histogramModel_metricDescription = description,
                 histogramModel_metricUnit = unit,
                 histogramModel_metadata =
                   \<lparr>ResAttr = resAttr, ResURL = resURL, ScopeURL = scopeURL,
                    ScopeInstr = scopeInstr\<rparr>,
                 histogramModel_histogram = histogram\<rparr>]\<rparr>)
      | _ \<Rightarrow> (Some (errors_New ''metrics param is not type of Histogram''), h))"

section \<open>Metrics: expHistogramMetrics (src/exporter/clickhouse/internal/exponential\_histogram\_metrics.go)\<close>

record expHistogramModel =
  expHistogramModel_metricName :: string
  expHistogramModel_metricDescription :: string
  expHistogramModel_metricUnit :: string
  expHistogramModel_metadata :: MetricsMetaData
  expHistogramModel_expHistogram :: ExponentialHistogram

record expHistogramMetrics =
  expHistogramMetrics_expHistogramModels :: "expHistogramModel list"
  expHistogramMetrics_insertSQL :: string
  expHistogramMetrics_count :: int

text \<open>The 31 arguments of the \<^verbatim>\<open>ExecContext\<close> call of lines 134-166, in the order written.\<close>

definition expHistogram_args ::
  "(Map \<Rightarrow> string) \<Rightarrow> string \<Rightarrow> string \<Rightarrow> string \<Rightarrow> expHistogramModel \<Rightarrow> ExponentialHistogramDataPoint \<Rightarrow> arg list" where
  "expHistogram_args J resAttr scopeAttr serviceName model dp =
     (case convertExemplars J (edp_Exemplars dp) of (attrs, times', values, traceIDs, spanIDs) \<Rightarrow>
      [ArgString resAttr,
       ArgString (ResURL (expHistogramModel_metadata model)),
       ArgString (scope_Name (ScopeInstr (expHistogramModel_metadata model))),
       ArgString (scope_Version (ScopeInstr (expHistogramModel_metadata model))),
       ArgString scopeAttr,
       ArgUint32 (scope_DroppedAttributesCount (ScopeInstr (expHistogramModel_metadata model))),
       ArgString (ScopeURL (expHistogramModel_metadata model)),
       ArgString serviceName,
       ArgString (expHistogramModel_metricName model),
       ArgString (expHistogramModel_metricDescription model),
       ArgString (expHistogramModel_metricUnit model),
       ArgString (J (edp_Attributes dp)),
       ArgTime (AsTime (edp_StartTimestamp dp)),
       ArgTime (AsTime (edp_Timestamp dp)),
       ArgUint64 (edp_Count dp),
       ArgFloat64 (edp_Sum dp),
       ArgInt32 (edp_Scale dp),
       ArgUint64 (edp_ZeroCount dp),
       ArgInt32 (buckets_Offset (edp_Positive dp)),
       convertSliceToArraySet ArgUint64 (buckets_BucketCounts (edp_Positive dp)),
       ArgInt32 (buckets_Offset (edp_Negative dp)),
       convertSliceToArraySet ArgUint64 (buckets_BucketCounts (edp_Negative dp)),
       attrs,
       times',
       values,
       spanIDs,
       traceIDs,
       ArgUint32 (edp_Flags dp),
       ArgFloat64 (edp_Min dp),
       ArgFloat64 (edp_Max dp),
       ArgInt32 (expHistogram_AggregationTemporality (expHistogramModel_expHistogram model))])"

text \<open>\<^verbatim>\<open>expHistogramMetrics.insert\<close> (lines 110-184): the function handed to \<^verbatim>\<open>doWithTx\<close>, then the method.\<close>

definition expHistogramMetrics_insert_fn ::
  "(Map \<Rightarrow> string) \<Rightarrow> driver \<Rightarrow> expHistogramMetrics \<Rightarrow> Tx \<Rightarrow> error option \<times> Tx" where
  "expHistogramMetrics_insert_fn J drv e tx =
     (case Tx_PrepareContext drv (expHistogramMetrics_insertSQL e) tx of
        (Some err, tx1) \<Rightarrow> (Some err, tx1)
      | (None, tx1) \<Rightarrow>
          (case range_loop
                  (\<lambda>model.
                     let resAttr = J (ResAttr (expHistogramModel_metadata model));
                         scopeAttr = J (scope_Attributes (ScopeInstr (expHistogramModel_metadata model)));
                         serviceName = GetServiceName (ResAttr (expHistogramModel_metadata model))
                     in range_loop
                          (\<lambda>dp tx2.
                             case Stmt_ExecContext drv (expHistogramMetrics_insertSQL e)
                                    (expHistogram_args J resAttr scopeAttr serviceName model dp) tx2 of
                               (Some err, tx3) \<Rightarrow> (Some (Errorf ''ExecContext:'' err), tx3)
                             | (None, tx3) \<Rightarrow> (None, tx3))
                          (expHistogram_DataPoints (expHistogramModel_expHistogram model)))
                  (expHistogramMetrics_expHistogramModels e) tx1 of
             (res, tx4) \<Rightarrow> (res, Stmt_Close tx4)))"

definition expHistogramMetrics_insert ::
  "(Map \<Rightarrow> string) \<Rightarrow> driver \<Rightarrow> expHistogramMetrics \<Rightarrow> DB \<Rightarrow> error option \<times> DB" where
  "expHistogramMetrics_insert J drv e db =
     (if expHistogramMetrics_count e = 0 then (None, db)
      else
        (case doWithTx drv db (expHistogramMetrics_insert_fn J drv e) of
           (Some err, db1) \<Rightarrow> (Some (Errorf ''insert exponential histogram metrics fail:'' err), db1)
         | (None, db1) \<Rightarrow> (None, db1)))"

text \<open>
  \<^verbatim>\<open>expHistogramMetrics.Add\<close> (lines 186-206). The method changes the receiver in place and returns
  an error: the model returns the error and the receiver after the call.
\<close>

definition expHistogramMetrics_Add ::
  "expHistogramMetrics \<Rightarrow> Map \<Rightarrow> string \<Rightarrow> InstrumentationScope \<Rightarrow> string \<Rightarrow> any_metrics
    \<Rightarrow> string \<Rightarrow> string \<Rightarrow> string \<Rightarrow> error option \<times> expHistogramMetrics" where
  "expHistogramMetrics_Add e resAttr resURL scopeInstr scopeURL metrics name description unit =
     (case metrics of
        AnyExponentialHistogram expHistogram \<Rightarrow>
          (None,
           e\<lparr>expHistogramMetrics_count := expHistogramMetrics_count e + int (length (expHistogram_DataPoints expHistogram)),
             expHistogramMetrics_expHistogramModels := expHistogramMetrics_expHistogramModels e @
               [\<lparr>expHistogramModel_metricName = name,
                 expHistogramModel_metricDescription = description,
                 expHistogramModel_metricUnit = unit,
                 expHistogramModel_metadata =
                   \<lparr>ResAttr = resAttr, ResURL = resURL, ScopeURL = scopeURL,
                    ScopeInstr = scopeInstr\<rparr>,
                 expHistogramModel_expHistogram = expHistogram\<rparr>]\<rparr>)
      | _ \<Rightarrow> (Some (errors_New ''metrics param is not type of ExponentialHistogram''), e))"

section \<open>Metrics: summaryMetrics (src/unnamed/part\_003)\<close>

record summaryModel =
  summaryModel_metricName :: string
  summaryModel_metricDescription :: string
  summaryModel_metricUnit :: string
  summaryModel_metadata :: MetricsMetaData
  summaryModel_summary :: Summary

record summaryMetrics =
  summaryMetrics_summaryModel :: "summaryModel list"
  summaryMetrics_insertSQL :: string
  summaryMetrics_count :: int

text \<open>The 19 arguments of the \<^verbatim>\<open>ExecContext\<close> call of lines 300-320, in the order written.\<close>

definition summary_args ::
  "(Map \<Rightarrow> string) \<Rightarrow> string \<Rightarrow> string \<Rightarrow> string \<Rightarrow> summaryModel \<Rightarrow> SummaryDataPoint \<Rightarrow> arg list" where
  "summary_args J resAttr scopeAttr serviceName model dp =
     (case convertValueAtQuantile (sdp_QuantileValues dp) of (quantiles, values) \<Rightarrow>
      [ArgString resAttr,
       ArgString (ResURL (summaryModel_metadata model)),
       ArgString (scope_Name (ScopeInstr (summaryModel_metadata model))),
       ArgString (scope_Version (ScopeInstr (summaryModel_metadata model))),
       ArgString scopeAttr,
       ArgUint32 (scope_DroppedAttributesCount (ScopeInstr (summaryModel_metadata model))),
       ArgString (ScopeURL (summaryModel_metadata model)),
       ArgString serviceName,
       ArgString (summaryModel_metricName model),
       ArgString (summaryModel_metricDescription model),
       ArgString (summaryModel_metricUnit model),
       ArgString (J (sdp_Attributes dp)),
       ArgTime (AsTime (sdp_StartTimestamp dp)),
       ArgTime (AsTime (sdp_Timestamp dp)),
       ArgUint64 (sdp_Count dp),
       ArgFloat64 (sdp_Sum dp),
       quantiles,
       values,
       ArgUint32 (sdp_Flags dp)])"

text \<open>\<^verbatim>\<open>summaryMetrics.insert\<close> (lines 278-339): the function handed to \<^verbatim>\<open>doWithTx\<close>, then the method.\<close>

definition summaryMetrics_insert_fn ::
  "(Map \<Rightarrow> string) \<Rightarrow> driver \<Rightarrow> summaryMetrics \<Rightarrow> Tx \<Rightarrow> error option \<times> Tx" where
  "summaryMetrics_insert_fn J drv s tx =
     (case Tx_PrepareContext drv (summaryMetrics_insertSQL s) tx of
        (Some err, tx1) \<Rightarrow> (Some err, tx1)
      | (None, tx1) \<Rightarrow>
          (case range_loop
                  (\<lambda>model.
                     let resAttr = J (ResAttr (summaryModel_metadata model));
                         scopeAttr = J (scope_Attributes (ScopeInstr (summaryModel_metadata model)));
                         serviceName = GetServiceName (ResAttr (summaryModel_metadata model))
                     in range_loop
                          (\<lambda>dp tx2.
                             case Stmt_ExecContext drv (summaryMetrics_insertSQL s)
                                    (summary_args J resAttr scopeAttr serviceName model dp) tx2 of
                               (Some err, tx3) \<Rightarrow> (Some (Errorf ''ExecContext:'' err), tx3)
                             | (None, tx3) \<Rightarrow> (None, tx3))
                          (summary_DataPoints (summaryModel_summary model)))
                  (summaryMetrics_summaryModel s) tx1 of
             (res, tx4) \<Rightarrow> (res, Stmt_Close tx4)))"

definition summaryMetrics_insert ::
  "(Map \<Rightarrow> string) \<Rightarrow> driver \<Rightarrow> summaryMetrics \<Rightarrow> DB \<Rightarrow> error option \<times> DB" where
  "summaryMetrics_insert J drv s db =
     (if summaryMetrics_count s = 0 then (None, db)
      else
        (case doWithTx drv db (summaryMetrics_insert_fn J drv s) of
           (Some err, db1) \<Rightarrow> (Some (Errorf ''insert summary metrics fail:'' err), db1)
         | (None, db1) \<Rightarrow> (None, db1)))"

text \<open>
  \<^verbatim>\<open>summaryMetrics.Add\<close> (lines 341-360). The method changes the receiver in place and returns
  an error: the model returns the error and the receiver after the call.
\<close>

definition summaryMetrics_Add ::
  "summaryMetrics \<Rightarrow> Map \<Rightarrow> string \<Rightarrow> InstrumentationScope \<Rightarrow> string \<Rightarrow> any_metrics
    \<Rightarrow> string \<Rightarrow> string \<Rightarrow> string \<Rightarrow> error option \<times> summaryMetrics" where
  "summaryMetrics_Add s resAttr resURL scopeInstr scopeURL metrics name description unit =
     (case metrics of
        AnySummary summary \<Rightarrow>
          (None,
           s\<lparr>summaryMetrics_count := summaryMetrics_count s + int (length (summary_DataPoints summary)),
             summaryMetrics_summaryModel := summaryMetrics_summaryModel s @
               [\<lparr>summaryModel_metricName = name,
                 summaryModel_metricDescription = description,
                 summaryModel_metricUnit = unit,
                 summaryModel_metadata =
                   \<lparr>ResAttr = resAttr, ResURL = resURL, ScopeURL = scopeURL,
                    ScopeInstr = scopeInstr\<rparr>,
                 summaryModel_summary = summary\<rparr>]\<rparr>)
      | _ \<Rightarrow> (Some (errors_New ''metrics param is not type of Summary''), s))"

section \<open>The rows of a push, in accumulation order\<close>

text \<open>
  The argument lists a push hands to \<^verbatim>\<open>ExecContext\<close> when no call fails, in the order of
  the tree walk: what the loops of the push functions compute, written as lists. The
  values bound outside the innermost loop (\<^verbatim>\<open>resAttr\<close>, \<^verbatim>\<open>scopeAttr\<close>, \<^verbatim>\<open>serviceName\<close>, ...)
  are the ones the loops bind.
\<close>

definition traces_row :: "(Map \<Rightarrow> string) \<Rightarrow> ResourceSpans \<Rightarrow> ScopeSpans \<Rightarrow> Span \<Rightarrow> arg list" where
  "traces_row J spans scope r =
     traces_args J (GetServiceName (rs_ResourceAttributes spans)) (J (rs_ResourceAttributes spans))
       (ss_ScopeName scope) (ss_ScopeVersion scope) r"

definition traces_rows :: "(Map \<Rightarrow> string) \<Rightarrow> Traces \<Rightarrow> arg list list" where
  "traces_rows J td =
     concat (map (\<lambda>spans. concat (map (\<lambda>scope. map (traces_row J spans scope) (ss_Spans scope))
       (rs_ScopeSpans spans))) td)"

definition logs_row :: "(Map \<Rightarrow> string) \<Rightarrow> ResourceLogs \<Rightarrow> ScopeLogs \<Rightarrow> LogRecord \<Rightarrow> arg list" where
  "logs_row J logs scope r =
     logs_args J (GetServiceName (rl_ResourceAttributes logs)) (rl_SchemaUrl logs)
       (J (rl_ResourceAttributes logs)) (sl_SchemaUrl scope) (sl_ScopeName scope)
       (sl_ScopeVersion scope) (J (sl_ScopeAttributes scope)) r"

definition logs_rows :: "(Map \<Rightarrow> string) \<Rightarrow> Logs \<Rightarrow> arg list list" where
  "logs_rows J ld =
     concat (map (\<lambda>logs. concat (map (\<lambda>scope. map (logs_row J logs scope) (sl_LogRecords scope))
       (rl_ScopeLogs logs))) ld)"

definition sum_row :: "(Map \<Rightarrow> string) \<Rightarrow> sumModel \<Rightarrow> NumberDataPoint \<Rightarrow> arg list" where
  "sum_row J model dp =
     sum_args J (J (ResAttr (sumModel_metadata model)))
       (J (scope_Attributes (ScopeInstr (sumModel_metadata model))))
       (GetServiceName (ResAttr (sumModel_metadata model))) model dp"

definition sum_rows :: "(Map \<Rightarrow> string) \<Rightarrow> sumMetrics \<Rightarrow> arg list list" where
  "sum_rows J s =
     concat (map (\<lambda>model. map (sum_row J model) (sum_DataPoints (sumModel_sum model)))
       (sumMetrics_sumModel s))"

definition gauge_row :: "(Map \<Rightarrow> string) \<Rightarrow> gaugeModel \<Rightarrow> NumberDataPoint \<Rightarrow> arg list" where
  "gauge_row J model dp =
     gauge_args J (J (ResAttr (gaugeModel_metadata model)))
       (J (scope_Attributes (ScopeInstr (gaugeModel_metadata model))))
       (GetServiceName (ResAttr (gaugeModel_metadata model))) model dp"

definition gauge_rows :: "(Map \<Rightarrow> string) \<Rightarrow> gaugeMetrics \<Rightarrow> arg list list" where
  "gauge_rows J g =
     concat (map (\<lambda>model. map (gauge_row J model) (gauge_DataPoints (gaugeModel_gauge model)))
       (gaugeMetrics_gaugeModels g))"

definition histogram_row ::
  "(Map \<Rightarrow> string) \<Rightarrow> histogramModel \<Rightarrow> HistogramDataPoint \<Rightarrow> arg list" where
  "histogram_row J model dp =
     histogram_args J (J (ResAttr (histogramModel_metadata model)))
       (J (scope_Attributes (ScopeInstr (histogramModel_metadata model))))
       (GetServiceName (ResAttr (histogramModel_metadata model))) model dp"

definition histogram_rows :: "(Map \<Rightarrow> string) \<Rightarrow> histogramMetrics \<Rightarrow> arg list list" where
  "histogram_rows J h =
     concat (map (\<lambda>model. map (histogram_row J model)
         (histogram_DataPoints (histogramModel_histogram model)))
       (histogramMetrics_histogramModel h))"

definition expHistogram_row ::
  "(Map \<Rightarrow> string) \<Rightarrow> expHistogramModel \<Rightarrow> ExponentialHistogramDataPoint \<Rightarrow> arg list" where
  "expHistogram_row J model dp =
     expHistogram_args J (J (ResAttr (expHistogramModel_metadata model)))
       (J (scope_Attributes (ScopeInstr (expHistogramModel_metadata model))))
       (GetServiceName (ResAttr (expHistogramModel_metadata model))) model dp"

definition expHistogram_rows :: "(Map \<Rightarrow> string) \<Rightarrow> expHistogramMetrics \<Rightarrow> arg list list" where
  "expHistogram_rows J e =
     concat (map (\<lambda>model. map (expHistogram_row J model)
         (expHistogram_DataPoints (expHistogramModel_expHistogram model)))
       (expHistogramMetrics_expHistogramModels e))"

definition summary_row :: "(Map \<Rightarrow> string) \<Rightarrow> summaryModel \<Rightarrow> SummaryDataPoint \<Rightarrow> arg list" where
  "summary_row J model dp =
     summary_args J (J (ResAttr (summaryModel_metadata model)))
       (J (scope_Attributes (ScopeInstr (summaryModel_metadata model))))
       (GetServiceName (ResAttr (summaryModel_metadata model))) model dp"

definition summary_rows :: "(Map \<Rightarrow> string) \<Rightarrow> summaryMetrics \<Rightarrow> arg list list" where
  "summary_rows J s =
     concat (map (\<lambda>model. map (summary_row J model) (summary_DataPoints (summaryModel_summary model)))
       (summaryMetrics_summaryModel s))"

section \<open>One push of one signal kind\<close>

text \<open>
  The seven pushes of the exporter, with what each one runs: \<^verbatim>\<open>pushTraceData\<close> and
  \<^verbatim>\<open>pushLogsData\<close> with the insert statement of their exporter, and the \<^verbatim>\<open>insert\<close> of each
  of the five metrics groups.
\<close>

datatype push =
    PushTraces string Traces
  | PushLogs string Logs
  | InsertSum sumMetrics
  | InsertGauge gaugeMetrics
  | InsertHistogram histogramMetrics
  | InsertExpHistogram expHistogramMetrics
  | InsertSummary summaryMetrics

fun run_push :: "(Map \<Rightarrow> string) \<Rightarrow> driver \<Rightarrow> DB \<Rightarrow> push \<Rightarrow> error option \<times> DB" where
  "run_push J drv db (PushTraces insertSQL td) = pushTraceData J drv insertSQL db td"
| "run_push J drv db (PushLogs insertSQL ld) = pushLogsData J drv insertSQL db ld"
| "run_push J drv db (InsertSum s) = sumMetrics_insert J drv s db"
| "run_push J drv db (InsertGauge g) = gaugeMetrics_insert J drv g db"
| "run_push J drv db (InsertHistogram h) = histogramMetrics_insert J drv h db"
| "run_push J drv db (InsertExpHistogram e) = expHistogramMetrics_insert J drv e db"
| "run_push J drv db (InsertSummary s) = summaryMetrics_insert J drv s db"

fun push_rows :: "(Map \<Rightarrow> string) \<Rightarrow> push \<Rightarrow> arg list list" where
  "push_rows J (PushTraces insertSQL td) = traces_rows J td"
| "push_rows J (PushLogs insertSQL ld) = logs_rows J ld"
| "push_rows J (InsertSum s) = sum_rows J s"
| "push_rows J (InsertGauge g) = gauge_rows J g"
| "push_rows J (InsertHistogram h) = histogram_rows J h"
| "push_rows J (InsertExpHistogram e) = expHistogram_rows J e"
| "push_rows J (InsertSummary s) = summary_rows J s"

fun push_insertSQL :: "push \<Rightarrow> string" where
  "push_insertSQL (PushTraces insertSQL td) = insertSQL"
| "push_insertSQL (PushLogs insertSQL ld) = insertSQL"
| "push_insertSQL (InsertSum s) = sumMetrics_insertSQL s"
| "push_insertSQL (InsertGauge g) = gaugeMetrics_insertSQL g"
| "push_insertSQL (InsertHistogram h) = histogramMetrics_insertSQL h"
| "push_insertSQL (InsertExpHistogram e) = expHistogramMetrics_insertSQL e"
| "push_insertSQL (InsertSummary s) = summaryMetrics_insertSQL s"

text \<open>
  The row count a metrics group keeps. \<^verbatim>\<open>Add\<close> is the only function that changes a group,
  and it adds the number of data points it appends: in every group built by \<^verbatim>\<open>Add\<close> from
  the empty one, the count is the number of accumulated rows.
\<close>

fun push_count :: "push \<Rightarrow> int option" where
  "push_count (PushTraces insertSQL td) = None"
| "push_count (PushLogs insertSQL ld) = None"
| "push_count (InsertSum s) = Some (sumMetrics_count s)"
| "push_count (InsertGauge g) = Some (gaugeMetrics_count g)"
| "push_count (InsertHistogram h) = Some (histogramMetrics_count h)"
| "push_count (InsertExpHistogram e) = Some (expHistogramMetrics_count e)"
| "push_count (InsertSummary s) = Some (summaryMetrics_count s)"

definition count_consistent :: "(Map \<Rightarrow> string) \<Rightarrow> push \<Rightarrow> bool" where
  "count_consistent J p =
     (case push_count p of None \<Rightarrow> True | Some c \<Rightarrow> c = int (length (push_rows J p)))"

text \<open>The argument lists of the \<^verbatim>\<open>ExecContext\<close> calls among a sequence of calls, in order.\<close>

fun execs :: "call list \<Rightarrow> arg list list" where
  "execs [] = []"
| "execs (ExecContext args # cs) = args # execs cs"
| "execs (c # cs) = execs cs"

text \<open>
  The first row whose execution the driver refuses, counting from the \<open>n\<close> rows already
  pending, with the driver's error.
\<close>

fun first_failure :: "driver \<Rightarrow> nat \<Rightarrow> arg list list \<Rightarrow> (nat \<times> error) option" where
  "first_failure drv n [] = None"
| "first_failure drv n (row # rows) =
     (case ExecErr drv n row of
        Some err \<Rightarrow> Some (n, err)
      | None \<Rightarrow> first_failure drv (Suc n) rows)"

text \<open>
  What one transactional push of the rows \<open>rows\<close> with the statement \<open>query\<close> comes to,
  by the first call the driver refuses. \<open>wrap\<close> is what the push does to the error of
  \<^verbatim>\<open>PrepareContext\<close>.
\<close>

definition tx_outcome ::
  "(error \<Rightarrow> error) \<Rightarrow> driver \<Rightarrow> string \<Rightarrow> arg list list \<Rightarrow> DB \<Rightarrow> error option \<times> DB" where
  "tx_outcome wrap drv query rows db =
     (case BeginErr drv of
        Some err \<Rightarrow> (Some (Errorf ''db.Begin: '' err), db\<lparr>calls := calls db @ [Begin]\<rparr>)
      | None \<Rightarrow>
     (case PrepareErr drv query of
        Some err \<Rightarrow>
          (Some (wrap err), db\<lparr>calls := calls db @ [Begin, PrepareContext query, Rollback]\<rparr>)
      | None \<Rightarrow>
     (case first_failure drv 0 rows of
        Some (k, err) \<Rightarrow>
          (Some (Errorf ''ExecContext:'' err),
           db\<lparr>calls := calls db @ [Begin, PrepareContext query]
                    @ map ExecContext (take (Suc k) rows) @ [Close, Rollback]\<rparr>)
      | None \<Rightarrow>
     (case CommitErr drv of
        Some err \<Rightarrow>
          (Some err,
           db\<lparr>calls := calls db @ [Begin, PrepareContext query]
                    @ map ExecContext rows @ [Close, Commit, Rollback]\<rparr>)
      | None \<Rightarrow>
          (None,
           \<lparr>stored = stored db @ map (Pair query) rows,
            calls = calls db @ [Begin, PrepareContext query]
                    @ map ExecContext rows @ [Close, Commit, Rollback]\<rparr>)))))"

text \<open>
  The body of the innermost loop of every push: one \<^verbatim>\<open>ExecContext\<close>, whose error leaves
  the function as \<^verbatim>\<open>fmt.Errorf("ExecContext:%w", err)\<close>.
\<close>

definition exec_row :: "driver \<Rightarrow> string \<Rightarrow> arg list \<Rightarrow> Tx \<Rightarrow> error option \<times> Tx" where
  "exec_row drv query args tx =
     (case Stmt_ExecContext drv query args tx of
        (Some err, tx') \<Rightarrow> (Some (Errorf ''ExecContext:'' err), tx')
      | (None, tx') \<Rightarrow> (None, tx'))"

text \<open>The shape the function handed to \<^verbatim>\<open>doWithTx\<close> has in all seven pushes.\<close>

definition prepare_exec_close ::
  "(error \<Rightarrow> error) \<Rightarrow> driver \<Rightarrow> string \<Rightarrow> arg list list \<Rightarrow> Tx \<Rightarrow> error option \<times> Tx" where
  "prepare_exec_close wrap drv query rows tx =
     (case Tx_PrepareContext drv query tx of
        (Some err, tx1) \<Rightarrow> (Some (wrap err), tx1)
      | (None, tx1) \<Rightarrow>
          (case range_loop (exec_row drv query) rows tx1 of
             (res, tx4) \<Rightarrow> (res, Stmt_Close tx4)))"

section \<open>The SQL statements of the exporter\<close>

text \<open>
  The SQL constants of the sources, character by character (\<open>CHR 0x09\<close> is a tab,
  \<open>CHR 0x27\<close> a single quote). Each is a \<^verbatim>\<open>fmt.Sprintf\<close> template.
\<close>

text \<open>exporter/clickhouse/exporter\_traces.go, lines 149-184.\<close>

definition createTracesTableSQL :: string where
  "createTracesTableSQL =
     ''\<newline>''
   @ ''CREATE TABLE IF NOT EXISTS %s %s (\<newline>''
   @ [CHR 0x09] @ ''Timestamp DateTime64(9) CODEC(Delta, ZSTD(1)),\<newline>''
   @ [CHR 0x09] @ ''TraceId String CODEC(ZSTD(1)),\<newline>''
   @ [CHR 0x09] @ ''SpanId String CODEC(ZSTD(1)),\<newline>''
   @ [CHR 0x09] @ ''ParentSpanId String CODEC(ZSTD(1)),\<newline>''
   @ [CHR 0x09] @ ''TraceState String CODEC(ZSTD(1)),\<newline>''
   @ [CHR 0x09] @ ''SpanName LowCardinality(String) CODEC(ZSTD(1)),\<newline>''
   @ [CHR 0x09] @ ''SpanKind LowCardinality(String) CODEC(ZSTD(1)),\<newline>''
   @ [CHR 0x09] @ ''ServiceName LowCardinality(String) CODEC(ZSTD(1)),\<newline>''
   @ [CHR 0x09] @ ''ResourceAttributes JSON,\<newline>''
   @ [CHR 0x09] @ ''ScopeName String CODEC(ZSTD(1)),\<newline>''
   @ [CHR 0x09] @ ''ScopeVersion String CODEC(ZSTD(1)),\<newline>''
   @ [CHR 0x09] @ ''SpanAttributes JSON,\<newline>''
   @ [CHR 0x09] @ ''Duration UInt64 CODEC(ZSTD(1)),\<newline>''
   @ [CHR 0x09] @ ''StatusCode LowCardinality(String) CODEC(ZSTD(1)),\<newline>''
   @ [CHR 0x09] @ ''StatusMessage String CODEC(ZSTD(1)),\<newline>''
   @ [CHR 0x09] @ ''Events Nested (\<newline>''
   @ [CHR 0x09, CHR 0x09] @ ''Timestamp DateTime64(9),\<newline>''
   @ [CHR 0x09, CHR 0x09] @ ''Name LowCardinality(String),\<newline>''
   @ [CHR 0x09, CHR 0x09] @ ''Attributes JSON\<newline>''
   @ [CHR 0x09] @ '') CODEC(ZSTD(1)),\<newline>''
   @ [CHR 0x09] @ ''Links Nested (\<newline>''
   @ [CHR 0x09, CHR 0x09] @ ''TraceId String,\<newline>''
   @ [CHR 0x09, CHR 0x09] @ ''SpanId String,\<newline>''
   @ [CHR 0x09, CHR 0x09] @ ''TraceState String,\<newline>''
   @ [CHR 0x09, CHR 0x09] @ ''Attributes JSON\<newline>''
   @ [CHR 0x09] @ '') CODEC(ZSTD(1)),\<newline>''
   @ [CHR 0x09] @ ''INDEX idx_trace_id TraceId TYPE bloom_filter(0.001) GRANULARITY 1,\<newline>''
   @ [CHR 0x09] @ ''INDEX idx_duration Duration TYPE minmax GRANULARITY 1\<newline>''
   @ '') ENGINE = %s\<newline>''
   @ ''PARTITION BY toDate(Timestamp)\<newline>''
   @ ''ORDER BY (ServiceName, SpanName, toDateTime(Timestamp))\<newline>''
   @ ''%s\<newline>''
   @ ''SETTINGS index_granularity=8192, ttl_only_drop_parts = 1;\<newline>''"

text \<open>exporter/clickhouse/exporter\_traces.go, lines 186-232.\<close>

definition insertTracesSQLTemplate :: string where
  "insertTracesSQLTemplate =
     ''INSERT INTO %s (\<newline>''
   @ ''                        Timestamp,\<newline>''
   @ ''                        TraceId,\<newline>''
   @ ''                        SpanId,\<newline>''
   @ ''                        ParentSpanId,\<newline>''
   @ ''                        TraceState,\<newline>''
   @ ''                        SpanName,\<newline>''
   @ ''                        SpanKind,\<newline>''
   @ ''                        ServiceName,\<newline>''
   @ [CHR 0x09, CHR 0x09, CHR 0x09, CHR 0x09, CHR 0x09] @ ''    ResourceAttributes,\<newline>''
   @ [CHR 0x09, CHR 0x09, CHR 0x09, CHR 0x09, CHR 0x09, CHR 0x09] @ ''ScopeName,\<newline>''
   @ [CHR 0x09, CHR 0x09, CHR 0x09, CHR 0x09, CHR 0x09, CHR 0x09] @ ''ScopeVersion,\<newline>''
   @ ''                        SpanAttributes,\<newline>''
   @ ''                        Duration,\<newline>''
   @ ''                        StatusCode,\<newline>''
   @ ''                        StatusMessage,\<newline>''
   @ ''                        Events.Timestamp,\<newline>''
   @ ''                        Events.Name,\<newline>''
   @ ''                        Events.Attributes,\<newline>''
   @ ''                        Links.TraceId,\<newline>''
   @ ''                        Links.SpanId,\<newline>''
   @ ''                        Links.TraceState,\<newline>''
   @ ''                        Links.Attributes\<newline>''
   @ ''                        ) VALUES (\<newline>''
   @ ''                                  ?,\<newline>''
   @ ''                                  ?,\<newline>''
   @ ''                                  ?,\<newline>''
   @ ''                                  ?,\<newline>''
   @ ''                                  ?,\<newline>''
   @ ''                                  ?,\<newline>''
   @ ''                                  ?,\<newline>''
   @ ''                                  ?,\<newline>''
   @ ''                                  ?,\<newline>''
   @ ''                                  ?,\<newline>''
   @ ''                                  ?,\<newline>''
   @ ''                                  ?,\<newline>''
   @ ''                                  ?,\<newline>''
   @ ''                                  ?,\<newline>''
   @ ''                                  ?,\<newline>''
   @ ''                                  ?,\<newline>''
   @ ''                                  ?,\<newline>''
   @ ''                                  ?,\<newline>''
   @ ''                                  ?,\<newline>''
   @ ''                                  ?,\<newline>''
   @ ''                                  ?,\<newline>''
   @ ''                                  ?\<newline>''
   @ ''                                  )''"

text \<open>exporter/clickhouse/exporter\_traces.go, lines 236-247.\<close>

definition createTraceIDTsTableSQL :: string where
  "createTraceIDTsTableSQL =
     ''\<newline>''
   @ ''CREATE TABLE IF NOT EXISTS %s_trace_id_ts %s (\<newline>''
   @ ''     TraceId String CODEC(ZSTD(1)),\<newline>''
   @ ''     Start DateTime CODEC(Delta, ZSTD(1)),\<newline>''
   @ ''     End DateTime CODEC(Delta, ZSTD(1)),\<newline>''
   @ ''     INDEX idx_trace_id TraceId TYPE bloom_filter(0.01) GRANULARITY 1\<newline>''
   @ '') ENGINE = %s\<newline>''
   @ ''PARTITION BY toDate(Start)\<newline>''
   @ ''ORDER BY (TraceId, Start)\<newline>''
   @ ''%s\<newline>''
   @ ''SETTINGS index_granularity=8192, ttl_only_drop_parts = 1;\<newline>''"

text \<open>exporter/clickhouse/exporter\_traces.go, lines 248-259.\<close>

definition createTraceIDTsMaterializedViewSQL :: string where
  "createTraceIDTsMaterializedViewSQL =
     ''\<newline>''
   @ ''CREATE MATERIALIZED VIEW IF NOT EXISTS %s_trace_id_ts_mv %s\<newline>''
   @ ''TO %s.%s_trace_id_ts\<newline>''
   @ ''AS SELECT\<newline>''
   @ [CHR 0x09] @ ''TraceId,\<newline>''
   @ [CHR 0x09] @ ''min(Timestamp) as Start,\<newline>''
   @ [CHR 0x09] @ ''max(Timestamp) as End\<newline>''
   @ ''FROM\<newline>''
   @ ''%s.%s\<newline>''
   @ ''WHERE TraceId != '' @ [CHR 0x27, CHR 0x27] @ ''\<newline>''
   @ ''GROUP BY TraceId;\<newline>''"

text \<open>unnamed/part\_000, lines 129-159.\<close>

definition createLogsTableSQL :: string where
  "createLogsTableSQL =
     ''\<newline>''
   @ ''CREATE TABLE IF NOT EXISTS %s %s (\<newline>''
   @ [CHR 0x09] @ ''Timestamp DateTime64(9) CODEC(Delta(8), ZSTD(1)),\<newline>''
   @ [CHR 0x09] @ ''TimestampTime DateTime DEFAULT toDateTime(Timestamp),\<newline>''
   @ [CHR 0x09] @ ''TraceId String CODEC(ZSTD(1)),\<newline>''
   @ [CHR 0x09] @ ''SpanId String CODEC(ZSTD(1)),\<newline>''
   @ [CHR 0x09] @ ''TraceFlags UInt8,\<newline>''
   @ [CHR 0x09] @ ''SeverityText LowCardinality(String) CODEC(ZSTD(1)),\<newline>''
   @ [CHR 0x09] @ ''SeverityNumber UInt8,\<newline>''
   @ [CHR 0x09] @ ''ServiceName LowCardinality(String) CODEC(ZSTD(1)),\<newline>''
   @ [CHR 0x09] @ ''Body String CODEC(ZSTD(1)),\<newline>''
   @ [CHR 0x09] @ ''ResourceSchemaUrl LowCardinality(String) CODEC(ZSTD(1)),\<newline>''
   @ [CHR 0x09] @ ''ResourceAttributes JSON,\<newline>''
   @ [CHR 0x09] @ ''ScopeSchemaUrl LowCardinality(String) CODEC(ZSTD(1)),\<newline>''
   @ [CHR 0x09] @ ''ScopeName String CODEC(ZSTD(1)),\<newline>''
   @ [CHR 0x09] @ ''ScopeVersion LowCardinality(String) CODEC(ZSTD(1)),\<newline>''
   @ [CHR 0x09] @ ''ScopeAttributes JSON,\<newline>''
   @ [CHR 0x09] @ ''LogAttributes JSON,\<newline>''
   @ ''\<newline>''
   @ [CHR 0x09] @ ''INDEX idx_trace_id TraceId TYPE bloom_filter(0.001) GRANULARITY 1,\<newline>''
   @ ''\<newline>''
   @ ''\<newline>''
   @ ''\<newline>''
   @ [CHR 0x09] @ ''INDEX idx_body Body TYPE tokenbf_v1(32768, 3, 0) GRANULARITY 8\<newline>''
   @ '') ENGINE = %s\<newline>''
   @ ''PARTITION BY toDate(TimestampTime)\<newline>''
   @ ''PRIMARY KEY (ServiceName, TimestampTime)\<newline>''
   @ ''ORDER BY (ServiceName, TimestampTime, Timestamp)\<newline>''
   @ ''%s\<newline>''
   @ ''SETTINGS index_granularity = 8192, ttl_only_drop_parts = 1;\<newline>''"

text \<open>unnamed/part\_000, lines 161-193.\<close>

definition insertLogsSQLTemplate :: string where
  "insertLogsSQLTemplate =
     ''INSERT INTO %s (\<newline>''
   @ ''                        Timestamp,\<newline>''
   @ ''                        TraceId,\<newline>''
   @ ''                        SpanId,\<newline>''
   @ ''                        TraceFlags,\<newline>''
   @ ''                        SeverityText,\<newline>''
   @ ''                        SeverityNumber,\<newline>''
   @ ''                        ServiceName,\<newline>''
   @ ''                        Body,\<newline>''
   @ ''                        ResourceSchemaUrl,\<newline>''
   @ ''                        ResourceAttributes,\<newline>''
   @ ''                        ScopeSchemaUrl,\<newline>''
   @ ''                        ScopeName,\<newline>''
   @ ''                        ScopeVersion,\<newline>''
   @ ''                        ScopeAttributes,\<newline>''
   @ ''                        LogAttributes\<newline>''
   @ ''                        ) VALUES (\<newline>''
   @ ''                                  ?,\<newline>''
   @ ''                                  ?,\<newline>''
   @ ''                                  ?,\<newline>''
   @ ''                                  ?,\<newline>''
   @ ''                                  ?,\<newline>''
   @ ''                                  ?,\<newline>''
   @ ''                                  ?,\<newline>''
   @ ''                                  ?,\<newline>''
   @ ''                                  ?,\<newline>''
   @ ''                                  ?,\<newline>''
   @ ''                                  ?,\<newline>''
   @ ''                                  ?,\<newline>''
   @ ''                                  ?,\<newline>''
   @ ''                                  ?,\<newline>''
   @ ''                                  ?\<newline>''
   @ ''                                  )''"

text \<open>exporter/clickhouse/internal/sum\_metrics.go, lines 20-52.\<close>

definition createSumTableSQL :: string where
  "createSumTableSQL =
     ''\<newline>''
   @ [CHR 0x09] @ ''CREATE TABLE IF NOT EXISTS %s %s (\<newline>''
   @ [CHR 0x09, CHR 0x09] @ ''ResourceAttributes JSON,\<newline>''
   @ [CHR 0x09, CHR 0x09] @ ''ResourceSchemaUrl String CODEC(ZSTD(1)),\<newline>''
   @ [CHR 0x09, CHR 0x09] @ ''ScopeName String CODEC(ZSTD(1)),\<newline>''
   @ [CHR 0x09, CHR 0x09] @ ''ScopeVersion String CODEC(ZSTD(1)),\<newline>''
   @ [CHR 0x09, CHR 0x09] @ ''ScopeAttributes JSON,\<newline>''
   @ [CHR 0x09, CHR 0x09] @ ''ScopeDroppedAttrCount UInt32 CODEC(ZSTD(1)),\<newline>''
   @ [CHR 0x09, CHR 0x09] @ ''ScopeSchemaUrl String CODEC(ZSTD(1)),\<newline>''
   @ [CHR 0x09, CHR 0x09] @ ''ServiceName LowCardinality(String) CODEC(ZSTD(1)),\<newline>''
   @ [CHR 0x09, CHR 0x09] @ ''MetricName String CODEC(ZSTD(1)),\<newline>''
   @ [CHR 0x09, CHR 0x09] @ ''MetricDescription String CODEC(ZSTD(1)),\<newline>''
   @ [CHR 0x09, CHR 0x09] @ ''MetricUnit String CODEC(ZSTD(1)),\<newline>''
   @ [CHR 0x09, CHR 0x09] @ ''Attributes JSON,\<newline>''
   @ [CHR 0x09, CHR 0x09] @ ''StartTimeUnix DateTime64(9) CODEC(Delta, ZSTD(1)),\<newline>''
   @ [CHR 0x09, CHR 0x09] @ ''TimeUnix DateTime64(9) CODEC(Delta, ZSTD(1)),\<newline>''
   @ [CHR 0x09, CHR 0x09] @ ''Value Float64 CODEC(ZSTD(1)),\<newline>''
   @ [CHR 0x09, CHR 0x09] @ ''Flags UInt32  CODEC(ZSTD(1)),\<newline>''
   @ [CHR 0x09, CHR 0x09] @ ''Exemplars Nested (\<newline>''
   @ [CHR 0x09, CHR 0x09, CHR 0x09] @ ''FilteredAttributes JSON,\<newline>''
   @ [CHR 0x09, CHR 0x09, CHR 0x09] @ ''TimeUnix DateTime64(9),\<newline>''
   @ [CHR 0x09, CHR 0x09, CHR 0x09] @ ''Value Float64,\<newline>''
   @ [CHR 0x09, CHR 0x09, CHR 0x09] @ ''SpanId String,\<newline>''
   @ [CHR 0x09, CHR 0x09, CHR 0x09] @ ''TraceId String\<newline>''
   @ [CHR 0x09, CHR 0x09] @ '') CODEC(ZSTD(1)),\<newline>''
   @ [CHR 0x09, CHR 0x09] @ ''AggregationTemporality Int32 CODEC(ZSTD(1)),\<newline>''
   @ [CHR 0x09, CHR 0x09] @ ''IsMonotonic Boolean CODEC(Delta, ZSTD(1)),\<newline>''
   @ '') ENGINE = %s\<newline>''
   @ ''%s\<newline>''
   @ ''PARTITION BY toDate(TimeUnix)\<newline>''
   @ ''ORDER BY (ServiceName, MetricName, Attributes, toUnixTimestamp64Nano(TimeUnix))\<newline>''
   @ ''SETTINGS index_granularity=8192, ttl_only_drop_parts = 1;\<newline>''"

text \<open>exporter/clickhouse/internal/sum\_metrics.go, lines 54-77.\<close>

definition insertSumTableSQL :: string where
  "insertSumTableSQL =
     ''INSERT INTO %s (\<newline>''
   @ ''    ResourceAttributes,\<newline>''
   @ ''    ResourceSchemaUrl,\<newline>''
   @ ''    ScopeName,\<newline>''
   @ ''    ScopeVersion,\<newline>''
   @ ''    ScopeAttributes,\<newline>''
   @ [CHR 0x09] @ ''ScopeDroppedAttrCount,\<newline>''
   @ ''    ScopeSchemaUrl,\<newline>''
   @ ''    ServiceName,\<newline>''
   @ ''    MetricName,\<newline>''
   @ ''    MetricDescription,\<newline>''
   @ ''    MetricUnit,\<newline>''
   @ ''    Attributes,\<newline>''
   @ ''    StartTimeUnix,\<newline>''
   @ ''    TimeUnix,\<newline>''
   @ ''    Value,\<newline>''
   @ ''    Flags,\<newline>''
   @ ''    Exemplars.FilteredAttributes,\<newline>''
   @ [CHR 0x09] @ ''Exemplars.TimeUnix,\<newline>''
   @ ''    Exemplars.Value,\<newline>''
   @ ''    Exemplars.SpanId,\<newline>''
   @ ''    Exemplars.TraceId,\<newline>''
   @ [CHR 0x09] @ ''AggregationTemporality,\<newline>''
   @ [CHR 0x09] @ ''IsMonotonic) VALUES (?,?,?,?,?,?,?,?,?,?,?,?,?,?,?,?,?,?,?,?,?,?,?)''"

text \<open>unnamed/part\_001, lines 20-50.\<close>

definition createGaugeTableSQL :: string where
  "createGaugeTableSQL =
     ''\<newline>''
   @ ''CREATE TABLE IF NOT EXISTS %s %s (\<newline>''
   @ [CHR 0x09] @ ''ResourceAttributes JSON,\<newline>''
   @ [CHR 0x09] @ ''ResourceSchemaUrl String CODEC(ZSTD(1)),\<newline>''
   @ [CHR 0x09] @ ''ScopeName String CODEC(ZSTD(1)),\<newline>''
   @ [CHR 0x09] @ ''ScopeVersion String CODEC(ZSTD(1)),\<newline>''
   @ [CHR 0x09] @ ''ScopeAttributes JSON,\<newline>''
   @ [CHR 0x09] @ ''ScopeDroppedAttrCount UInt32 CODEC(ZSTD(1)),\<newline>''
   @ [CHR 0x09] @ ''ScopeSchemaUrl String CODEC(ZSTD(1)),\<newline>''
   @ [CHR 0x09] @ ''ServiceName LowCardinality(String) CODEC(ZSTD(1)),\<newline>''
   @ [CHR 0x09] @ ''MetricName String CODEC(ZSTD(1)),\<newline>''
   @ [CHR 0x09] @ ''MetricDescription String CODEC(ZSTD(1)),\<newline>''
   @ [CHR 0x09] @ ''MetricUnit String CODEC(ZSTD(1)),\<newline>''
   @ [CHR 0x09] @ ''Attributes JSON,\<newline>''
   @ [CHR 0x09] @ ''StartTimeUnix DateTime64(9) CODEC(Delta, ZSTD(1)),\<newline>''
   @ [CHR 0x09] @ ''TimeUnix DateTime64(9) CODEC(Delta, ZSTD(1)),\<newline>''
   @ [CHR 0x09] @ ''Value Float64 CODEC(ZSTD(1)),\<newline>''
   @ [CHR 0x09] @ ''Flags UInt32 CODEC(ZSTD(1)),\<newline>''
   @ [CHR 0x09] @ ''Exemplars Nested (\<newline>''
   @ [CHR 0x09, CHR 0x09] @ ''FilteredAttributes JSON,\<newline>''
   @ [CHR 0x09, CHR 0x09] @ ''TimeUnix DateTime64(9),\<newline>''
   @ [CHR 0x09, CHR 0x09] @ ''Value Float64,\<newline>''
   @ [CHR 0x09, CHR 0x09] @ ''SpanId String,\<newline>''
   @ [CHR 0x09, CHR 0x09] @ ''TraceId String\<newline>''
   @ [CHR 0x09] @ '') CODEC(ZSTD(1)),\<newline>''
   @ '') ENGINE = %s\<newline>''
   @ ''%s\<newline>''
   @ ''PARTITION BY toDate(TimeUnix)\<newline>''
   @ ''ORDER BY (ServiceName, MetricName, Attributes, toUnixTimestamp64Nano(TimeUnix))\<newline>''
   @ ''SETTINGS index_granularity=8192, ttl_only_drop_parts = 1;\<newline>''"

text \<open>unnamed/part\_001, lines 52-73.\<close>

definition insertGaugeTableSQL :: string where
  "insertGaugeTableSQL =
     ''INSERT INTO %s (\<newline>''
   @ ''    ResourceAttributes,\<newline>''
   @ ''    ResourceSchemaUrl,\<newline>''
   @ ''    ScopeName,\<newline>''
   @ ''    ScopeVersion,\<newline>''
   @ ''    ScopeAttributes,\<newline>''
   @ ''    ScopeDroppedAttrCount,\<newline>''
   @ ''    ScopeSchemaUrl,\<newline>''
   @ ''    ServiceName,\<newline>''
   @ ''    MetricName,\<newline>''
   @ ''    MetricDescription,\<newline>''
   @ ''    MetricUnit,\<newline>''
   @ ''    Attributes,\<newline>''
   @ ''    StartTimeUnix,\<newline>''
   @ ''    TimeUnix,\<newline>''
   @ ''    Value,\<newline>''
   @ ''    Flags,\<newline>''
   @ ''    Exemplars.FilteredAttributes,\<newline>''
   @ [CHR 0x09, CHR 0x09] @ ''Exemplars.TimeUnix,\<newline>''
   @ ''    Exemplars.Value,\<newline>''
   @ ''    Exemplars.SpanId,\<newline>''
   @ ''    Exemplars.TraceId) VALUES (?,?,?,?,?,?,?,?,?,?,?,?,?,?,?,?,?,?,?,?,?)''"

text \<open>unnamed/part\_003, lines 20-56.\<close>

definition createHistogramTableSQL :: string where
  "createHistogramTableSQL =
     ''\<newline>''
   @ ''CREATE TABLE IF NOT EXISTS %s %s (\<newline>''
   @ [CHR 0x09, CHR 0x09] @ ''ResourceAttributes JSON,\<newline>''
   @ [CHR 0x09, CHR 0x09] @ ''ResourceSchemaUrl String CODEC(ZSTD(1)),\<newline>''
   @ [CHR 0x09, CHR 0x09] @ ''ScopeName String CODEC(ZSTD(1)),\<newline>''
   @ [CHR 0x09, CHR 0x09] @ ''ScopeVersion String CODEC(ZSTD(1)),\<newline>''
   @ [CHR 0x09, CHR 0x09] @ ''ScopeAttributes JSON,\<newline>''
   @ [CHR 0x09, CHR 0x09] @ ''ScopeDroppedAttrCount UInt32 CODEC(ZSTD(1)),\<newline>''
   @ [CHR 0x09, CHR 0x09] @ ''ScopeSchemaUrl String CODEC(ZSTD(1)),\<newline>''
   @ [CHR 0x09, CHR 0x09] @ ''ServiceName LowCardinality(String) CODEC(ZSTD(1)),\<newline>''
   @ [CHR 0x09, CHR 0x09] @ ''MetricName String CODEC(ZSTD(1)),\<newline>''
   @ [CHR 0x09, CHR 0x09] @ ''MetricDescription String CODEC(ZSTD(1)),\<newline>''
   @ [CHR 0x09, CHR 0x09] @ ''MetricUnit String CODEC(ZSTD(1)),\<newline>''
   @ [CHR 0x09, CHR 0x09] @ ''Attributes JSON,\<newline>''
   @ [CHR 0x09, CHR 0x09] @ ''StartTimeUnix DateTime64(9) CODEC(Delta, ZSTD(1)),\<newline>''
   @ [CHR 0x09, CHR 0x09] @ ''TimeUnix DateTime64(9) CODEC(Delta, ZSTD(1)),\<newline>''
   @ [CHR 0x09, CHR 0x09] @ ''Count UInt64 CODEC(Delta, ZSTD(1)),\<newline>''
   @ [CHR 0x09, CHR 0x09] @ ''Sum Float64 CODEC(ZSTD(1)),\<newline>''
   @ [CHR 0x09, CHR 0x09] @ ''BucketCounts Array(UInt64) CODEC(ZSTD(1)),\<newline>''
   @ [CHR 0x09, CHR 0x09] @ ''ExplicitBounds Array(Float64) CODEC(ZSTD(1)),\<newline>''
   @ [CHR 0x09, CHR 0x09] @ ''Exemplars Nested (\<newline>''
   @ [CHR 0x09, CHR 0x09, CHR 0x09] @ ''FilteredAttributes JSON,\<newline>''
   @ [CHR 0x09, CHR 0x09, CHR 0x09] @ ''TimeUnix DateTime64(9),\<newline>''
   @ [CHR 0x09, CHR 0x09, CHR 0x09] @ ''Value Float64,\<newline>''
   @ [CHR 0x09, CHR 0x09, CHR 0x09] @ ''SpanId String,\<newline>''
   @ [CHR 0x09, CHR 0x09, CHR 0x09] @ ''TraceId String\<newline>''
   @ [CHR 0x09, CHR 0x09] @ '') CODEC(ZSTD(1)),\<newline>''
   @ [CHR 0x09, CHR 0x09] @ ''Flags UInt32 CODEC(ZSTD(1)),\<newline>''
   @ [CHR 0x09, CHR 0x09] @ ''Min Float64 CODEC(ZSTD(1)),\<newline>''
   @ [CHR 0x09, CHR 0x09] @ ''Max Float64 CODEC(ZSTD(1)),\<newline>''
   @ [CHR 0x09, CHR 0x09] @ ''AggregationTemporality Int32 CODEC(ZSTD(1)),\<newline>''
   @ '') ENGINE = %s\<newline>''
   @ ''%s\<newline>''
   @ ''PARTITION BY toDate(TimeUnix)\<newline>''
   @ ''ORDER BY (ServiceName, MetricName, Attributes, toUnixTimestamp64Nano(TimeUnix))\<newline>''
   @ ''SETTINGS index_granularity=8192, ttl_only_drop_parts = 1;\<newline>''"

text \<open>unnamed/part\_003, lines 58-85.\<close>

definition insertHistogramTableSQL :: string where
  "insertHistogramTableSQL =
     ''INSERT INTO %s (\<newline>''
   @ [CHR 0x09] @ ''ResourceAttributes,\<newline>''
   @ ''    ResourceSchemaUrl,\<newline>''
   @ ''    ScopeName,\<newline>''
   @ ''    ScopeVersion,\<newline>''
   @ ''    ScopeAttributes,\<newline>''
   @ ''    ScopeDroppedAttrCount,\<newline>''
   @ ''    ScopeSchemaUrl,\<newline>''
   @ ''    ServiceName,\<newline>''
   @ ''    MetricName,\<newline>''
   @ ''    MetricDescription,\<newline>''
   @ ''    MetricUnit,\<newline>''
   @ ''    Attributes,\<newline>''
   @ [CHR 0x09] @ ''StartTimeUnix,\<newline>''
   @ [CHR 0x09] @ ''TimeUnix,\<newline>''
   @ [CHR 0x09] @ ''Count,\<newline>''
   @ [CHR 0x09] @ ''Sum,\<newline>''
   @ [CHR 0x09] @ ''BucketCounts,\<newline>''
   @ [CHR 0x09] @ ''ExplicitBounds,\<newline>''
   @ ''  '' @ [CHR 0x09] @ ''Exemplars.FilteredAttributes,\<newline>''
   @ [CHR 0x09] @ ''Exemplars.TimeUnix,\<newline>''
   @ ''    Exemplars.Value,\<newline>''
   @ ''    Exemplars.SpanId,\<newline>''
   @ ''    Exemplars.TraceId,\<newline>''
   @ [CHR 0x09] @ ''Flags,\<newline>''
   @ [CHR 0x09] @ ''Min,\<newline>''
   @ [CHR 0x09] @ ''Max,\<newline>''
   @ [CHR 0x09] @ ''AggregationTemporality) VALUES (?,?,?,?,?,?,?,?,?,?,?,?,?,?,?,?,?,?,?,?,?,?,?,?,?,?,?)''"

text \<open>exporter/clickhouse/internal/exponential\_histogram\_metrics.go, lines 20-60.\<close>

definition createExpHistogramTableSQL :: string where
  "createExpHistogramTableSQL =
     ''\<newline>''
   @ ''CREATE TABLE IF NOT EXISTS %s %s (\<newline>''
   @ [CHR 0x09] @ ''ResourceAttributes JSON,\<newline>''
   @ [CHR 0x09] @ ''ResourceSchemaUrl String CODEC(ZSTD(1)),\<newline>''
   @ [CHR 0x09] @ ''ScopeName String CODEC(ZSTD(1)),\<newline>''
   @ [CHR 0x09] @ ''ScopeVersion String CODEC(ZSTD(1)),\<newline>''
   @ [CHR 0x09] @ ''ScopeAttributes JSON,\<newline>''
   @ [CHR 0x09] @ ''ScopeDroppedAttrCount UInt32 CODEC(ZSTD(1)),\<newline>''
   @ [CHR 0x09] @ ''ScopeSchemaUrl String CODEC(ZSTD(1)),\<newline>''
   @ [CHR 0x09] @ ''ServiceName LowCardinality(String) CODEC(ZSTD(1)),\<newline>''
   @ [CHR 0x09] @ ''MetricName String CODEC(ZSTD(1)),\<newline>''
   @ [CHR 0x09] @ ''MetricDescription String CODEC(ZSTD(1)),\<newline>''
   @ [CHR 0x09] @ ''MetricUnit String CODEC(ZSTD(1)),\<newline>''
   @ [CHR 0x09] @ ''Attributes JSON,\<newline>''
   @ [CHR 0x09] @ ''StartTimeUnix DateTime64(9) CODEC(Delta, ZSTD(1)),\<newline>''
   @ [CHR 0x09] @ ''TimeUnix DateTime64(9) CODEC(Delta, ZSTD(1)),\<newline>''
   @ [CHR 0x09] @ ''Count UInt64 CODEC(Delta, ZSTD(1)),\<newline>''
   @ [CHR 0x09] @ ''Sum Float64 CODEC(ZSTD(1)),\<newline>''
   @ [CHR 0x09] @ ''Scale Int32 CODEC(ZSTD(1)),\<newline>''
   @ [CHR 0x09] @ ''ZeroCount UInt64 CODEC(ZSTD(1)),\<newline>''
   @ [CHR 0x09] @ ''PositiveOffset Int32 CODEC(ZSTD(1)),\<newline>''
   @ [CHR 0x09] @ ''PositiveBucketCounts Array(UInt64) CODEC(ZSTD(1)),\<newline>''
   @ [CHR 0x09] @ ''NegativeOffset Int32 CODEC(ZSTD(1)),\<newline>''
   @ [CHR 0x09] @ ''NegativeBucketCounts Array(UInt64) CODEC(ZSTD(1)),\<newline>''
   @ [CHR 0x09] @ ''Exemplars Nested (\<newline>''
   @ [CHR 0x09, CHR 0x09] @ ''FilteredAttributes JSON,\<newline>''
   @ [CHR 0x09, CHR 0x09] @ ''TimeUnix DateTime64(9),\<newline>''
   @ [CHR 0x09, CHR 0x09] @ ''Value Float64,\<newline>''
   @ [CHR 0x09, CHR 0x09] @ ''SpanId String,\<newline>''
   @ [CHR 0x09, CHR 0x09] @ ''TraceId String\<newline>''
   @ [CHR 0x09] @ '') CODEC(ZSTD(1)),\<newline>''
   @ [CHR 0x09] @ ''Flags UInt32  CODEC(ZSTD(1)),\<newline>''
   @ [CHR 0x09] @ ''Min Float64 CODEC(ZSTD(1)),\<newline>''
   @ [CHR 0x09] @ ''Max Float64 CODEC(ZSTD(1)),\<newline>''
   @ [CHR 0x09] @ ''AggregationTemporality Int32 CODEC(ZSTD(1)),\<newline>''
   @ '') ENGINE = %s\<newline>''
   @ ''%s\<newline>''
   @ ''PARTITION BY toDate(TimeUnix)\<newline>''
   @ ''ORDER BY (ServiceName, MetricName, Attributes, toUnixTimestamp64Nano(TimeUnix))\<newline>''
   @ ''SETTINGS index_granularity=8192, ttl_only_drop_parts = 1;\<newline>''"

text \<open>exporter/clickhouse/internal/exponential\_histogram\_metrics.go, lines 62-93.\<close>

definition insertExpHistogramTableSQL :: string where
  "insertExpHistogramTableSQL =
     ''INSERT INTO %s (\<newline>''
   @ [CHR 0x09] @ ''ResourceAttributes,\<newline>''
   @ ''    ResourceSchemaUrl,\<newline>''
   @ ''    ScopeName,\<newline>''
   @ ''    ScopeVersion,\<newline>''
   @ ''    ScopeAttributes,\<newline>''
   @ ''    ScopeDroppedAttrCount,\<newline>''
   @ ''    ScopeSchemaUrl,\<newline>''
   @ ''    ServiceName,\<newline>''
   @ ''    MetricName,\<newline>''
   @ ''    MetricDescription,\<newline>''
   @ ''    MetricUnit,\<newline>''
   @ ''    Attributes,\<newline>''
   @ [CHR 0x09, CHR 0x09] @ ''StartTimeUnix,\<newline>''
   @ [CHR 0x09, CHR 0x09] @ ''TimeUnix,\<newline>''
   @ [CHR 0x09, CHR 0x09] @ ''Count,\<newline>''
   @ [CHR 0x09, CHR 0x09] @ ''Sum,\<newline>''
   @ ''    Scale,\<newline>''
   @ ''    ZeroCount,\<newline>''
   @ [CHR 0x09, CHR 0x09] @ ''PositiveOffset,\<newline>''
   @ [CHR 0x09, CHR 0x09] @ ''PositiveBucketCounts,\<newline>''
   @ [CHR 0x09, CHR 0x09] @ ''NegativeOffset,\<newline>''
   @ [CHR 0x09, CHR 0x09] @ ''NegativeBucketCounts,\<newline>''
   @ ''  '' @ [CHR 0x09] @ ''Exemplars.FilteredAttributes,\<newline>''
   @ [CHR 0x09, CHR 0x09] @ ''Exemplars.TimeUnix,\<newline>''
   @ ''    Exemplars.Value,\<newline>''
   @ ''    Exemplars.SpanId,\<newline>''
   @ ''    Exemplars.TraceId,\<newline>''
   @ [CHR 0x09, CHR 0x09] @ ''Flags,\<newline>''
   @ [CHR 0x09, CHR 0x09] @ ''Min,\<newline>''
   @ [CHR 0x09, CHR 0x09] @ ''Max,\<newline>''
   @ [CHR 0x09, CHR 0x09] @ ''AggregationTemporality) VALUES (?,?,?,?,?,?,?,?,?,?,?,?,?,?,?,?,?,?,?,?,?,?,?,?,?,?,?,?,?,?,?)''"

text \<open>unnamed/part\_003, lines 212-240.\<close>

definition createSummaryTableSQL :: string where
  "createSummaryTableSQL =
     ''\<newline>''
   @ ''CREATE TABLE IF NOT EXISTS %s %s (\<newline>''
   @ [CHR 0x09] @ ''ResourceAttributes JSON,\<newline>''
   @ [CHR 0x09] @ ''ResourceSchemaUrl String CODEC(ZSTD(1)),\<newline>''
   @ [CHR 0x09] @ ''ScopeName String CODEC(ZSTD(1)),\<newline>''
   @ [CHR 0x09] @ ''ScopeVersion String CODEC(ZSTD(1)),\<newline>''
   @ [CHR 0x09] @ ''ScopeAttributes JSON,\<newline>''
   @ [CHR 0x09] @ ''ScopeDroppedAttrCount UInt32 CODEC(ZSTD(1)),\<newline>''
   @ [CHR 0x09] @ ''ScopeSchemaUrl String CODEC(ZSTD(1)),\<newline>''
   @ [CHR 0x09] @ ''ServiceName LowCardinality(String) CODEC(ZSTD(1)),\<newline>''
   @ [CHR 0x09] @ ''MetricName String CODEC(ZSTD(1)),\<newline>''
   @ [CHR 0x09] @ ''MetricDescription String CODEC(ZSTD(1)),\<newline>''
   @ [CHR 0x09] @ ''MetricUnit String CODEC(ZSTD(1)),\<newline>''
   @ [CHR 0x09] @ ''Attributes JSON,\<newline>''
   @ [CHR 0x09] @ ''StartTimeUnix DateTime64(9) CODEC(Delta, ZSTD(1)),\<newline>''
   @ [CHR 0x09] @ ''TimeUnix DateTime64(9) CODEC(Delta, ZSTD(1)),\<newline>''
   @ [CHR 0x09] @ ''Count UInt64 CODEC(Delta, ZSTD(1)),\<newline>''
   @ [CHR 0x09] @ ''Sum Float64 CODEC(ZSTD(1)),\<newline>''
   @ [CHR 0x09] @ ''ValueAtQuantiles Nested(\<newline>''
   @ [CHR 0x09, CHR 0x09] @ ''Quantile Float64,\<newline>''
   @ [CHR 0x09, CHR 0x09] @ ''Value Float64\<newline>''
   @ [CHR 0x09] @ '') CODEC(ZSTD(1)),\<newline>''
   @ [CHR 0x09] @ ''Flags UInt32  CODEC(ZSTD(1)),\<newline>''
   @ '') ENGINE = %s\<newline>''
   @ ''%s\<newline>''
   @ ''PARTITION BY toDate(TimeUnix)\<newline>''
   @ ''ORDER BY (ServiceName, MetricName, Attributes, toUnixTimestamp64Nano(TimeUnix))\<newline>''
   @ ''SETTINGS index_granularity=8192, ttl_only_drop_parts = 1;\<newline>''"

text \<open>unnamed/part\_003, lines 242-261.\<close>

definition insertSummaryTableSQL :: string where
  "insertSummaryTableSQL =
     ''INSERT INTO %s (\<newline>''
   @ [CHR 0x09] @ ''ResourceAttributes,\<newline>''
   @ ''    ResourceSchemaUrl,\<newline>''
   @ ''    ScopeName,\<newline>''
   @ ''    ScopeVersion,\<newline>''
   @ ''    ScopeAttributes,\<newline>''
   @ ''    ScopeDroppedAttrCount,\<newline>''
   @ ''    ScopeSchemaUrl,\<newline>''
   @ ''    ServiceName,\<newline>''
   @ ''    MetricName,\<newline>''
   @ ''    MetricDescription,\<newline>''
   @ ''    MetricUnit,\<newline>''
   @ ''    Attributes,\<newline>''
   @ [CHR 0x09] @ ''StartTimeUnix,\<newline>''
   @ [CHR 0x09] @ ''TimeUnix,\<newline>''
   @ ''    Count,\<newline>''
   @ ''    Sum,\<newline>''
   @ ''    ValueAtQuantiles.Quantile,\<newline>''
   @ [CHR 0x09] @ ''ValueAtQuantiles.Value,\<newline>''
   @ ''    Flags) VALUES (?,?,?,?,?,?,?,?,?,?,?,?,?,?,?,?,?,?,?)''"

section \<open>Reading the column lists of the statements\<close>

text \<open>
  The column list of an \<^verbatim>\<open>INSERT INTO t (c1, ..., cn) VALUES (?, ..., ?)\<close> statement is
  the comma-separated text between the first parenthesis and its match, and the
  placeholder list the one between the next pair. The columns a
  \<^verbatim>\<open>CREATE TABLE t (...)\<close> statement declares are the first words of the comma-separated
  items (commas inside nested parentheses do not separate) between the first parenthesis
  and its match: an item starting with \<^verbatim>\<open>INDEX\<close> declares no column, and an item
  \<^verbatim>\<open>c Nested (s1 ..., sk ...)\<close> declares the columns \<^verbatim>\<open>c.s1\<close>, ..., \<^verbatim>\<open>c.sk\<close>.
\<close>

definition is_space :: "char \<Rightarrow> bool" where
  "is_space c = (c = CHR '' '' \<or> c = CHR 0x09 \<or> c = CHR 0x0A \<or> c = CHR 0x0D)"

definition trim :: "string \<Rightarrow> string" where
  "trim s = rev (dropWhile is_space (rev (dropWhile is_space s)))"

fun until_close :: "nat \<Rightarrow> string \<Rightarrow> string" where
  "until_close d [] = []"
| "until_close d (c # cs) =
     (if c = CHR ''('' then c # until_close (Suc d) cs
      else if c = CHR '')'' then (if d = 0 then [] else c # until_close (d - 1) cs)
      else c # until_close d cs)"

fun after_close :: "nat \<Rightarrow> string \<Rightarrow> string" where
  "after_close d [] = []"
| "after_close d (c # cs) =
     (if c = CHR ''('' then after_close (Suc d) cs
      else if c = CHR '')'' then (if d = 0 then cs else after_close (d - 1) cs)
      else after_close d cs)"

definition paren_body :: "string \<Rightarrow> string" where
  "paren_body s = until_close 0 (drop 1 (dropWhile (\<lambda>c. c \<noteq> CHR ''('') s))"

definition after_paren :: "string \<Rightarrow> string" where
  "after_paren s = after_close 0 (drop 1 (dropWhile (\<lambda>c. c \<noteq> CHR ''('') s))"

fun split_top :: "nat \<Rightarrow> string \<Rightarrow> string list" where
  "split_top d [] = [[]]"
| "split_top d (c # cs) =
     (if c = CHR '','' \<and> d = 0 then [] # split_top 0 cs
      else
        (case split_top (if c = CHR ''('' then Suc d else if c = CHR '')'' then d - 1 else d) cs of
           [] \<Rightarrow> [[c]]
         | item # rest \<Rightarrow> (c # item) # rest))"

definition items :: "string \<Rightarrow> string list" where
  "items s = filter (\<lambda>i. i \<noteq> []) (map trim (split_top 0 s))"

definition first_word :: "string \<Rightarrow> string" where
  "first_word s = takeWhile (\<lambda>c. \<not> is_space c \<and> c \<noteq> CHR ''('') s"

definition rest_words :: "string \<Rightarrow> string" where
  "rest_words s = dropWhile (\<lambda>c. \<not> is_space c \<and> c \<noteq> CHR ''('') s"

definition insert_columns :: "string \<Rightarrow> string list" where
  "insert_columns sql = items (paren_body sql)"

definition insert_placeholders :: "string \<Rightarrow> string list" where
  "insert_placeholders sql = items (paren_body (after_paren sql))"

definition column_names :: "string \<Rightarrow> string list" where
  "column_names item =
     (let name = first_word item; rest = trim (rest_words item) in
      if name = ''INDEX'' then []
      else if first_word rest = ''Nested''
        then map (\<lambda>sub. name @ ''.'' @ first_word sub) (items (paren_body rest))
      else [name])"

definition create_columns :: "string \<Rightarrow> string list" where
  "create_columns sql = concat (map column_names (items (paren_body sql)))"

text \<open>The value a row holds for the column \<open>name\<close> of the insert statement \<open>sql\<close>.\<close>

definition column_of :: "string \<Rightarrow> string \<Rightarrow> arg list \<Rightarrow> arg option" where
  "column_of sql name row = map_of (zip (insert_columns sql) row) name"

section \<open>Rendering the statements\<close>

text \<open>
  \<^verbatim>\<open>fmt.Sprintf\<close> for a format whose only verb is \<^verbatim>\<open>%s\<close> and string operands, as Go
  defines it: a verb without an operand prints \<^verbatim>\<open>%!s(MISSING)\<close>, and operands left over
  are reported after the text. A \<^verbatim>\<open>%\<close> that is not followed by \<^verbatim>\<open>s\<close> does not occur in the
  formats of the exporter; the model copies it.
\<close>

fun Sprintf_extra :: "string list \<Rightarrow> string" where
  "Sprintf_extra [] = []"
| "Sprintf_extra [a] = ''string='' @ a"
| "Sprintf_extra (a # b # as) = ''string='' @ a @ '', '' @ Sprintf_extra (b # as)"

fun Sprintf :: "string \<Rightarrow> string list \<Rightarrow> string" where
  "Sprintf [] [] = []"
| "Sprintf [] (a # as) = ''%!(EXTRA '' @ Sprintf_extra (a # as) @ '')''"
| "Sprintf [c] as = c # Sprintf [] as"
| "Sprintf (c # d # cs) as =
     (if c = CHR ''%'' \<and> d = CHR ''s''
      then (case as of
              [] \<Rightarrow> ''%!s(MISSING)'' @ Sprintf cs []
            | a # as' \<Rightarrow> a @ Sprintf cs as')
      else c # Sprintf (d # cs) as)"

text \<open>\<^verbatim>\<open>strings.ReplaceAll(s, old, new)\<close> for one-character \<^verbatim>\<open>old\<close> and \<^verbatim>\<open>new\<close>.\<close>

definition ReplaceAll :: "string \<Rightarrow> char \<Rightarrow> char \<Rightarrow> string" where
  "ReplaceAll s old new = map (\<lambda>c. if c = old then new else c) s"

text \<open>
  \<^verbatim>\<open>Config\<close> is declared outside src/. The model keeps the fields the functions under
  src/ read to render the statements below; \<open>clusterString\<close> is the string the method
  \<^verbatim>\<open>cfg.clusterString()\<close> returns.
\<close>

record Config =
  Database :: string
  TracesTableName :: string
  LogsTableName :: string
  clusterString :: string

text \<open>src/exporter/clickhouse/exporter\_traces.go, lines 275-277 and 289-292; src/unnamed/part\_000, lines 244-246.\<close>

definition renderInsertTracesSQL :: "Config \<Rightarrow> string" where
  "renderInsertTracesSQL cfg =
     Sprintf (ReplaceAll insertTracesSQLTemplate (CHR 0x27) (CHR 0x60)) [TracesTableName cfg]"

definition renderInsertLogsSQL :: "Config \<Rightarrow> string" where
  "renderInsertLogsSQL cfg = Sprintf insertLogsSQLTemplate [LogsTableName cfg]"

definition renderTraceIDTsMaterializedViewSQL :: "Config \<Rightarrow> string" where
  "renderTraceIDTsMaterializedViewSQL cfg =
     Sprintf createTraceIDTsMaterializedViewSQL
       [TracesTableName cfg, clusterString cfg, Database cfg, TracesTableName cfg,
        Database cfg, TracesTableName cfg]"

section \<open>The trace-id time-range view\<close>

text \<open>
  The query of \<^verbatim>\<open>createTraceIDTsMaterializedViewSQL\<close>, read over rows of the spans table
  (each row the argument list of one insert):
  \<^verbatim>\<open>SELECT TraceId, min(Timestamp) as Start, max(Timestamp) as End FROM spans
  WHERE TraceId != '' GROUP BY TraceId\<close>. A row's \<^verbatim>\<open>TraceId\<close> and \<^verbatim>\<open>Timestamp\<close> are
  the arguments bound to the columns of these names.
\<close>

definition row_TraceId :: "arg list \<Rightarrow> string" where
  "row_TraceId row =
     (case column_of insertTracesSQLTemplate ''TraceId'' row of
        Some (ArgString s) \<Rightarrow> s
      | _ \<Rightarrow> [])"

definition row_Timestamp :: "arg list \<Rightarrow> Time" where
  "row_Timestamp row =
     (case column_of insertTracesSQLTemplate ''Timestamp'' row of
        Some (ArgTime t) \<Rightarrow> t
      | _ \<Rightarrow> 0)"

definition trace_id_ts_select :: "arg list list \<Rightarrow> (string \<times> Time \<times> Time) list" where
  "trace_id_ts_select rows =
     (let kept = filter (\<lambda>row. row_TraceId row \<noteq> []) rows in
      map (\<lambda>t. (t,
             Min (set (map row_Timestamp (filter (\<lambda>row. row_TraceId row = t) kept))),
             Max (set (map row_Timestamp (filter (\<lambda>row. row_TraceId row = t) kept)))))
        (remdups (map row_TraceId kept)))"

section \<open>Example inputs\<close>

text \<open>
  Concrete values for the instances of the theorems below: a driver that refuses nothing,
  one that refuses the execution of the row of index \<open>k\<close>, an empty store, a stand-in for
  \<^verbatim>\<open>AttributesToJSON\<close>, and small telemetry trees.
\<close>

definition ok_driver :: driver where
  "ok_driver = \<lparr>BeginErr = None, PrepareErr = (\<lambda>q. None), ExecErr = (\<lambda>n args. None),
     CommitErr = None\<rparr>"

definition exec_failing_driver :: "nat \<Rightarrow> error \<Rightarrow> driver" where
  "exec_failing_driver k err =
     \<lparr>BeginErr = None, PrepareErr = (\<lambda>q. None),
      ExecErr = (\<lambda>n args. if n = k then Some err else None), CommitErr = None\<rparr>"

definition empty_DB :: DB where
  "empty_DB = \<lparr>stored = [], calls = []\<rparr>"

definition example_JSON :: "Map \<Rightarrow> string" where
  "example_JSON m = concat (map (\<lambda>kv. fst kv @ ''='' @ snd kv @ '';'') m)"

definition example_scope :: InstrumentationScope where
  "example_scope =
     \<lparr>scope_Name = ''meter'', scope_Version = ''1.0'', scope_Attributes = [],
      scope_DroppedAttributesCount = 0\<rparr>"

definition example_point :: "Timestamp \<Rightarrow> float64 \<Rightarrow> NumberDataPoint" where
  "example_point ts v =
     \<lparr>ndp_Attributes = [], ndp_StartTimestamp = 0, ndp_Timestamp = ts,
      ndp_ValueType = ValueTypeDouble, ndp_IntValue = 0, ndp_DoubleValue = v,
      ndp_Flags = 0, ndp_Exemplars = []\<rparr>"

text \<open>The doubles 1.0 and 2.0 by their IEEE-754 bits.\<close>

definition float64_1 :: float64 where
  "float64_1 = Float64bits 0x3FF0000000000000"

definition float64_2 :: float64 where
  "float64_2 = Float64bits 0x4000000000000000"

definition example_sum :: Sum where
  "example_sum =
     \<lparr>sum_DataPoints = [example_point 1000 float64_1, example_point 2000 float64_2],
      sum_AggregationTemporality = AggregationTemporalityCumulative,
      sum_IsMonotonic = True\<rparr>"

definition empty_sumMetrics :: "string \<Rightarrow> sumMetrics" where
  "empty_sumMetrics q =
     \<lparr>sumMetrics_sumModel = [], sumMetrics_insertSQL = q, sumMetrics_count = 0\<rparr>"

definition example_sumMetrics :: sumMetrics where
  "example_sumMetrics =
     snd (sumMetrics_Add (empty_sumMetrics (Sprintf insertSumTableSQL [''otel_metrics_sum'']))
       [(''service.name'', ''api'')] [] example_scope [] (AnySum example_sum)
       ''requests_total'' [] [])"

definition example_span :: "Timestamp \<Rightarrow> Timestamp \<Rightarrow> Span" where
  "example_span start end =
     \<lparr>span_TraceID = [0, 0, 0, 0, 0, 0, 0, 0, 0, 0, 0, 0, 0, 0, 0, 1],
      span_SpanID = [0, 0, 0, 0, 0, 0, 0, 2],
      span_ParentSpanID = [0, 0, 0, 0, 0, 0, 0, 0],
      span_TraceState = [], span_Name = ''GET /'', span_Kind = 2,
      span_StartTimestamp = start, span_EndTimestamp = end, span_Attributes = [],
      span_StatusCode = 0, span_StatusMessage = [], span_Events = [], span_Links = []\<rparr>"

definition example_traces :: "Span list \<Rightarrow> Traces" where
  "example_traces spans =
     [\<lparr>rs_ResourceAttributes = [(''service.name'', ''api'')],
       rs_ScopeSpans =
         [\<lparr>ss_ScopeName = ''tracer'', ss_ScopeVersion = ''1.0'', ss_Spans = spans\<rparr>]\<rparr>]"

definition example_log :: "Timestamp \<Rightarrow> Timestamp \<Rightarrow> LogRecord" where
  "example_log ts observed =
     \<lparr>log_Timestamp = ts, log_ObservedTimestamp = observed,
      log_TraceID = [0, 0, 0, 0, 0, 0, 0, 0, 0, 0, 0, 0, 0, 0, 0, 0],
      log_SpanID = [0, 0, 0, 0, 0, 0, 0, 0],
      log_Flags = 0, log_SeverityText = ''INFO'', log_SeverityNumber = 9,
      log_Body = ''started'', log_Attributes = []\<rparr>"

definition example_logs :: "LogRecord list \<Rightarrow> Logs" where
  "example_logs records =
     [\<lparr>rl_ResourceAttributes = [(''service.name'', ''api'')], rl_SchemaUrl = [],
       rl_ScopeLogs =
         [\<lparr>sl_SchemaUrl = [], sl_ScopeName = ''logger'', sl_ScopeVersion = ''1.0'',
           sl_ScopeAttributes = [], sl_LogRecords = records\<rparr>]\<rparr>]"

section \<open>What each column of a row is to hold\<close>

text \<open>
  For each signal kind, the value every column of one row is to hold, by the column's
  name (section 4.5 of the spec and the names of the columns). The entries are in
  alphabetical order of the names: the order carries no meaning, the table is read by
  name with \<open>map_of\<close>.
\<close>

definition traces_columns :: "(Map \<Rightarrow> string) \<Rightarrow> ResourceSpans \<Rightarrow> ScopeSpans \<Rightarrow> Span \<Rightarrow> (string \<times> arg) list" where
  "traces_columns J spans scope r =
     [(''Duration'',
         ArgInt64 (Sub_Nanoseconds (AsTime (span_EndTimestamp r)) (AsTime (span_StartTimestamp r)))),
      (''Events.Attributes'',
         ArgStrings (map (\<lambda>e. J (event_Attributes e)) (span_Events r))),
      (''Events.Name'',
         ArgStrings (map event_Name (span_Events r))),
      (''Events.Timestamp'',
         ArgTimes (map (\<lambda>e. AsTime (event_Timestamp e)) (span_Events r))),
      (''Links.Attributes'',
         ArgStrings (map (\<lambda>l. J (link_Attributes l)) (span_Links r))),
      (''Links.SpanId'',
         ArgStrings (map (\<lambda>l. SpanIDToHexOrEmptyString (link_SpanID l)) (span_Links r))),
      (''Links.TraceId'',
         ArgStrings (map (\<lambda>l. TraceIDToHexOrEmptyString (link_TraceID l)) (span_Links r))),
      (''Links.TraceState'',
         ArgStrings (map link_TraceState (span_Links r))),
      (''ParentSpanId'',
         ArgString (SpanIDToHexOrEmptyString (span_ParentSpanID r))),
      (''ResourceAttributes'',
         ArgString (J (rs_ResourceAttributes spans))),
      (''ScopeName'',
         ArgString (ss_ScopeName scope)),
      (''ScopeVersion'',
         ArgString (ss_ScopeVersion scope)),
      (''ServiceName'',
         ArgString (GetServiceName (rs_ResourceAttributes spans))),
      (''SpanAttributes'',
         ArgString (J (span_Attributes r))),
      (''SpanId'',
         ArgString (SpanIDToHexOrEmptyString (span_SpanID r))),
      (''SpanKind'',
         ArgString (SpanKind_String (span_Kind r))),
      (''SpanName'',
         ArgString (span_Name r)),
      (''StatusCode'',
         ArgString (StatusCode_String (span_StatusCode r))),
      (''StatusMessage'',
         ArgString (span_StatusMessage r)),
      (''Timestamp'',
         ArgTime (AsTime (span_StartTimestamp r))),
      (''TraceId'',
         ArgString (TraceIDToHexOrEmptyString (span_TraceID r))),
      (''TraceState'',
         ArgString (span_TraceState r))]"

definition logs_columns :: "(Map \<Rightarrow> string) \<Rightarrow> ResourceLogs \<Rightarrow> ScopeLogs \<Rightarrow> LogRecord \<Rightarrow> (string \<times> arg) list" where
  "logs_columns J logs scope r =
     [(''Body'',
         ArgString (log_Body r)),
      (''LogAttributes'',
         ArgString (J (log_Attributes r))),
      (''ResourceAttributes'',
         ArgString (J (rl_ResourceAttributes logs))),
      (''ResourceSchemaUrl'',
         ArgString (rl_SchemaUrl logs)),
      (''ScopeAttributes'',
         ArgString (J (sl_ScopeAttributes scope))),
      (''ScopeName'',
         ArgString (sl_ScopeName scope)),
      (''ScopeSchemaUrl'',
         ArgString (sl_SchemaUrl scope)),
      (''ScopeVersion'',
         ArgString (sl_ScopeVersion scope)),
      (''ServiceName'',
         ArgString (GetServiceName (rl_ResourceAttributes logs))),
      (''SeverityNumber'',
         ArgInt32 (log_SeverityNumber r)),
      (''SeverityText'',
         ArgString (log_SeverityText r)),
      (''SpanId'',
         ArgString (SpanIDToHexOrEmptyString (log_SpanID r))),
      (''Timestamp'',
         ArgTime (AsTime (if log_Timestamp r = 0 then log_ObservedTimestamp r else log_Timestamp r))),
      (''TraceFlags'',
         ArgUint32 (log_Flags r)),
      (''TraceId'',
         ArgString (TraceIDToHexOrEmptyString (log_TraceID r)))]"

definition sum_columns :: "(Map \<Rightarrow> string) \<Rightarrow> sumModel \<Rightarrow> NumberDataPoint \<Rightarrow> (string \<times> arg) list" where
  "sum_columns J model dp =
     [(''AggregationTemporality'',
         ArgInt32 (sum_AggregationTemporality (sumModel_sum model))),
      (''Attributes'',
         ArgString (J (ndp_Attributes dp))),
      (''Exemplars.FilteredAttributes'',
         ArgArraySet (map (\<lambda>e. ArgString (J (exemplar_FilteredAttributes e))) (ndp_Exemplars dp))),
      (''Exemplars.SpanId'',
         ArgArraySet (map (\<lambda>e. ArgString (SpanIDToHexOrEmptyString (exemplar_SpanID e))) (ndp_Exemplars dp))),
      (''Exemplars.TimeUnix'',
         ArgArraySet (map (\<lambda>e. ArgTime (AsTime (exemplar_Timestamp e))) (ndp_Exemplars dp))),
      (''Exemplars.TraceId'',
         ArgArraySet (map (\<lambda>e. ArgString (TraceIDToHexOrEmptyString (exemplar_TraceID e))) (ndp_Exemplars dp))),
      (''Exemplars.Value'',
         ArgArraySet (map (\<lambda>e. ArgFloat64 (getValue (exemplar_IntValue e)
          (exemplar_DoubleValue e) (exemplar_ValueType e))) (ndp_Exemplars dp))),
      (''Flags'',
         ArgUint32 (ndp_Flags dp)),
      (''IsMonotonic'',
         ArgBool (sum_IsMonotonic (sumModel_sum model))),
      (''MetricDescription'',
         ArgString (sumModel_metricDescription model)),
      (''MetricName'',
         ArgString (sumModel_metricName model)),
      (''MetricUnit'',
         ArgString (sumModel_metricUnit model)),
      (''ResourceAttributes'',
         ArgString (J (ResAttr (sumModel_metadata model)))),
      (''ResourceSchemaUrl'',
         ArgString (ResURL (sumModel_metadata model))),
      (''ScopeAttributes'',
         ArgString (J (scope_Attributes (ScopeInstr (sumModel_metadata model))))),
      (''ScopeDroppedAttrCount'',
         ArgUint32 (scope_DroppedAttributesCount (ScopeInstr (sumModel_metadata model)))),
      (''ScopeName'',
         ArgString (scope_Name (ScopeInstr (sumModel_metadata model)))),
      (''ScopeSchemaUrl'',
         ArgString (ScopeURL (sumModel_metadata model))),
      (''ScopeVersion'',
         ArgString (scope_Version (ScopeInstr (sumModel_metadata model)))),
      (''ServiceName'',
         ArgString (GetServiceName (ResAttr (sumModel_metadata model)))),
      (''StartTimeUnix'',
         ArgTime (AsTime (ndp_StartTimestamp dp))),
      (''TimeUnix'',
         ArgTime (AsTime (ndp_Timestamp dp))),
      (''Value'',
         ArgFloat64 (getValue (ndp_IntValue dp) (ndp_DoubleValue dp) (ndp_ValueType dp)))]"

definition gauge_columns :: "(Map \<Rightarrow> string) \<Rightarrow> gaugeModel \<Rightarrow> NumberDataPoint \<Rightarrow> (string \<times> arg) list" where
  "gauge_columns J model dp =
     [(''Attributes'',
         ArgString (J (ndp_Attributes dp))),
      (''Exemplars.FilteredAttributes'',
         ArgArraySet (map (\<lambda>e. ArgString (J (exemplar_FilteredAttributes e))) (ndp_Exemplars dp))),
      (''Exemplars.SpanId'',
         ArgArraySet (map (\<lambda>e. ArgString (SpanIDToHexOrEmptyString (exemplar_SpanID e))) (ndp_Exemplars dp))),
      (''Exemplars.TimeUnix'',
         ArgArraySet (map (\<lambda>e. ArgTime (AsTime (exemplar_Timestamp e))) (ndp_Exemplars dp))),
      (''Exemplars.TraceId'',
         ArgArraySet (map (\<lambda>e. ArgString (TraceIDToHexOrEmptyString (exemplar_TraceID e))) (ndp_Exemplars dp))),
      (''Exemplars.Value'',
         ArgArraySet (map (\<lambda>e. ArgFloat64 (getValue (exemplar_IntValue e)
          (exemplar_DoubleValue e) (exemplar_ValueType e))) (ndp_Exemplars dp))),
      (''Flags'',
         ArgUint32 (ndp_Flags dp)),
      (''MetricDescription'',
         ArgString (gaugeModel_metricDescription model)),
      (''MetricName'',
         ArgString (gaugeModel_metricName model)),
      (''MetricUnit'',
         ArgString (gaugeModel_metricUnit model)),
      (''ResourceAttributes'',
         ArgString (J (ResAttr (gaugeModel_metadata model)))),
      (''ResourceSchemaUrl'',
         ArgString (ResURL (gaugeModel_metadata model))),
      (''ScopeAttributes'',
         ArgString (J (scope_Attributes (ScopeInstr (gaugeModel_metadata model))))),
      (''ScopeDroppedAttrCount'',
         ArgUint32 (scope_DroppedAttributesCount (ScopeInstr (gaugeModel_metadata model)))),
      (''ScopeName'',
         ArgString (scope_Name (ScopeInstr (gaugeModel_metadata model)))),
      (''ScopeSchemaUrl'',
         ArgString (ScopeURL (gaugeModel_metadata model))),
      (''ScopeVersion'',
         ArgString (scope_Version (ScopeInstr (gaugeModel_metadata model)))),
      (''ServiceName'',
         ArgString (GetServiceName (ResAttr (gaugeModel_metadata model)))),
      (''StartTimeUnix'',
         ArgTime (AsTime (ndp_StartTimestamp dp))),
      (''TimeUnix'',
         ArgTime (AsTime (ndp_Timestamp dp))),
      (''Value'',
         ArgFloat64 (getValue (ndp_IntValue dp) (ndp_DoubleValue dp) (ndp_ValueType dp)))]"

definition histogram_columns :: "(Map \<Rightarrow> string) \<Rightarrow> histogramModel \<Rightarrow> HistogramDataPoint \<Rightarrow> (string \<times> arg) list" where
  "histogram_columns J model dp =
     [(''AggregationTemporality'',
         ArgInt32 (histogram_AggregationTemporality (histogramModel_histogram model))),
      (''Attributes'',
         ArgString (J (hdp_Attributes dp))),
      (''BucketCounts'',
         ArgArraySet (map ArgUint64 (hdp_BucketCounts dp))),
      (''Count'',
         ArgUint64 (hdp_Count dp)),
      (''Exemplars.FilteredAttributes'',
         ArgArraySet (map (\<lambda>e. ArgString (J (exemplar_FilteredAttributes e))) (hdp_Exemplars dp))),
      (''Exemplars.SpanId'',
         ArgArraySet (map (\<lambda>e. ArgString (SpanIDToHexOrEmptyString (exemplar_SpanID e))) (hdp_Exemplars dp))),
      (''Exemplars.TimeUnix'',
         ArgArraySet (map (\<lambda>e. ArgTime (AsTime (exemplar_Timestamp e))) (hdp_Exemplars dp))),
      (''Exemplars.TraceId'',
         ArgArraySet (map (\<lambda>e. ArgString (TraceIDToHexOrEmptyString (exemplar_TraceID e))) (hdp_Exemplars dp))),
      (''Exemplars.Value'',
         ArgArraySet (map (\<lambda>e. ArgFloat64 (getValue (exemplar_IntValue e)
          (exemplar_DoubleValue e) (exemplar_ValueType e))) (hdp_Exemplars dp))),
      (''ExplicitBounds'',
         ArgArraySet (map ArgFloat64 (hdp_ExplicitBounds dp))),
      (''Flags'',
         ArgUint32 (hdp_Flags dp)),
      (''Max'',
         ArgFloat64 (hdp_Max dp)),
      (''MetricDescription'',
         ArgString (histogramModel_metricDescription model)),
      (''MetricName'',
         ArgString (histogramModel_metricName model)),
      (''MetricUnit'',
         ArgString (histogramModel_metricUnit model)),
      (''Min'',
         ArgFloat64 (hdp_Min dp)),
      (''ResourceAttributes'',
         ArgString (J (ResAttr (histogramModel_metadata model)))),
      (''ResourceSchemaUrl'',
         ArgString (ResURL (histogramModel_metadata model))),
      (''ScopeAttributes'',
         ArgString (J (scope_Attributes (ScopeInstr (histogramModel_metadata model))))),
      (''ScopeDroppedAttrCount'',
         ArgUint32 (scope_DroppedAttributesCount (ScopeInstr (histogramModel_metadata model)))),
      (''ScopeName'',
         ArgString (scope_Name (ScopeInstr (histogramModel_metadata model)))),
      (''ScopeSchemaUrl'',
         ArgString (ScopeURL (histogramModel_metadata model))),
      (''ScopeVersion'',
         ArgString (scope_Version (ScopeInstr (histogramModel_metadata model)))),
      (''ServiceName'',
         ArgString (GetServiceName (ResAttr (histogramModel_metadata model)))),
      (''StartTimeUnix'',
         ArgTime (AsTime (hdp_StartTimestamp dp))),
      (''Sum'',
         ArgFloat64 (hdp_Sum dp)),
      (''TimeUnix'',
         ArgTime (AsTime (hdp_Timestamp dp)))]"

definition expHistogram_columns :: "(Map \<Rightarrow> string) \<Rightarrow> expHistogramModel \<Rightarrow> ExponentialHistogramDataPoint \<Rightarrow> (string \<times> arg) list" where
  "expHistogram_columns J model dp =
     [(''AggregationTemporality'',
         ArgInt32 (expHistogram_AggregationTemporality (expHistogramModel_expHistogram model))),
      (''Attributes'',
         ArgString (J (edp_Attributes dp))),
      (''Count'',
         ArgUint64 (edp_Count dp)),
      (''Exemplars.FilteredAttributes'',
         ArgArraySet (map (\<lambda>e. ArgString (J (exemplar_FilteredAttributes e))) (edp_Exemplars dp))),
      (''Exemplars.SpanId'',
         ArgArraySet (map (\<lambda>e. ArgString (SpanIDToHexOrEmptyString (exemplar_SpanID e))) (edp_Exemplars dp))),
      (''Exemplars.TimeUnix'',
         ArgArraySet (map (\<lambda>e. ArgTime (AsTime (exemplar_Timestamp e))) (edp_Exemplars dp))),
      (''Exemplars.TraceId'',
         ArgArraySet (map (\<lambda>e. ArgString (TraceIDToHexOrEmptyString (exemplar_TraceID e))) (edp_Exemplars dp))),
      (''Exemplars.Value'',
         ArgArraySet (map (\<lambda>e. ArgFloat64 (getValue (exemplar_IntValue e)
          (exemplar_DoubleValue e) (exemplar_ValueType e))) (edp_Exemplars dp))),
      (''Flags'',
         ArgUint32 (edp_Flags dp)),
      (''Max'',
         ArgFloat64 (edp_Max dp)),
      (''MetricDescription'',
         ArgString (expHistogramModel_metricDescription model)),
      (''MetricName'',
         ArgString (expHistogramModel_metricName model)),
      (''MetricUnit'',
         ArgString (expHistogramModel_metricUnit model)),
      (''Min'',
         ArgFloat64 (edp_Min dp)),
      (''NegativeBucketCounts'',
         ArgArraySet (map ArgUint64 (buckets_BucketCounts (edp_Negative dp)))),
      (''NegativeOffset'',
         ArgInt32 (buckets_Offset (edp_Negative dp))),
      (''PositiveBucketCounts'',
         ArgArraySet (map ArgUint64 (buckets_BucketCounts (edp_Positive dp)))),
      (''PositiveOffset'',
         ArgInt32 (buckets_Offset (edp_Positive dp))),
      (''ResourceAttributes'',
         ArgString (J (ResAttr (expHistogramModel_metadata model)))),
      (''ResourceSchemaUrl'',
         ArgString (ResURL (expHistogramModel_metadata model))),
      (''Scale'',
         ArgInt32 (edp_Scale dp)),
      (''ScopeAttributes'',
         ArgString (J (scope_Attributes (ScopeInstr (expHistogramModel_metadata model))))),
      (''ScopeDroppedAttrCount'',
         ArgUint32 (scope_DroppedAttributesCount (ScopeInstr (expHistogramModel_metadata model)))),
      (''ScopeName'',
         ArgString (scope_Name (ScopeInstr (expHistogramModel_metadata model)))),
      (''ScopeSchemaUrl'',
         ArgString (ScopeURL (expHistogramModel_metadata model))),
      (''ScopeVersion'',
         ArgString (scope_Version (ScopeInstr (expHistogramModel_metadata model)))),
      (''ServiceName'',
         ArgString (GetServiceName (ResAttr (expHistogramModel_metadata model)))),
      (''StartTimeUnix'',
         ArgTime (AsTime (edp_StartTimestamp dp))),
      (''Sum'',
         ArgFloat64 (edp_Sum dp)),
      (''TimeUnix'',
         ArgTime (AsTime (edp_Timestamp dp))),
      (''ZeroCount'',
         ArgUint64 (edp_ZeroCount dp))]"

definition summary_columns :: "(Map \<Rightarrow> string) \<Rightarrow> summaryModel \<Rightarrow> SummaryDataPoint \<Rightarrow> (string \<times> arg) list" where
  "summary_columns J model dp =
     [(''Attributes'',
         ArgString (J (sdp_Attributes dp))),
      (''Count'',
         ArgUint64 (sdp_Count dp)),
      (''Flags'',
         ArgUint32 (sdp_Flags dp)),
      (''MetricDescription'',
         ArgString (summaryModel_metricDescription model)),
      (''MetricName'',
         ArgString (summaryModel_metricName model)),
      (''MetricUnit'',
         ArgString (summaryModel_metricUnit model)),
      (''ResourceAttributes'',
         ArgString (J (ResAttr (summaryModel_metadata model)))),
      (''ResourceSchemaUrl'',
         ArgString (ResURL (summaryModel_metadata model))),
      (''ScopeAttributes'',
         ArgString (J (scope_Attributes (ScopeInstr (summaryModel_metadata model))))),
      (''ScopeDroppedAttrCount'',
         ArgUint32 (scope_DroppedAttributesCount (ScopeInstr (summaryModel_metadata model)))),
      (''ScopeName'',
         ArgString (scope_Name (ScopeInstr (summaryModel_metadata model)))),
      (''ScopeSchemaUrl'',
         ArgString (ScopeURL (summaryModel_metadata model))),
      (''ScopeVersion'',
         ArgString (scope_Version (ScopeInstr (summaryModel_metadata model)))),
      (''ServiceName'',
         ArgString (GetServiceName (ResAttr (summaryModel_metadata model)))),
      (''StartTimeUnix'',
         ArgTime (AsTime (sdp_StartTimestamp dp))),
      (''Sum'',
         ArgFloat64 (sdp_Sum dp)),
      (''TimeUnix'',
         ArgTime (AsTime (sdp_Timestamp dp))),
      (''ValueAtQuantiles.Quantile'',
         ArgArraySet (map (\<lambda>qv. ArgFloat64 (fst qv)) (sdp_QuantileValues dp))),
      (''ValueAtQuantiles.Value'',
         ArgArraySet (map (\<lambda>qv. ArgFloat64 (snd qv)) (sdp_QuantileValues dp)))]"

section \<open>Properties of the identifier codec\<close>

lemma hextable_all: "\<forall>d \<in> set [0..<16]. hextable ! d = lower_hex_digit d"
  by code_simp

lemma hextable_nth: "d < 16 \<Longrightarrow> hextable ! d = lower_hex_digit d"
  using hextable_all by simp

lemma unat_high_nibble: "unat (drop_bit 4 (v :: byte)) = unat v div 16"
  by (simp add: drop_bit_eq_div unat_div)

lemma unat_low_nibble: "unat ((v :: byte) AND 0x0f) = unat v mod 16"
proof -
  have "(v AND 0x0f) = take_bit 4 v"
    by (simp add: take_bit_eq_mask mask_eq_exp_minus_1)
  then show ?thesis
    by (simp add: unsigned_take_bit_eq take_bit_eq_mod unat_mod)
qed

lemma EncodeToString_byte:
  "[hextable ! unat (drop_bit 4 (v :: byte)), hextable ! unat (v AND 0x0f)] = lower_hex_of_byte v"
proof -
  have "unat v div 16 < 16"
    using unsigned_less [of v, where ?'a = nat] by simp
  moreover have "unat v mod 16 < 16"
    by simp
  ultimately show ?thesis
    by (simp add: lower_hex_of_byte_def unat_high_nibble unat_low_nibble hextable_nth
        del: drop_bit_numeral_bit0 drop_bit_numeral_bit1)
qed

lemma EncodeToString_is_lower_hex: "is_lower_hex bs (EncodeToString bs)"
proof (induction bs)
  case Nil
  show ?case by (simp add: is_lower_hex_def)
next
  case (Cons v bs)
  have "EncodeToString (v # bs) =
      [hextable ! unat (drop_bit 4 v), hextable ! unat (v AND 0x0f)] @ EncodeToString bs"
    by simp
  also have "\<dots> = lower_hex_of_byte v @ EncodeToString bs"
    by (simp only: EncodeToString_byte)
  finally show ?case
    using Cons.IH by (simp add: is_lower_hex_def)
qed

lemma EncodeToString_length: "length (EncodeToString bs) = 2 * length bs"
  by (induction bs) simp_all

lemma IsEmpty_iff: "IsEmpty bs \<longleftrightarrow> (\<forall>b\<in>set bs. b = 0)"
proof
  assume "IsEmpty bs"
  then have "set bs = set (replicate (length bs) (0 :: byte))"
    unfolding IsEmpty_def by simp
  then show "\<forall>b\<in>set bs. b = 0"
    by auto
next
  assume "\<forall>b\<in>set bs. b = 0"
  then show "IsEmpty bs"
    unfolding IsEmpty_def by (simp add: replicate_length_same)
qed

text \<open>
  C5. For every 8-byte span id and 16-byte trace id the two functions return the empty
  string when every byte is zero, and otherwise the lowercase hexadecimal encoding of the
  bytes, of 16 and 32 characters. Both are total functions into strings: there is no
  error value they could return.
\<close>

theorem identifier_hex_or_empty:
  assumes "length sid = 8" and "length tid = 16"
  shows "((\<forall>b\<in>set sid. b = 0) \<longrightarrow> SpanIDToHexOrEmptyString sid = [])
       \<and> ((\<exists>b\<in>set sid. b \<noteq> 0) \<longrightarrow>
            is_lower_hex sid (SpanIDToHexOrEmptyString sid)
          \<and> length (SpanIDToHexOrEmptyString sid) = 16)
       \<and> ((\<forall>b\<in>set tid. b = 0) \<longrightarrow> TraceIDToHexOrEmptyString tid = [])
       \<and> ((\<exists>b\<in>set tid. b \<noteq> 0) \<longrightarrow>
            is_lower_hex tid (TraceIDToHexOrEmptyString tid)
          \<and> length (TraceIDToHexOrEmptyString tid) = 32)"
  using assms
  by (auto simp: SpanIDToHexOrEmptyString_def TraceIDToHexOrEmptyString_def IsEmpty_iff
      EncodeToString_is_lower_hex EncodeToString_length)

theorem identifier_hex_or_empty_witness:
  "SpanIDToHexOrEmptyString (replicate 8 0) = []
   \<and> TraceIDToHexOrEmptyString (replicate 16 0) = []
   \<and> is_lower_hex [0, 0, 0, 0, 0, 0, 0x01, 0xab]
        (SpanIDToHexOrEmptyString [0, 0, 0, 0, 0, 0, 0x01, 0xab])
   \<and> length (SpanIDToHexOrEmptyString [0, 0, 0, 0, 0, 0, 0x01, 0xab]) = 16
   \<and> is_lower_hex [0x5b, 0x8e, 0xff, 0xf7, 0x98, 0x03, 0x81, 0x03, 0xd2, 0x69, 0xb6, 0x33, 0x81, 0x3f, 0xc6, 0x0c]
        (TraceIDToHexOrEmptyString
          [0x5b, 0x8e, 0xff, 0xf7, 0x98, 0x03, 0x81, 0x03, 0xd2, 0x69, 0xb6, 0x33, 0x81, 0x3f, 0xc6, 0x0c])
   \<and> length (TraceIDToHexOrEmptyString
          [0x5b, 0x8e, 0xff, 0xf7, 0x98, 0x03, 0x81, 0x03, 0xd2, 0x69, 0xb6, 0x33, 0x81, 0x3f, 0xc6, 0x0c]) = 32"
proof -
  have z: "SpanIDToHexOrEmptyString (replicate 8 0) = []
      \<and> TraceIDToHexOrEmptyString (replicate 16 0) = []"
    using identifier_hex_or_empty [of "replicate 8 0" "replicate 16 0"] by simp
  have n: "is_lower_hex [0, 0, 0, 0, 0, 0, 0x01, 0xab]
        (SpanIDToHexOrEmptyString [0, 0, 0, 0, 0, 0, 0x01, 0xab])
   \<and> length (SpanIDToHexOrEmptyString [0, 0, 0, 0, 0, 0, 0x01, 0xab]) = 16
   \<and> is_lower_hex [0x5b, 0x8e, 0xff, 0xf7, 0x98, 0x03, 0x81, 0x03, 0xd2, 0x69, 0xb6, 0x33, 0x81, 0x3f, 0xc6, 0x0c]
        (TraceIDToHexOrEmptyString
          [0x5b, 0x8e, 0xff, 0xf7, 0x98, 0x03, 0x81, 0x03, 0xd2, 0x69, 0xb6, 0x33, 0x81, 0x3f, 0xc6, 0x0c])
   \<and> length (TraceIDToHexOrEmptyString
          [0x5b, 0x8e, 0xff, 0xf7, 0x98, 0x03, 0x81, 0x03, 0xd2, 0x69, 0xb6, 0x33, 0x81, 0x3f, 0xc6, 0x0c]) = 32"
    using identifier_hex_or_empty [of "[0, 0, 0, 0, 0, 0, 0x01, 0xab]"
        "[0x5b, 0x8e, 0xff, 0xf7, 0x98, 0x03, 0x81, 0x03, 0xd2, 0x69, 0xb6, 0x33, 0x81, 0x3f, 0xc6, 0x0c]"]
    by simp
  show ?thesis
    using z n by simp
qed

lemma identifier_hex_examples:
  "SpanIDToHexOrEmptyString [0, 0, 0, 0, 0, 0, 0x01, 0xab] = ''00000000000001ab''"
  "TraceIDToHexOrEmptyString
     [0x5b, 0x8e, 0xff, 0xf7, 0x98, 0x03, 0x81, 0x03, 0xd2, 0x69, 0xb6, 0x33, 0x81, 0x3f, 0xc6, 0x0c]
   = ''5b8efff798038103d269b633813fc60c''"
  by code_simp+

section \<open>Span events and links\<close>

lemma convertEvents_loop_eq:
  "convertEvents_loop J events (times', names, attrs) =
     (times' @ map (\<lambda>e. AsTime (event_Timestamp e)) events,
      names @ map event_Name events,
      attrs @ map (\<lambda>e. J (event_Attributes e)) events)"
  by (induction events arbitrary: times' names attrs) simp_all

lemma convertLinks_loop_eq:
  "convertLinks_loop J links (traceIDs, spanIDs, states, attrs) =
     (traceIDs @ map (\<lambda>l. TraceIDToHexOrEmptyString (link_TraceID l)) links,
      spanIDs @ map (\<lambda>l. SpanIDToHexOrEmptyString (link_SpanID l)) links,
      states @ map link_TraceState links,
      attrs @ map (\<lambda>l. J (link_Attributes l)) links)"
  by (induction links arbitrary: traceIDs spanIDs states attrs) simp_all

lemma convertEvents_eq:
  "convertEvents J events =
     (map (\<lambda>e. AsTime (event_Timestamp e)) events, map event_Name events,
      map (\<lambda>e. J (event_Attributes e)) events)"
  by (simp add: convertEvents_def convertEvents_loop_eq)

lemma convertLinks_eq:
  "convertLinks J links =
     (map (\<lambda>l. TraceIDToHexOrEmptyString (link_TraceID l)) links,
      map (\<lambda>l. SpanIDToHexOrEmptyString (link_SpanID l)) links,
      map link_TraceState links,
      map (\<lambda>l. J (link_Attributes l)) links)"
  by (simp add: convertLinks_def convertLinks_loop_eq)

text \<open>
  C7. For a list of N span events, convertEvents returns three arrays of length N whose
  i-th elements are the timestamp, the name and the encoded attributes of the i-th event;
  for a list of M span links, convertLinks returns four arrays of length M whose i-th
  elements are the trace id, span id, trace state and encoded attributes of the i-th link;
  the empty list gives empty arrays.
\<close>

theorem convert_events_links_aligned:
  assumes "convertEvents J events = (times', names, eattrs)"
    and "convertLinks J links = (traceIDs, spanIDs, states, lattrs)"
  shows "length times' = length events \<and> length names = length events
       \<and> length eattrs = length events
       \<and> (\<forall>i < length events.
            times' ! i = AsTime (event_Timestamp (events ! i))
          \<and> names ! i = event_Name (events ! i)
          \<and> eattrs ! i = J (event_Attributes (events ! i)))
       \<and> length traceIDs = length links \<and> length spanIDs = length links
       \<and> length states = length links \<and> length lattrs = length links
       \<and> (\<forall>i < length links.
            traceIDs ! i = TraceIDToHexOrEmptyString (link_TraceID (links ! i))
          \<and> spanIDs ! i = SpanIDToHexOrEmptyString (link_SpanID (links ! i))
          \<and> states ! i = link_TraceState (links ! i)
          \<and> lattrs ! i = J (link_Attributes (links ! i)))
       \<and> convertEvents J [] = ([], [], [])
       \<and> convertLinks J [] = ([], [], [], [])"
  using assms by (auto simp: convertEvents_eq convertLinks_eq)

section \<open>Loops and transactions\<close>

lemma range_loop_append:
  "range_loop body (xs @ ys) s =
     (case range_loop body xs s of
        (Some err, s') \<Rightarrow> (Some err, s')
      | (None, s') \<Rightarrow> range_loop body ys s')"
  by (induction xs arbitrary: s) (auto split: prod.splits option.splits)

lemma range_loop_map: "range_loop body (map f xs) = range_loop (\<lambda>x. body (f x)) xs"
proof
  fix s
  show "range_loop body (map f xs) s = range_loop (\<lambda>x. body (f x)) xs s"
    by (induction xs arbitrary: s) (auto split: prod.splits option.splits)
qed

lemma range_loop_concat:
  "range_loop body (concat (map f xs)) = range_loop (\<lambda>x. range_loop body (f x)) xs"
proof
  fix s
  show "range_loop body (concat (map f xs)) s = range_loop (\<lambda>x. range_loop body (f x)) xs s"
    by (induction xs arbitrary: s) (auto simp: range_loop_append split: prod.splits option.splits)
qed

lemma first_failure_ge: "first_failure drv n rows = Some (k, err) \<Longrightarrow> n \<le> k"
proof (induction rows arbitrary: n)
  case Nil
  then show ?case by simp
next
  case (Cons row rows)
  show ?case
  proof (cases "ExecErr drv n row")
    case None
    with Cons.prems have "first_failure drv (Suc n) rows = Some (k, err)"
      by simp
    from Cons.IH [OF this] show ?thesis by simp
  next
    case (Some e)
    with Cons.prems show ?thesis by simp
  qed
qed

lemma exec_rows_outcome:
  "range_loop (exec_row drv q) rows tx =
     (case first_failure drv (length (pending tx)) rows of
        None \<Rightarrow>
          (None, tx\<lparr>pending := pending tx @ map (Pair q) rows,
                    tx_calls := tx_calls tx @ map ExecContext rows\<rparr>)
      | Some (k, err) \<Rightarrow>
          (Some (Errorf ''ExecContext:'' err),
           tx\<lparr>pending := pending tx @ map (Pair q) (take (k - length (pending tx)) rows),
              tx_calls := tx_calls tx
                @ map ExecContext (take (Suc (k - length (pending tx))) rows)\<rparr>))"
proof (induction rows arbitrary: tx)
  case Nil
  show ?case by simp
next
  case (Cons row rows)
  show ?case
  proof (cases "ExecErr drv (length (pending tx)) row")
    case (Some e)
    then show ?thesis
      by (simp add: exec_row_def Stmt_ExecContext_def)
  next
    case None
    let ?tx = "tx\<lparr>pending := pending tx @ [(q, row)],
                   tx_calls := tx_calls tx @ [ExecContext row]\<rparr>"
    have step: "range_loop (exec_row drv q) (row # rows) tx = range_loop (exec_row drv q) rows ?tx"
      using None by (simp add: exec_row_def Stmt_ExecContext_def)
    show ?thesis
    proof (cases "first_failure drv (Suc (length (pending tx))) rows")
      case None
      with \<open>ExecErr drv (length (pending tx)) row = None\<close> step Cons.IH [of ?tx]
      show ?thesis by simp
    next
      case (Some ke)
      obtain k err where ke: "ke = (k, err)" by (cases ke)
      from Some ke first_failure_ge have "Suc (length (pending tx)) \<le> k"
        by blast
      then have "k - length (pending tx) = Suc (k - Suc (length (pending tx)))"
        by simp
      with \<open>ExecErr drv (length (pending tx)) row = None\<close> step Cons.IH [of ?tx] Some ke
      show ?thesis by simp
    qed
  qed
qed

lemma doWithTx_outcome:
  "doWithTx drv db (prepare_exec_close wrap drv q rows) = tx_outcome wrap drv q rows db"
proof (cases "BeginErr drv")
  case (Some e)
  then show ?thesis
    by (simp add: doWithTx_def tx_outcome_def)
next
  case None
  note beginOk = this
  show ?thesis
  proof (cases "PrepareErr drv q")
    case (Some e)
    with beginOk show ?thesis
      by (simp add: doWithTx_def tx_outcome_def prepare_exec_close_def Tx_PrepareContext_def)
  next
    case None
    note prep = this
    show ?thesis
    proof (cases "first_failure drv 0 rows")
      case (Some ke)
      obtain k err where "ke = (k, err)" by (cases ke)
      with Some beginOk prep show ?thesis
        by (simp add: doWithTx_def tx_outcome_def prepare_exec_close_def Tx_PrepareContext_def
            exec_rows_outcome Stmt_Close_def)
    next
      case None
      with beginOk prep show ?thesis
        by (cases "CommitErr drv")
          (simp_all add: doWithTx_def tx_outcome_def prepare_exec_close_def Tx_PrepareContext_def
            exec_rows_outcome Stmt_Close_def)
    qed
  qed
qed

lemma pushTraceData_fn_eq:
  "pushTraceData_fn J drv q td =
     prepare_exec_close (Errorf ''PrepareContext:'') drv q (traces_rows J td)"
  unfolding pushTraceData_fn_def prepare_exec_close_def traces_rows_def range_loop_concat
    range_loop_map traces_row_def exec_row_def Let_def
  by (rule refl)

lemma pushLogsData_fn_eq:
  "pushLogsData_fn J drv q ld =
     prepare_exec_close (Errorf ''PrepareContext:'') drv q (logs_rows J ld)"
  unfolding pushLogsData_fn_def prepare_exec_close_def logs_rows_def range_loop_concat
    range_loop_map logs_row_def exec_row_def Let_def
  by (rule refl)

lemma pushTraceData_outcome:
  "pushTraceData J drv q db td =
     tx_outcome (Errorf ''PrepareContext:'') drv q (traces_rows J td) db"
  by (simp add: pushTraceData_def pushTraceData_fn_eq doWithTx_outcome)

lemma pushLogsData_outcome:
  "pushLogsData J drv q db ld =
     tx_outcome (Errorf ''PrepareContext:'') drv q (logs_rows J ld) db"
  by (simp add: pushLogsData_def pushLogsData_fn_eq doWithTx_outcome)

lemma sumMetrics_insert_fn_eq:
  "sumMetrics_insert_fn J drv x =
     prepare_exec_close (\<lambda>err. err) drv (sumMetrics_insertSQL x) (sum_rows J x)"
  unfolding sumMetrics_insert_fn_def prepare_exec_close_def sum_rows_def range_loop_concat
    range_loop_map sum_row_def exec_row_def Let_def
  by (rule refl)

lemma sumMetrics_insert_outcome:
  "sumMetrics_insert J drv x db =
     (if sumMetrics_count x = 0 then (None, db)
      else
        (case tx_outcome (\<lambda>err. err) drv (sumMetrics_insertSQL x) (sum_rows J x) db of
           (Some err, db1) \<Rightarrow> (Some (Errorf ''insert sum metrics fail:'' err), db1)
         | (None, db1) \<Rightarrow> (None, db1)))"
  by (simp add: sumMetrics_insert_def sumMetrics_insert_fn_eq doWithTx_outcome)

lemma gaugeMetrics_insert_fn_eq:
  "gaugeMetrics_insert_fn J drv x =
     prepare_exec_close (\<lambda>err. err) drv (gaugeMetrics_insertSQL x) (gauge_rows J x)"
  unfolding gaugeMetrics_insert_fn_def prepare_exec_close_def gauge_rows_def range_loop_concat
    range_loop_map gauge_row_def exec_row_def Let_def
  by (rule refl)

lemma gaugeMetrics_insert_outcome:
  "gaugeMetrics_insert J drv x db =
     (if gaugeMetrics_count x = 0 then (None, db)
      else
        (case tx_outcome (\<lambda>err. err) drv (gaugeMetrics_insertSQL x) (gauge_rows J x) db of
           (Some err, db1) \<Rightarrow> (Some (Errorf ''insert gauge metrics fail:'' err), db1)
         | (None, db1) \<Rightarrow> (None, db1)))"
  by (simp add: gaugeMetrics_insert_def gaugeMetrics_insert_fn_eq doWithTx_outcome)

lemma histogramMetrics_insert_fn_eq:
  "histogramMetrics_insert_fn J drv x =
     prepare_exec_close (\<lambda>err. err) drv (histogramMetrics_insertSQL x) (histogram_rows J x)"
  unfolding histogramMetrics_insert_fn_def prepare_exec_close_def histogram_rows_def range_loop_concat
    range_loop_map histogram_row_def exec_row_def Let_def
  by (rule refl)

lemma histogramMetrics_insert_outcome:
  "histogramMetrics_insert J drv x db =
     (if histogramMetrics_count x = 0 then (None, db)
      else
        (case tx_outcome (\<lambda>err. err) drv (histogramMetrics_insertSQL x) (histogram_rows J x) db of
           (Some err, db1) \<Rightarrow> (Some (Errorf ''insert histogram metrics fail:'' err), db1)
         | (None, db1) \<Rightarrow> (None, db1)))"
  by (simp add: histogramMetrics_insert_def histogramMetrics_insert_fn_eq doWithTx_outcome)

lemma expHistogramMetrics_insert_fn_eq:
  "expHistogramMetrics_insert_fn J drv x =
     prepare_exec_close (\<lambda>err. err) drv (expHistogramMetrics_insertSQL x) (expHistogram_rows J x)"
  unfolding expHistogramMetrics_insert_fn_def prepare_exec_close_def expHistogram_rows_def range_loop_concat
    range_loop_map expHistogram_row_def exec_row_def Let_def
  by (rule refl)

lemma expHistogramMetrics_insert_outcome:
  "expHistogramMetrics_insert J drv x db =
     (if expHistogramMetrics_count x = 0 then (None, db)
      else
        (case tx_outcome (\<lambda>err. err) drv (expHistogramMetrics_insertSQL x) (expHistogram_rows J x) db of
           (Some err, db1) \<Rightarrow> (Some (Errorf ''insert exponential histogram metrics fail:'' err), db1)
         | (None, db1) \<Rightarrow> (None, db1)))"
  by (simp add: expHistogramMetrics_insert_def expHistogramMetrics_insert_fn_eq doWithTx_outcome)

lemma summaryMetrics_insert_fn_eq:
  "summaryMetrics_insert_fn J drv x =
     prepare_exec_close (\<lambda>err. err) drv (summaryMetrics_insertSQL x) (summary_rows J x)"
  unfolding summaryMetrics_insert_fn_def prepare_exec_close_def summary_rows_def range_loop_concat
    range_loop_map summary_row_def exec_row_def Let_def
  by (rule refl)

lemma summaryMetrics_insert_outcome:
  "summaryMetrics_insert J drv x db =
     (if summaryMetrics_count x = 0 then (None, db)
      else
        (case tx_outcome (\<lambda>err. err) drv (summaryMetrics_insertSQL x) (summary_rows J x) db of
           (Some err, db1) \<Rightarrow> (Some (Errorf ''insert summary metrics fail:'' err), db1)
         | (None, db1) \<Rightarrow> (None, db1)))"
  by (simp add: summaryMetrics_insert_def summaryMetrics_insert_fn_eq doWithTx_outcome)

lemma errors_Is_refl: "errors_Is e e"
  by (cases e) simp_all

lemma errors_Is_Errorf: "errors_Is e t \<Longrightarrow> errors_Is (Errorf msg e) t"
  by simp

lemma execs_append: "execs (xs @ ys) = execs xs @ execs ys"
  by (induction xs rule: execs.induct) simp_all

lemma execs_map_ExecContext: "execs (map ExecContext rows) = rows"
  by (induction rows) simp_all

lemma first_failure_None_iff:
  "first_failure drv n rows = None \<longleftrightarrow> (\<forall>i < length rows. ExecErr drv (n + i) (rows ! i) = None)"
proof (induction rows arbitrary: n)
  case Nil
  show ?case by simp
next
  case (Cons row rows)
  show ?case
  proof (cases "ExecErr drv n row")
    case (Some e)
    then show ?thesis by auto
  next
    case None
    have "(\<forall>i < length (row # rows). ExecErr drv (n + i) ((row # rows) ! i) = None)
        \<longleftrightarrow> (\<forall>i < length rows. ExecErr drv (Suc n + i) (rows ! i) = None)"
      using None by (auto simp: less_Suc_eq_0_disj)
    with None Cons.IH [of "Suc n"] show ?thesis by simp
  qed
qed

lemma first_failure_Some_iff:
  "first_failure drv n rows = Some (k, e) \<longleftrightarrow>
     n \<le> k \<and> k - n < length rows \<and> (\<forall>i < k - n. ExecErr drv (n + i) (rows ! i) = None)
     \<and> ExecErr drv k (rows ! (k - n)) = Some e"
proof (induction rows arbitrary: n)
  case Nil
  show ?case by simp
next
  case (Cons row rows)
  show ?case
  proof (cases "ExecErr drv n row")
    case (Some e')
    show ?thesis
    proof
      assume "first_failure drv n (row # rows) = Some (k, e)"
      with Some show "n \<le> k \<and> k - n < length (row # rows)
          \<and> (\<forall>i < k - n. ExecErr drv (n + i) ((row # rows) ! i) = None)
          \<and> ExecErr drv k ((row # rows) ! (k - n)) = Some e"
        by simp
    next
      assume a: "n \<le> k \<and> k - n < length (row # rows)
          \<and> (\<forall>i < k - n. ExecErr drv (n + i) ((row # rows) ! i) = None)
          \<and> ExecErr drv k ((row # rows) ! (k - n)) = Some e"
      have "k = n"
      proof (rule ccontr)
        assume "k \<noteq> n"
        with a have "0 < k - n" by simp
        with a have "ExecErr drv (n + 0) ((row # rows) ! 0) = None" by blast
        with Some show False by simp
      qed
      with a Some show "first_failure drv n (row # rows) = Some (k, e)"
        by simp
    qed
  next
    case None
    have ff: "first_failure drv n (row # rows) = first_failure drv (Suc n) rows"
      using None by simp
    show ?thesis
    proof (cases "k = n")
      case True
      with None have "\<not> (ExecErr drv k ((row # rows) ! (k - n)) = Some e)" by simp
      moreover have "first_failure drv (Suc n) rows \<noteq> Some (k, e)"
        using first_failure_ge [of drv "Suc n" rows k e] True by auto
      ultimately show ?thesis using ff by simp
    next
      case False
      show ?thesis
      proof (cases "n \<le> k")
        case nk: False
        then have "first_failure drv (Suc n) rows \<noteq> Some (k, e)"
          using first_failure_ge [of drv "Suc n" rows k e] by auto
        with nk ff show ?thesis by simp
      next
        case True
        with False have kn: "k - n = Suc (k - Suc n)" "Suc n \<le> k" by simp_all
        have "(\<forall>i < k - n. ExecErr drv (n + i) ((row # rows) ! i) = None)
            \<longleftrightarrow> (\<forall>i < k - Suc n. ExecErr drv (Suc n + i) (rows ! i) = None)"
          using None kn by (auto simp: less_Suc_eq_0_disj)
        with Cons.IH [of "Suc n"] ff kn True show ?thesis
          by simp
      qed
    qed
  qed
qed

lemma run_push_outcome:
  "\<exists>wrap fail. (\<forall>e. errors_Is (wrap e) e) \<and> (\<forall>e t. errors_Is e t \<longrightarrow> errors_Is (fail e) t)
     \<and> run_push J drv db p =
        (if push_count p = Some 0 then (None, db)
         else (case tx_outcome wrap drv (push_insertSQL p) (push_rows J p) db of
                 (Some err, db1) \<Rightarrow> (Some (fail err), db1)
               | (None, db1) \<Rightarrow> (None, db1)))"
proof (cases p)
  case (PushTraces q td)
  have "run_push J drv db p =
      (case tx_outcome (Errorf ''PrepareContext:'') drv (push_insertSQL p) (push_rows J p) db of
         (Some err, db1) \<Rightarrow> (Some ((\<lambda>e. e) err), db1)
       | (None, db1) \<Rightarrow> (None, db1))"
    using PushTraces by (simp add: pushTraceData_outcome split: prod.splits option.splits)
  moreover have "push_count p \<noteq> Some 0" using PushTraces by simp
  ultimately show ?thesis
    using errors_Is_refl by (intro exI [of _ "Errorf ''PrepareContext:''"] exI [of _ "\<lambda>e. e"]) simp
next
  case (PushLogs q ld)
  have "run_push J drv db p =
      (case tx_outcome (Errorf ''PrepareContext:'') drv (push_insertSQL p) (push_rows J p) db of
         (Some err, db1) \<Rightarrow> (Some ((\<lambda>e. e) err), db1)
       | (None, db1) \<Rightarrow> (None, db1))"
    using PushLogs by (simp add: pushLogsData_outcome split: prod.splits option.splits)
  moreover have "push_count p \<noteq> Some 0" using PushLogs by simp
  ultimately show ?thesis
    using errors_Is_refl by (intro exI [of _ "Errorf ''PrepareContext:''"] exI [of _ "\<lambda>e. e"]) simp
next
  case (InsertSum s)
  then show ?thesis
    using errors_Is_refl
    by (intro exI [of _ "\<lambda>e. e"] exI [of _ "Errorf ''insert sum metrics fail:''"])
      (simp add: sumMetrics_insert_outcome)
next
  case (InsertGauge g)
  then show ?thesis
    using errors_Is_refl
    by (intro exI [of _ "\<lambda>e. e"] exI [of _ "Errorf ''insert gauge metrics fail:''"])
      (simp add: gaugeMetrics_insert_outcome)
next
  case (InsertHistogram h)
  then show ?thesis
    using errors_Is_refl
    by (intro exI [of _ "\<lambda>e. e"] exI [of _ "Errorf ''insert histogram metrics fail:''"])
      (simp add: histogramMetrics_insert_outcome)
next
  case (InsertExpHistogram e)
  then show ?thesis
    using errors_Is_refl
    by (intro exI [of _ "\<lambda>e. e"] exI [of _ "Errorf ''insert exponential histogram metrics fail:''"])
      (simp add: expHistogramMetrics_insert_outcome)
next
  case (InsertSummary s)
  then show ?thesis
    using errors_Is_refl
    by (intro exI [of _ "\<lambda>e. e"] exI [of _ "Errorf ''insert summary metrics fail:''"])
      (simp add: summaryMetrics_insert_outcome)
qed

lemma tx_outcome_cases:
  assumes "tx_outcome wrap drv q rows db = (r, db')"
  obtains
    (begin_failed) e where "BeginErr drv = Some e" "r = Some (Errorf ''db.Begin: '' e)"
      "stored db' = stored db" "calls db' = calls db @ [Begin]"
  | (prepare_failed) e where "BeginErr drv = None" "PrepareErr drv q = Some e" "r = Some (wrap e)"
      "stored db' = stored db" "calls db' = calls db @ [Begin, PrepareContext q] @ map ExecContext (take 0 rows) @ [Rollback]"
  | (exec_failed) k e where "BeginErr drv = None" "PrepareErr drv q = None"
      "first_failure drv 0 rows = Some (k, e)" "r = Some (Errorf ''ExecContext:'' e)"
      "stored db' = stored db"
      "calls db' = calls db @ [Begin, PrepareContext q] @ map ExecContext (take (Suc k) rows) @ [Close, Rollback]"
  | (commit_failed) e where "BeginErr drv = None" "PrepareErr drv q = None"
      "first_failure drv 0 rows = None" "CommitErr drv = Some e" "r = Some e"
      "stored db' = stored db"
      "calls db' = calls db @ [Begin, PrepareContext q] @ map ExecContext (take (length rows) rows) @ [Close, Commit, Rollback]"
  | (committed) "BeginErr drv = None" "PrepareErr drv q = None"
      "first_failure drv 0 rows = None" "CommitErr drv = None" "r = None"
      "stored db' = stored db @ map (Pair q) rows"
      "calls db' = calls db @ [Begin, PrepareContext q] @ map ExecContext (take (length rows) rows) @ [Close, Commit, Rollback]"
  using assms unfolding tx_outcome_def
  by (auto split: option.splits prod.splits)

lemma first_failure_determined:
  assumes "k' < length rows" and "\<forall>i < k'. ExecErr drv i (rows ! i) = None"
    and "ExecErr drv k' (rows ! k') = Some e'"
  shows "first_failure drv 0 rows = Some (k', e')"
  using assms by (simp add: first_failure_Some_iff)

lemma first_failure_Some_0:
  assumes "first_failure drv 0 rows = Some (k, e)"
  shows "k < length rows \<and> ExecErr drv k (rows ! k) = Some e"
  using assms by (simp add: first_failure_Some_iff)

lemma first_failure_None_0:
  assumes "first_failure drv 0 rows = None"
  shows "\<forall>i < length rows. ExecErr drv i (rows ! i) = None"
  using assms by (simp add: first_failure_None_iff)

section \<open>The column lists of the statements\<close>

lemma insert_columns_traces:
  "insert_columns insertTracesSQLTemplate =
     [''Timestamp'', ''TraceId'', ''SpanId'', ''ParentSpanId'', ''TraceState'',
      ''SpanName'', ''SpanKind'', ''ServiceName'', ''ResourceAttributes'',
      ''ScopeName'', ''ScopeVersion'', ''SpanAttributes'', ''Duration'',
      ''StatusCode'', ''StatusMessage'', ''Events.Timestamp'', ''Events.Name'',
      ''Events.Attributes'', ''Links.TraceId'', ''Links.SpanId'',
      ''Links.TraceState'', ''Links.Attributes'']"
  by code_simp

lemma insert_placeholders_traces:
  "insert_placeholders insertTracesSQLTemplate = replicate 22 ''?''"
  by code_simp

lemma create_columns_traces:
  "create_columns createTracesTableSQL =
     [''Timestamp'', ''TraceId'', ''SpanId'', ''ParentSpanId'', ''TraceState'',
      ''SpanName'', ''SpanKind'', ''ServiceName'', ''ResourceAttributes'',
      ''ScopeName'', ''ScopeVersion'', ''SpanAttributes'', ''Duration'',
      ''StatusCode'', ''StatusMessage'', ''Events.Timestamp'', ''Events.Name'',
      ''Events.Attributes'', ''Links.TraceId'', ''Links.SpanId'',
      ''Links.TraceState'', ''Links.Attributes'']"
  by code_simp

lemma insert_columns_logs:
  "insert_columns insertLogsSQLTemplate =
     [''Timestamp'', ''TraceId'', ''SpanId'', ''TraceFlags'', ''SeverityText'',
      ''SeverityNumber'', ''ServiceName'', ''Body'', ''ResourceSchemaUrl'',
      ''ResourceAttributes'', ''ScopeSchemaUrl'', ''ScopeName'', ''ScopeVersion'',
      ''ScopeAttributes'', ''LogAttributes'']"
  by code_simp

lemma insert_placeholders_logs:
  "insert_placeholders insertLogsSQLTemplate = replicate 15 ''?''"
  by code_simp

lemma create_columns_logs:
  "create_columns createLogsTableSQL =
     [''Timestamp'', ''TimestampTime'', ''TraceId'', ''SpanId'', ''TraceFlags'',
      ''SeverityText'', ''SeverityNumber'', ''ServiceName'', ''Body'',
      ''ResourceSchemaUrl'', ''ResourceAttributes'', ''ScopeSchemaUrl'',
      ''ScopeName'', ''ScopeVersion'', ''ScopeAttributes'', ''LogAttributes'']"
  by code_simp

lemma insert_columns_sum:
  "insert_columns insertSumTableSQL =
     [''ResourceAttributes'', ''ResourceSchemaUrl'', ''ScopeName'', ''ScopeVersion'',
      ''ScopeAttributes'', ''ScopeDroppedAttrCount'', ''ScopeSchemaUrl'',
      ''ServiceName'', ''MetricName'', ''MetricDescription'', ''MetricUnit'',
      ''Attributes'', ''StartTimeUnix'', ''TimeUnix'', ''Value'', ''Flags'',
      ''Exemplars.FilteredAttributes'', ''Exemplars.TimeUnix'', ''Exemplars.Value'',
      ''Exemplars.SpanId'', ''Exemplars.TraceId'', ''AggregationTemporality'',
      ''IsMonotonic'']"
  by code_simp

lemma insert_placeholders_sum:
  "insert_placeholders insertSumTableSQL = replicate 23 ''?''"
  by code_simp

lemma create_columns_sum:
  "create_columns createSumTableSQL =
     [''ResourceAttributes'', ''ResourceSchemaUrl'', ''ScopeName'', ''ScopeVersion'',
      ''ScopeAttributes'', ''ScopeDroppedAttrCount'', ''ScopeSchemaUrl'',
      ''ServiceName'', ''MetricName'', ''MetricDescription'', ''MetricUnit'',
      ''Attributes'', ''StartTimeUnix'', ''TimeUnix'', ''Value'', ''Flags'',
      ''Exemplars.FilteredAttributes'', ''Exemplars.TimeUnix'', ''Exemplars.Value'',
      ''Exemplars.SpanId'', ''Exemplars.TraceId'', ''AggregationTemporality'',
      ''IsMonotonic'']"
  by code_simp

lemma insert_columns_gauge:
  "insert_columns insertGaugeTableSQL =
     [''ResourceAttributes'', ''ResourceSchemaUrl'', ''ScopeName'', ''ScopeVersion'',
      ''ScopeAttributes'', ''ScopeDroppedAttrCount'', ''ScopeSchemaUrl'',
      ''ServiceName'', ''MetricName'', ''MetricDescription'', ''MetricUnit'',
      ''Attributes'', ''StartTimeUnix'', ''TimeUnix'', ''Value'', ''Flags'',
      ''Exemplars.FilteredAttributes'', ''Exemplars.TimeUnix'', ''Exemplars.Value'',
      ''Exemplars.SpanId'', ''Exemplars.TraceId'']"
  by code_simp

lemma insert_placeholders_gauge:
  "insert_placeholders insertGaugeTableSQL = replicate 21 ''?''"
  by code_simp

lemma create_columns_gauge:
  "create_columns createGaugeTableSQL =
     [''ResourceAttributes'', ''ResourceSchemaUrl'', ''ScopeName'', ''ScopeVersion'',
      ''ScopeAttributes'', ''ScopeDroppedAttrCount'', ''ScopeSchemaUrl'',
      ''ServiceName'', ''MetricName'', ''MetricDescription'', ''MetricUnit'',
      ''Attributes'', ''StartTimeUnix'', ''TimeUnix'', ''Value'', ''Flags'',
      ''Exemplars.FilteredAttributes'', ''Exemplars.TimeUnix'', ''Exemplars.Value'',
      ''Exemplars.SpanId'', ''Exemplars.TraceId'']"
  by code_simp

lemma insert_columns_histogram:
  "insert_columns insertHistogramTableSQL =
     [''ResourceAttributes'', ''ResourceSchemaUrl'', ''ScopeName'', ''ScopeVersion'',
      ''ScopeAttributes'', ''ScopeDroppedAttrCount'', ''ScopeSchemaUrl'',
      ''ServiceName'', ''MetricName'', ''MetricDescription'', ''MetricUnit'',
      ''Attributes'', ''StartTimeUnix'', ''TimeUnix'', ''Count'', ''Sum'',
      ''BucketCounts'', ''ExplicitBounds'', ''Exemplars.FilteredAttributes'',
      ''Exemplars.TimeUnix'', ''Exemplars.Value'', ''Exemplars.SpanId'',
      ''Exemplars.TraceId'', ''Flags'', ''Min'', ''Max'', ''AggregationTemporality'']"
  by code_simp

lemma insert_placeholders_histogram:
  "insert_placeholders insertHistogramTableSQL = replicate 27 ''?''"
  by code_simp

lemma create_columns_histogram:
  "create_columns createHistogramTableSQL =
     [''ResourceAttributes'', ''ResourceSchemaUrl'', ''ScopeName'', ''ScopeVersion'',
      ''ScopeAttributes'', ''ScopeDroppedAttrCount'', ''ScopeSchemaUrl'',
      ''ServiceName'', ''MetricName'', ''MetricDescription'', ''MetricUnit'',
      ''Attributes'', ''StartTimeUnix'', ''TimeUnix'', ''Count'', ''Sum'',
      ''BucketCounts'', ''ExplicitBounds'', ''Exemplars.FilteredAttributes'',
      ''Exemplars.TimeUnix'', ''Exemplars.Value'', ''Exemplars.SpanId'',
      ''Exemplars.TraceId'', ''Flags'', ''Min'', ''Max'', ''AggregationTemporality'']"
  by code_simp

lemma insert_columns_expHistogram:
  "insert_columns insertExpHistogramTableSQL =
     [''ResourceAttributes'', ''ResourceSchemaUrl'', ''ScopeName'', ''ScopeVersion'',
      ''ScopeAttributes'', ''ScopeDroppedAttrCount'', ''ScopeSchemaUrl'',
      ''ServiceName'', ''MetricName'', ''MetricDescription'', ''MetricUnit'',
      ''Attributes'', ''StartTimeUnix'', ''TimeUnix'', ''Count'', ''Sum'', ''Scale'',
      ''ZeroCount'', ''PositiveOffset'', ''PositiveBucketCounts'',
      ''NegativeOffset'', ''NegativeBucketCounts'', ''Exemplars.FilteredAttributes'',
      ''Exemplars.TimeUnix'', ''Exemplars.Value'', ''Exemplars.SpanId'',
      ''Exemplars.TraceId'', ''Flags'', ''Min'', ''Max'', ''AggregationTemporality'']"
  by code_simp

lemma insert_placeholders_expHistogram:
  "insert_placeholders insertExpHistogramTableSQL = replicate 31 ''?''"
  by code_simp

lemma create_columns_expHistogram:
  "create_columns createExpHistogramTableSQL =
     [''ResourceAttributes'', ''ResourceSchemaUrl'', ''ScopeName'', ''ScopeVersion'',
      ''ScopeAttributes'', ''ScopeDroppedAttrCount'', ''ScopeSchemaUrl'',
      ''ServiceName'', ''MetricName'', ''MetricDescription'', ''MetricUnit'',
      ''Attributes'', ''StartTimeUnix'', ''TimeUnix'', ''Count'', ''Sum'', ''Scale'',
      ''ZeroCount'', ''PositiveOffset'', ''PositiveBucketCounts'',
      ''NegativeOffset'', ''NegativeBucketCounts'', ''Exemplars.FilteredAttributes'',
      ''Exemplars.TimeUnix'', ''Exemplars.Value'', ''Exemplars.SpanId'',
      ''Exemplars.TraceId'', ''Flags'', ''Min'', ''Max'', ''AggregationTemporality'']"
  by code_simp

lemma insert_columns_summary:
  "insert_columns insertSummaryTableSQL =
     [''ResourceAttributes'', ''ResourceSchemaUrl'', ''ScopeName'', ''ScopeVersion'',
      ''ScopeAttributes'', ''ScopeDroppedAttrCount'', ''ScopeSchemaUrl'',
      ''ServiceName'', ''MetricName'', ''MetricDescription'', ''MetricUnit'',
      ''Attributes'', ''StartTimeUnix'', ''TimeUnix'', ''Count'', ''Sum'',
      ''ValueAtQuantiles.Quantile'', ''ValueAtQuantiles.Value'', ''Flags'']"
  by code_simp

lemma insert_placeholders_summary:
  "insert_placeholders insertSummaryTableSQL = replicate 19 ''?''"
  by code_simp

lemma create_columns_summary:
  "create_columns createSummaryTableSQL =
     [''ResourceAttributes'', ''ResourceSchemaUrl'', ''ScopeName'', ''ScopeVersion'',
      ''ScopeAttributes'', ''ScopeDroppedAttrCount'', ''ScopeSchemaUrl'',
      ''ServiceName'', ''MetricName'', ''MetricDescription'', ''MetricUnit'',
      ''Attributes'', ''StartTimeUnix'', ''TimeUnix'', ''Count'', ''Sum'',
      ''ValueAtQuantiles.Quantile'', ''ValueAtQuantiles.Value'', ''Flags'']"
  by code_simp

section \<open>Rows and columns\<close>

lemma traces_row_by_name:
  "map Some (traces_row J spans scope r) =
     map (map_of (traces_columns J spans scope r)) (insert_columns insertTracesSQLTemplate)"
  by (simp add: insert_columns_traces traces_columns_def
      traces_row_def traces_args_def convertEvents_eq convertLinks_eq)

lemma logs_row_by_name:
  "map Some (logs_row J logs scope r) =
     map (map_of (logs_columns J logs scope r)) (insert_columns insertLogsSQLTemplate)"
  by (simp add: insert_columns_logs logs_columns_def
      logs_row_def logs_args_def Let_def)

lemma sum_row_by_name:
  "map Some (sum_row J model dp) =
     map (map_of (sum_columns J model dp)) (insert_columns insertSumTableSQL)"
  by (simp add: insert_columns_sum sum_columns_def
      sum_row_def sum_args_def convertExemplars_def)

lemma gauge_row_by_name:
  "map Some (gauge_row J model dp) =
     map (map_of (gauge_columns J model dp)) (insert_columns insertGaugeTableSQL)"
  by (simp add: insert_columns_gauge gauge_columns_def
      gauge_row_def gauge_args_def convertExemplars_def)

lemma histogram_row_by_name:
  "map Some (histogram_row J model dp) =
     map (map_of (histogram_columns J model dp)) (insert_columns insertHistogramTableSQL)"
  by (simp add: insert_columns_histogram histogram_columns_def
      histogram_row_def histogram_args_def convertExemplars_def convertSliceToArraySet_def)

lemma expHistogram_row_by_name:
  "map Some (expHistogram_row J model dp) =
     map (map_of (expHistogram_columns J model dp)) (insert_columns insertExpHistogramTableSQL)"
  by (simp add: insert_columns_expHistogram expHistogram_columns_def
      expHistogram_row_def expHistogram_args_def convertExemplars_def convertSliceToArraySet_def)

lemma summary_row_by_name:
  "map Some (summary_row J model dp) =
     map (map_of (summary_columns J model dp)) (insert_columns insertSummaryTableSQL)"
  by (simp add: insert_columns_summary summary_columns_def
      summary_row_def summary_args_def convertValueAtQuantile_def)

lemma map_of_zip_by_name:
  "map Some ys = map f xs \<Longrightarrow> x \<in> set xs \<Longrightarrow> map_of (zip xs ys) x = f x"
proof (induction xs arbitrary: ys)
  case Nil
  then show ?case by simp
next
  case (Cons a xs)
  then obtain y ys' where ys: "ys = y # ys'"
    by (cases ys) auto
  with Cons.prems have "Some y = f a" "map Some ys' = map f xs"
    by simp_all
  with Cons.IH [of ys'] Cons.prems(2) ys show ?case
    by auto
qed

lemma first_failure_ok_driver: "first_failure ok_driver n rows = None"
  by (induction rows arbitrary: n) (simp_all add: ok_driver_def)

lemma tx_outcome_ok_driver:
  "tx_outcome wrap ok_driver q rows db =
     (None, \<lparr>stored = stored db @ map (Pair q) rows,
             calls = calls db @ [Begin, PrepareContext q] @ map ExecContext rows
               @ [Close, Commit, Rollback]\<rparr>)"
proof -
  have "BeginErr ok_driver = None" "PrepareErr ok_driver q = None" "CommitErr ok_driver = None"
    by (simp_all add: ok_driver_def)
  then show ?thesis
    by (simp add: tx_outcome_def first_failure_ok_driver)
qed

lemma sum_column_of_row:
  assumes "name \<in> set (insert_columns insertSumTableSQL)"
  shows "column_of insertSumTableSQL name (sum_row J model dp) = map_of (sum_columns J model dp) name"
  unfolding column_of_def
  using sum_row_by_name assms by (rule map_of_zip_by_name)

lemma traces_column_of_row:
  assumes "name \<in> set (insert_columns insertTracesSQLTemplate)"
  shows "column_of insertTracesSQLTemplate name (traces_row J spans scope r)
       = map_of (traces_columns J spans scope r) name"
  unfolding column_of_def
  using traces_row_by_name assms by (rule map_of_zip_by_name)

lemma logs_column_of_row:
  assumes "name \<in> set (insert_columns insertLogsSQLTemplate)"
  shows "column_of insertLogsSQLTemplate name (logs_row J logs scope r)
       = map_of (logs_columns J logs scope r) name"
  unfolding column_of_def
  using logs_row_by_name assms by (rule map_of_zip_by_name)

lemma tx_outcome_execs_subset:
  assumes "tx_outcome wrap drv q rows db = (res, db')"
    and "ExecContext args \<in> set (drop (length (calls db)) (calls db'))"
  shows "args \<in> set rows"
  using assms(1)
proof (cases rule: tx_outcome_cases)
  case (begin_failed e)
  with assms(2) show ?thesis by simp
next
  case (prepare_failed e)
  with assms(2) show ?thesis by simp
next
  case (exec_failed k e)
  with assms(2) have "args \<in> set (take (Suc k) rows)"
    by auto
  then show ?thesis by (rule in_set_takeD)
next
  case (commit_failed e)
  with assms(2) show ?thesis by auto
next
  case committed
  with assms(2) show ?thesis by auto
qed

text \<open>
  C1, as the code has it. For the spans table and the five metrics tables, the column
  list of the INSERT statement is the column list of the CREATE TABLE statement, name for
  name and position for position; for the logs table it is that list without the column
  TimestampTime, which the table computes itself (DEFAULT toDateTime(Timestamp)). Every
  INSERT statement has one placeholder per column. For every signal kind, the arguments
  bound for one row are, position by position, the values the columns of the INSERT list
  are to hold by their names; for the sum table these are 23 arguments for the 23 columns
  ResourceAttributes through IsMonotonic.
\<close>

theorem insert_columns_match_table_and_arguments:
  "insert_columns insertTracesSQLTemplate = create_columns createTracesTableSQL
     \<and> insert_columns insertLogsSQLTemplate =
         filter (\<lambda>c. c \<noteq> ''TimestampTime'') (create_columns createLogsTableSQL)
     \<and> insert_columns insertSumTableSQL = create_columns createSumTableSQL
     \<and> insert_columns insertGaugeTableSQL = create_columns createGaugeTableSQL
     \<and> insert_columns insertHistogramTableSQL = create_columns createHistogramTableSQL
     \<and> insert_columns insertExpHistogramTableSQL = create_columns createExpHistogramTableSQL
     \<and> insert_columns insertSummaryTableSQL = create_columns createSummaryTableSQL
     \<and> insert_placeholders insertTracesSQLTemplate =
         replicate (length (insert_columns insertTracesSQLTemplate)) ''?''
     \<and> insert_placeholders insertLogsSQLTemplate =
         replicate (length (insert_columns insertLogsSQLTemplate)) ''?''
     \<and> insert_placeholders insertSumTableSQL =
         replicate (length (insert_columns insertSumTableSQL)) ''?''
     \<and> insert_placeholders insertGaugeTableSQL =
         replicate (length (insert_columns insertGaugeTableSQL)) ''?''
     \<and> insert_placeholders insertHistogramTableSQL =
         replicate (length (insert_columns insertHistogramTableSQL)) ''?''
     \<and> insert_placeholders insertExpHistogramTableSQL =
         replicate (length (insert_columns insertExpHistogramTableSQL)) ''?''
     \<and> insert_placeholders insertSummaryTableSQL =
         replicate (length (insert_columns insertSummaryTableSQL)) ''?''
     \<and> map Some (traces_row J spans scope r) =
         map (map_of (traces_columns J spans scope r)) (insert_columns insertTracesSQLTemplate)
     \<and> map Some (logs_row J logs lscope lr) =
         map (map_of (logs_columns J logs lscope lr)) (insert_columns insertLogsSQLTemplate)
     \<and> map Some (sum_row J sm sdp) =
         map (map_of (sum_columns J sm sdp)) (insert_columns insertSumTableSQL)
     \<and> map Some (gauge_row J gm gdp) =
         map (map_of (gauge_columns J gm gdp)) (insert_columns insertGaugeTableSQL)
     \<and> map Some (histogram_row J hm hdp) =
         map (map_of (histogram_columns J hm hdp)) (insert_columns insertHistogramTableSQL)
     \<and> map Some (expHistogram_row J em edp) =
         map (map_of (expHistogram_columns J em edp)) (insert_columns insertExpHistogramTableSQL)
     \<and> map Some (summary_row J ym ydp) =
         map (map_of (summary_columns J ym ydp)) (insert_columns insertSummaryTableSQL)
     \<and> length (sum_row J sm sdp) = 23 \<and> length (create_columns createSumTableSQL) = 23"
proof -
  have lists: "insert_columns insertTracesSQLTemplate = create_columns createTracesTableSQL
       \<and> insert_columns insertLogsSQLTemplate =
           filter (\<lambda>c. c \<noteq> ''TimestampTime'') (create_columns createLogsTableSQL)
       \<and> insert_columns insertSumTableSQL = create_columns createSumTableSQL
       \<and> insert_columns insertGaugeTableSQL = create_columns createGaugeTableSQL
       \<and> insert_columns insertHistogramTableSQL = create_columns createHistogramTableSQL
       \<and> insert_columns insertExpHistogramTableSQL = create_columns createExpHistogramTableSQL
       \<and> insert_columns insertSummaryTableSQL = create_columns createSummaryTableSQL
       \<and> insert_placeholders insertTracesSQLTemplate =
           replicate (length (insert_columns insertTracesSQLTemplate)) ''?''
       \<and> insert_placeholders insertLogsSQLTemplate =
           replicate (length (insert_columns insertLogsSQLTemplate)) ''?''
       \<and> insert_placeholders insertSumTableSQL =
           replicate (length (insert_columns insertSumTableSQL)) ''?''
       \<and> insert_placeholders insertGaugeTableSQL =
           replicate (length (insert_columns insertGaugeTableSQL)) ''?''
       \<and> insert_placeholders insertHistogramTableSQL =
           replicate (length (insert_columns insertHistogramTableSQL)) ''?''
       \<and> insert_placeholders insertExpHistogramTableSQL =
           replicate (length (insert_columns insertExpHistogramTableSQL)) ''?''
       \<and> insert_placeholders insertSummaryTableSQL =
           replicate (length (insert_columns insertSummaryTableSQL)) ''?''"
    by (simp add: insert_columns_traces create_columns_traces insert_placeholders_traces
        insert_columns_logs create_columns_logs insert_placeholders_logs
        insert_columns_sum create_columns_sum insert_placeholders_sum
        insert_columns_gauge create_columns_gauge insert_placeholders_gauge
        insert_columns_histogram create_columns_histogram insert_placeholders_histogram
        insert_columns_expHistogram create_columns_expHistogram insert_placeholders_expHistogram
        insert_columns_summary create_columns_summary insert_placeholders_summary
        eval_nat_numeral)
  have len: "length (sum_row J sm sdp) = 23"
    using arg_cong [OF sum_row_by_name [of J sm sdp], of length]
    by (simp add: insert_columns_sum)
  show ?thesis
    using lists len
    by (simp only: traces_row_by_name logs_row_by_name sum_row_by_name
        gauge_row_by_name histogram_row_by_name expHistogram_row_by_name
        summary_row_by_name
        create_columns_sum) simp
qed

text \<open>
  The claim as stated fails for the logs table: its CREATE TABLE statement declares the
  column TimestampTime, which the INSERT statement does not list.
\<close>

theorem logs_insert_columns_differ_from_table_columns:
  "insert_columns insertLogsSQLTemplate \<noteq> create_columns createLogsTableSQL"
  by (simp add: insert_columns_logs create_columns_logs)

section \<open>One push is one atomic transaction\<close>

text \<open>
  The hypothesis of the theorem below on the row count of a metrics group holds of every
  group the exporter builds: it holds of an empty group, and every Add keeps it.
\<close>

lemma empty_group_count_consistent:
  "count_consistent J (InsertSum (empty_sumMetrics q))"
  by (simp add: count_consistent_def empty_sumMetrics_def sum_rows_def)

lemma Add_keeps_count_consistent:
  "(count_consistent J (InsertSum s) \<longrightarrow>
        count_consistent J (InsertSum (snd (sumMetrics_Add s resAttr resURL
          scopeInstr scopeURL metrics name description unit))))
     \<and> (count_consistent J (InsertGauge g) \<longrightarrow>
        count_consistent J (InsertGauge (snd (gaugeMetrics_Add g resAttr resURL
          scopeInstr scopeURL metrics name description unit))))
     \<and> (count_consistent J (InsertHistogram h) \<longrightarrow>
        count_consistent J (InsertHistogram (snd (histogramMetrics_Add h resAttr resURL
          scopeInstr scopeURL metrics name description unit))))
     \<and> (count_consistent J (InsertExpHistogram e) \<longrightarrow>
        count_consistent J (InsertExpHistogram (snd (expHistogramMetrics_Add e resAttr resURL
          scopeInstr scopeURL metrics name description unit))))
     \<and> (count_consistent J (InsertSummary y) \<longrightarrow>
        count_consistent J (InsertSummary (snd (summaryMetrics_Add y resAttr resURL
          scopeInstr scopeURL metrics name description unit))))"
  by (cases metrics)
    (simp_all add: count_consistent_def sumMetrics_Add_def sum_rows_def gaugeMetrics_Add_def
      gauge_rows_def histogramMetrics_Add_def histogram_rows_def expHistogramMetrics_Add_def
      expHistogram_rows_def summaryMetrics_Add_def summary_rows_def)

text \<open>
  C2. For every push of one signal kind (the count of a metrics group being the number of
  its accumulated rows): the calls the push makes on the store are none, or a refused
  Begin, or one Begin, one PrepareContext of the insert statement, the ExecContext calls of
  a prefix of the rows in accumulation order, and the end of the transaction. If
  PrepareContext returns an error, or the execution of a row does after all rows before it
  succeeded, the push returns an error that wraps it, nothing is stored, there is no
  Commit and the last call is the Rollback. There is a Commit only when every row executed
  without error; the stored rows grow (by all rows of the push) only when the push returns
  no error. When the driver refuses nothing, the push returns no error, every row is
  executed, in accumulation order, and all rows are stored: a push that has rows (or is of
  traces or logs) makes exactly the calls Begin, PrepareContext, one ExecContext per row,
  Close, Commit and the deferred Rollback. When only Commit is refused, all rows are
  executed, the push returns an error that wraps the one of Commit and nothing is stored;
  when Begin is refused, Begin is the only call, the push returns an error that wraps its
  error and nothing is stored.
\<close>

theorem push_is_one_atomic_transaction:
  assumes run: "run_push J drv db p = (res, db')"
    and inv: "count_consistent J p"
  shows "\<exists>new.
      calls db' = calls db @ new
    \<and> (new = [] \<or> new = [Begin]
       \<or> (\<exists>k \<le> length (push_rows J p).
            \<exists>ending \<in> {[Rollback], [Close, Rollback], [Close, Commit, Rollback]}.
              new = [Begin, PrepareContext (push_insertSQL p)]
                    @ map ExecContext (take k (push_rows J p)) @ ending))
    \<and> (\<forall>e. BeginErr drv = None \<and> push_count p \<noteq> Some 0
            \<and> PrepareErr drv (push_insertSQL p) = Some e \<longrightarrow>
          (\<exists>err. res = Some err \<and> errors_Is err e)
          \<and> stored db' = stored db \<and> Commit \<notin> set new \<and> last new = Rollback)
    \<and> (\<forall>k e. BeginErr drv = None \<and> PrepareErr drv (push_insertSQL p) = None
            \<and> k < length (push_rows J p)
            \<and> (\<forall>i < k. ExecErr drv i (push_rows J p ! i) = None)
            \<and> ExecErr drv k (push_rows J p ! k) = Some e \<longrightarrow>
          (\<exists>err. res = Some err \<and> errors_Is err e)
          \<and> stored db' = stored db \<and> Commit \<notin> set new \<and> last new = Rollback
          \<and> execs new = take (Suc k) (push_rows J p))
    \<and> (Commit \<in> set new \<longrightarrow>
          (\<forall>i < length (push_rows J p). ExecErr drv i (push_rows J p ! i) = None)
          \<and> execs new = push_rows J p)
    \<and> stored db' =
        (if res = None then stored db @ map (Pair (push_insertSQL p)) (push_rows J p)
         else stored db)
    \<and> (BeginErr drv = None \<and> PrepareErr drv (push_insertSQL p) = None
          \<and> (\<forall>i < length (push_rows J p). ExecErr drv i (push_rows J p ! i) = None)
          \<and> CommitErr drv = None \<longrightarrow>
          res = None \<and> execs new = push_rows J p
          \<and> stored db' = stored db @ map (Pair (push_insertSQL p)) (push_rows J p)
          \<and> (push_count p \<noteq> Some 0 \<longrightarrow>
                new = [Begin, PrepareContext (push_insertSQL p)]
                      @ map ExecContext (push_rows J p) @ [Close, Commit, Rollback]))
    \<and> (\<forall>e. BeginErr drv = None \<and> PrepareErr drv (push_insertSQL p) = None
          \<and> (\<forall>i < length (push_rows J p). ExecErr drv i (push_rows J p ! i) = None)
          \<and> push_count p \<noteq> Some 0 \<and> CommitErr drv = Some e \<longrightarrow>
          (\<exists>err. res = Some err \<and> errors_Is err e) \<and> stored db' = stored db
          \<and> new = [Begin, PrepareContext (push_insertSQL p)]
                  @ map ExecContext (push_rows J p) @ [Close, Commit, Rollback])
    \<and> (\<forall>e. push_count p \<noteq> Some 0 \<and> BeginErr drv = Some e \<longrightarrow>
          (\<exists>err. res = Some err \<and> errors_Is err e) \<and> stored db' = stored db
          \<and> new = [Begin])"
proof -
  let ?rows = "push_rows J p" and ?q = "push_insertSQL p"
  obtain wrap fail where wrap: "\<And>e. errors_Is (wrap e) e"
    and fail: "\<And>e t. errors_Is e t \<Longrightarrow> errors_Is (fail e) t"
    and eq: "run_push J drv db p =
        (if push_count p = Some 0 then (None, db)
         else (case tx_outcome wrap drv ?q ?rows db of
                 (Some err, db1) \<Rightarrow> (Some (fail err), db1)
               | (None, db1) \<Rightarrow> (None, db1)))"
    using run_push_outcome [of J drv db p] by blast
  show ?thesis
  proof (cases "push_count p = Some 0")
    case True
    with inv have rows: "?rows = []"
      by (simp add: count_consistent_def)
    from True eq run have "res = None" "db' = db"
      by simp_all
    with rows True show ?thesis
      by (intro exI [of _ "[]"]) simp
  next
    case False
    obtain r where tx: "tx_outcome wrap drv ?q ?rows db = (r, db')"
      and res: "res = map_option fail r"
      using False eq run by (auto split: prod.splits option.splits)
    from tx show ?thesis
    proof (cases rule: tx_outcome_cases)
      case (begin_failed e)
      have "errors_Is (fail (Errorf ''db.Begin: '' e)) e"
        by (rule fail) (simp add: errors_Is_refl)
      with begin_failed res False show ?thesis
        by (intro exI [of _ "[Begin]"]) simp
    next
      case (prepare_failed e)
      have "errors_Is (fail (wrap e)) e"
        by (rule fail) (rule wrap)
      with prepare_failed res show ?thesis
        by (intro exI [of _ "[Begin, PrepareContext ?q] @ map ExecContext (take 0 ?rows)
            @ [Rollback]"])
          auto
    next
      case (exec_failed k e)
      from first_failure_Some_0 [OF exec_failed(3)]
      have k: "k < length ?rows" "ExecErr drv k (?rows ! k) = Some e"
        by simp_all
      have same: "k' = k \<and> e' = e"
        if "k' < length ?rows" "\<forall>i < k'. ExecErr drv i (?rows ! i) = None"
          "ExecErr drv k' (?rows ! k') = Some e'" for k' e'
        using first_failure_determined [OF that] exec_failed(3) by simp
      have wrapped: "errors_Is (fail (Errorf ''ExecContext:'' e)) e"
        by (rule fail) (simp add: errors_Is_refl)
      let ?new = "[Begin, PrepareContext ?q] @ map ExecContext (take (Suc k) ?rows)
        @ [Close, Rollback]"
      have shape: "\<exists>k \<le> length ?rows.
            \<exists>ending \<in> {[Rollback], [Close, Rollback], [Close, Commit, Rollback]}.
              ?new = [Begin, PrepareContext ?q] @ map ExecContext (take k ?rows) @ ending"
        using k by (intro exI [of _ "Suc k"]) simp
      have nocommit: "Commit \<notin> set ?new"
        by auto
      have ex: "execs ?new = take (Suc k) ?rows"
        by (simp add: execs_append execs_map_ExecContext)
      have refused: "\<not> (\<forall>i < length ?rows. ExecErr drv i (?rows ! i) = None)"
        using k by auto
      show ?thesis
        using exec_failed res wrapped shape nocommit ex same refused
        by (intro exI [of _ ?new]) (simp only: , auto)
    next
      case (commit_failed e)
      note none = first_failure_None_0 [OF commit_failed(3)]
      let ?new = "[Begin, PrepareContext ?q] @ map ExecContext (take (length ?rows) ?rows)
        @ [Close, Commit, Rollback]"
      have shape: "\<exists>k \<le> length ?rows.
            \<exists>ending \<in> {[Rollback], [Close, Rollback], [Close, Commit, Rollback]}.
              ?new = [Begin, PrepareContext ?q] @ map ExecContext (take k ?rows) @ ending"
        by (intro exI [of _ "length ?rows"]) simp
      have ex: "execs ?new = ?rows"
        by (simp add: execs_append execs_map_ExecContext)
      have all: "?new = [Begin, PrepareContext ?q] @ map ExecContext ?rows
          @ [Close, Commit, Rollback]"
        by simp
      have wrapped: "errors_Is (fail e) e"
        by (rule fail) (rule errors_Is_refl)
      show ?thesis
        using commit_failed res shape ex none all wrapped False
        by (intro exI [of _ ?new]) (simp only: , auto)
    next
      case committed
      note none = first_failure_None_0 [OF committed(3)]
      let ?new = "[Begin, PrepareContext ?q] @ map ExecContext (take (length ?rows) ?rows)
        @ [Close, Commit, Rollback]"
      have shape: "\<exists>k \<le> length ?rows.
            \<exists>ending \<in> {[Rollback], [Close, Rollback], [Close, Commit, Rollback]}.
              ?new = [Begin, PrepareContext ?q] @ map ExecContext (take k ?rows) @ ending"
        by (intro exI [of _ "length ?rows"]) simp
      have ex: "execs ?new = ?rows"
        by (simp add: execs_append execs_map_ExecContext)
      have all: "?new = [Begin, PrepareContext ?q] @ map ExecContext ?rows
          @ [Close, Commit, Rollback]"
        by simp
      show ?thesis
        using committed res shape ex none all
        by (intro exI [of _ ?new]) (simp only: , auto)
    qed
  qed
qed

section \<open>The sum scenario, end to end\<close>

text \<open>
  C3. One resource whose service-name attribute is "api", one scope, one Sum metric named
  "requests_total" with two data points (the doubles 1.0 and 2.0, no exemplars),
  monotonic, of cumulative temporality: added to an empty sum group and inserted with a
  driver that refuses nothing, the push returns no error, executes exactly two inserts
  and stores their two rows. Each row holds ServiceName "api", MetricName
  "requests_total", IsMonotonic true, AggregationTemporality the cumulative ordinal, and
  five empty exemplar arrays; the Value columns hold 1.0 and 2.0.
\<close>

theorem sum_scenario_two_rows:
  "(let sum_v =
       \<lparr>sum_DataPoints =
          [dp1\<lparr>ndp_ValueType := ValueTypeDouble, ndp_DoubleValue := float64_1, ndp_Exemplars := []\<rparr>,
           dp2\<lparr>ndp_ValueType := ValueTypeDouble, ndp_DoubleValue := float64_2, ndp_Exemplars := []\<rparr>],
        sum_AggregationTemporality = AggregationTemporalityCumulative,
        sum_IsMonotonic = True\<rparr>;
      s = snd (sumMetrics_Add (empty_sumMetrics q) [(''service.name'', ''api'')] resURL scopeInstr
             scopeURL (AnySum sum_v) ''requests_total'' description unit)
    in case sumMetrics_insert J ok_driver s db of
      (res, db') \<Rightarrow>
        res = None
      \<and> (\<exists>row1 row2.
            execs (drop (length (calls db)) (calls db')) = [row1, row2]
          \<and> stored db' = stored db @ [(q, row1), (q, row2)]
          \<and> (\<forall>row \<in> {row1, row2}.
                column_of insertSumTableSQL ''ServiceName'' row = Some (ArgString ''api'')
              \<and> column_of insertSumTableSQL ''MetricName'' row = Some (ArgString ''requests_total'')
              \<and> column_of insertSumTableSQL ''IsMonotonic'' row = Some (ArgBool True)
              \<and> column_of insertSumTableSQL ''AggregationTemporality'' row
                  = Some (ArgInt32 AggregationTemporalityCumulative)
              \<and> column_of insertSumTableSQL ''Exemplars.FilteredAttributes'' row = Some (ArgArraySet [])
              \<and> column_of insertSumTableSQL ''Exemplars.TimeUnix'' row = Some (ArgArraySet [])
              \<and> column_of insertSumTableSQL ''Exemplars.Value'' row = Some (ArgArraySet [])
              \<and> column_of insertSumTableSQL ''Exemplars.SpanId'' row = Some (ArgArraySet [])
              \<and> column_of insertSumTableSQL ''Exemplars.TraceId'' row = Some (ArgArraySet []))
          \<and> column_of insertSumTableSQL ''Value'' row1 = Some (ArgFloat64 float64_1)
          \<and> column_of insertSumTableSQL ''Value'' row2 = Some (ArgFloat64 float64_2)))"
proof -
  define d1 where "d1 = dp1\<lparr>ndp_ValueType := ValueTypeDouble, ndp_DoubleValue := float64_1, ndp_Exemplars := []\<rparr>"
  define d2 where "d2 = dp2\<lparr>ndp_ValueType := ValueTypeDouble, ndp_DoubleValue := float64_2, ndp_Exemplars := []\<rparr>"
  define sum_v where "sum_v = \<lparr>sum_DataPoints = [d1, d2],
        sum_AggregationTemporality = AggregationTemporalityCumulative, sum_IsMonotonic = True\<rparr>"
  define m where "m = \<lparr>sumModel_metricName = ''requests_total'', sumModel_metricDescription = description,
      sumModel_metricUnit = unit,
      sumModel_metadata = \<lparr>ResAttr = [(''service.name'', ''api'')], ResURL = resURL, ScopeURL = scopeURL,
        ScopeInstr = scopeInstr\<rparr>,
      sumModel_sum = sum_v\<rparr>"
  define s where "s = snd (sumMetrics_Add (empty_sumMetrics q) [(''service.name'', ''api'')] resURL scopeInstr
             scopeURL (AnySum sum_v) ''requests_total'' description unit)"
  have s: "sumMetrics_sumModel s = [m]" "sumMetrics_insertSQL s = q" "sumMetrics_count s = 2"
    by (simp_all add: s_def sumMetrics_Add_def empty_sumMetrics_def m_def sum_v_def)
  have rows: "sum_rows J s = [sum_row J m d1, sum_row J m d2]"
    by (simp add: sum_rows_def s m_def sum_v_def)
  have run: "sumMetrics_insert J ok_driver s db =
      (None, \<lparr>stored = stored db @ [(q, sum_row J m d1), (q, sum_row J m d2)],
        calls = calls db @ [Begin, PrepareContext q, ExecContext (sum_row J m d1),
          ExecContext (sum_row J m d2), Close, Commit, Rollback]\<rparr>)"
    by (simp add: sumMetrics_insert_outcome s tx_outcome_ok_driver rows)
  have cols: "column_of insertSumTableSQL ''ServiceName'' (sum_row J m d) = Some (ArgString ''api'')"
    "column_of insertSumTableSQL ''MetricName'' (sum_row J m d) = Some (ArgString ''requests_total'')"
    "column_of insertSumTableSQL ''IsMonotonic'' (sum_row J m d) = Some (ArgBool True)"
    "column_of insertSumTableSQL ''AggregationTemporality'' (sum_row J m d)
       = Some (ArgInt32 AggregationTemporalityCumulative)" for d
    by (simp_all add: sum_column_of_row insert_columns_sum sum_columns_def m_def sum_v_def
        GetServiceName_def)
  have ex: "column_of insertSumTableSQL ''Exemplars.FilteredAttributes'' (sum_row J m d) = Some (ArgArraySet [])"
    "column_of insertSumTableSQL ''Exemplars.TimeUnix'' (sum_row J m d) = Some (ArgArraySet [])"
    "column_of insertSumTableSQL ''Exemplars.Value'' (sum_row J m d) = Some (ArgArraySet [])"
    "column_of insertSumTableSQL ''Exemplars.SpanId'' (sum_row J m d) = Some (ArgArraySet [])"
    "column_of insertSumTableSQL ''Exemplars.TraceId'' (sum_row J m d) = Some (ArgArraySet [])"
    if "ndp_Exemplars d = []" for d
    using that by (simp_all add: sum_column_of_row insert_columns_sum sum_columns_def)
  have val: "column_of insertSumTableSQL ''Value'' (sum_row J m d) = Some (ArgFloat64 (ndp_DoubleValue d))"
    if "ndp_ValueType d = ValueTypeDouble" for d
    using that by (simp add: sum_column_of_row insert_columns_sum sum_columns_def getValue_def)
  have d: "ndp_Exemplars d1 = []" "ndp_Exemplars d2 = []" "ndp_ValueType d1 = ValueTypeDouble"
    "ndp_ValueType d2 = ValueTypeDouble" "ndp_DoubleValue d1 = float64_1" "ndp_DoubleValue d2 = float64_2"
    by (simp_all add: d1_def d2_def)
  have "res = None \<and> (\<exists>row1 row2.
            execs (drop (length (calls db)) (calls db')) = [row1, row2]
          \<and> stored db' = stored db @ [(q, row1), (q, row2)]
          \<and> (\<forall>row \<in> {row1, row2}.
                column_of insertSumTableSQL ''ServiceName'' row = Some (ArgString ''api'')
              \<and> column_of insertSumTableSQL ''MetricName'' row = Some (ArgString ''requests_total'')
              \<and> column_of insertSumTableSQL ''IsMonotonic'' row = Some (ArgBool True)
              \<and> column_of insertSumTableSQL ''AggregationTemporality'' row
                  = Some (ArgInt32 AggregationTemporalityCumulative)
              \<and> column_of insertSumTableSQL ''Exemplars.FilteredAttributes'' row = Some (ArgArraySet [])
              \<and> column_of insertSumTableSQL ''Exemplars.TimeUnix'' row = Some (ArgArraySet [])
              \<and> column_of insertSumTableSQL ''Exemplars.Value'' row = Some (ArgArraySet [])
              \<and> column_of insertSumTableSQL ''Exemplars.SpanId'' row = Some (ArgArraySet [])
              \<and> column_of insertSumTableSQL ''Exemplars.TraceId'' row = Some (ArgArraySet []))
          \<and> column_of insertSumTableSQL ''Value'' row1 = Some (ArgFloat64 float64_1)
          \<and> column_of insertSumTableSQL ''Value'' row2 = Some (ArgFloat64 float64_2))"
    if "sumMetrics_insert J ok_driver s db = (res, db')" for res db'
  proof -
    from that run have r: "res = None"
      and db': "db' = \<lparr>stored = stored db @ [(q, sum_row J m d1), (q, sum_row J m d2)],
        calls = calls db @ [Begin, PrepareContext q, ExecContext (sum_row J m d1),
          ExecContext (sum_row J m d2), Close, Commit, Rollback]\<rparr>"
      by simp_all
    show ?thesis
      using r db' cols ex [OF d(1)] ex [OF d(2)] val [OF d(3)] val [OF d(4)] d(5,6)
      by (intro conjI exI [of _ "sum_row J m d1"] exI [of _ "sum_row J m d2"]) simp_all
  qed
  then show ?thesis
    unfolding Let_def s_def sum_v_def d1_def d2_def
    by (simp split: prod.splits)
qed

section \<open>The duration of a span\<close>

lemma span_Duration_column:
  "column_of insertTracesSQLTemplate ''Duration'' (traces_row J spans scope r)
     = Some (ArgInt64 (Sub_Nanoseconds (AsTime (span_EndTimestamp r))
          (AsTime (span_StartTimestamp r))))"
  by (simp add: traces_column_of_row insert_columns_traces traces_columns_def)

lemma Sub_Nanoseconds_exact:
  "minDuration \<le> t - u \<Longrightarrow> t - u \<le> maxDuration \<Longrightarrow> Sub_Nanoseconds t u = t - u"
  by (simp add: Sub_Nanoseconds_def Let_def)

lemma Sub_Nanoseconds_nonneg_iff: "0 \<le> Sub_Nanoseconds t u \<longleftrightarrow> u \<le> t"
  by (auto simp: Sub_Nanoseconds_def Let_def minDuration_def maxDuration_def)

text \<open>
  C4, as the code has it. For every span, the argument bound to the Duration column is
  the end time minus the start time in nanoseconds, as \<^verbatim>\<open>time.Sub\<close> computes it (the exact
  difference when it fits an int64, else saturated); it is non-negative exactly when the
  end is not earlier than the start. pushTraceData does not look at it: with a driver that
  refuses nothing, the row of every span of the batch is executed and stored.
\<close>

theorem span_duration_bound_unchecked:
  "column_of insertTracesSQLTemplate ''Duration'' (traces_row J spans scope r)
     = Some (ArgInt64 (Sub_Nanoseconds (AsTime (span_EndTimestamp r))
          (AsTime (span_StartTimestamp r))))
   \<and> (minDuration \<le> AsTime (span_EndTimestamp r) - AsTime (span_StartTimestamp r)
        \<and> AsTime (span_EndTimestamp r) - AsTime (span_StartTimestamp r) \<le> maxDuration \<longrightarrow>
      Sub_Nanoseconds (AsTime (span_EndTimestamp r)) (AsTime (span_StartTimestamp r))
        = AsTime (span_EndTimestamp r) - AsTime (span_StartTimestamp r))
   \<and> (0 \<le> Sub_Nanoseconds (AsTime (span_EndTimestamp r)) (AsTime (span_StartTimestamp r))
        \<longleftrightarrow> AsTime (span_StartTimestamp r) \<le> AsTime (span_EndTimestamp r))
   \<and> pushTraceData J ok_driver q db td =
       (None, \<lparr>stored = stored db @ map (Pair q) (traces_rows J td),
               calls = calls db @ [Begin, PrepareContext q] @ map ExecContext (traces_rows J td)
                 @ [Close, Commit, Rollback]\<rparr>)"
  by (simp add: span_Duration_column Sub_Nanoseconds_exact Sub_Nanoseconds_nonneg_iff
      pushTraceData_outcome tx_outcome_ok_driver)

text \<open>
  The claim as stated fails: a span that starts at 10 ns and ends at 5 ns is pushed
  without error, and the row stored for it holds the duration -5.
\<close>

theorem span_with_end_before_start_is_stored:
  "fst (pushTraceData example_JSON ok_driver insertTracesSQLTemplate empty_DB
          (example_traces [example_span 10 5])) = None
   \<and> map (column_of insertTracesSQLTemplate ''Duration'' \<circ> snd)
        (stored (snd (pushTraceData example_JSON ok_driver insertTracesSQLTemplate empty_DB
          (example_traces [example_span 10 5]))))
     = [Some (ArgInt64 (- 5))]"
  by (simp add: pushTraceData_outcome tx_outcome_ok_driver traces_rows_def example_traces_def
      span_Duration_column empty_DB_def)
    (simp add: example_span_def AsTime_def Sub_Nanoseconds_def minDuration_def maxDuration_def)

section \<open>The timestamp of a log record\<close>

lemma log_Timestamp_column:
  "column_of insertLogsSQLTemplate ''Timestamp'' (logs_row J logs scope r)
     = Some (ArgTime (AsTime
         (if log_Timestamp r = 0 then log_ObservedTimestamp r else log_Timestamp r)))"
  by (simp add: logs_column_of_row insert_columns_logs logs_columns_def)

text \<open>
  C6. Every row pushLogsData executes is the row of a log record of the batch, and the
  argument bound to its Timestamp column is the record's timestamp when that is not zero,
  and the record's observed timestamp when it is zero (whatever the observed timestamp
  is: there is no further fallback).
\<close>

theorem log_timestamp_falls_back_to_observed:
  assumes "pushLogsData J drv q db ld = (res, db')"
    and "ExecContext args \<in> set (drop (length (calls db)) (calls db'))"
  shows "\<exists>logs \<in> set ld. \<exists>scope \<in> set (rl_ScopeLogs logs). \<exists>r \<in> set (sl_LogRecords scope).
           args = logs_row J logs scope r
         \<and> column_of insertLogsSQLTemplate ''Timestamp'' args
             = Some (ArgTime (AsTime
                 (if log_Timestamp r \<noteq> 0 then log_Timestamp r else log_ObservedTimestamp r)))"
proof -
  from assms have "args \<in> set (logs_rows J ld)"
    by (simp add: pushLogsData_outcome tx_outcome_execs_subset)
  then obtain logs scope r where "logs \<in> set ld" "scope \<in> set (rl_ScopeLogs logs)"
    "r \<in> set (sl_LogRecords scope)" "args = logs_row J logs scope r"
    by (auto simp: logs_rows_def)
  then show ?thesis
    using log_Timestamp_column [of J logs scope r] by auto
qed

section \<open>Empty metrics groups\<close>

text \<open>
  C9. For every metrics group whose row count is zero, insert returns no error and the
  store is exactly as before the call: no transaction was begun, no statement prepared
  and nothing executed (the record of calls is unchanged, and so are the stored rows).
\<close>

theorem insert_with_zero_count_does_nothing:
  assumes "push_count p = Some 0"
  shows "run_push J drv db p = (None, db)"
  using assms
  by (cases p)
    (simp_all add: sumMetrics_insert_def gaugeMetrics_insert_def histogramMetrics_insert_def
      expHistogramMetrics_insert_def summaryMetrics_insert_def)

section \<open>Accumulating metrics\<close>


section \<open>The trace-id time-range view\<close>

lemma renderTraceIDTsMaterializedViewSQL_text:
  "renderTraceIDTsMaterializedViewSQL cfg =
     ''\<newline>''
   @ ''CREATE MATERIALIZED VIEW IF NOT EXISTS '' @ TracesTableName cfg @ ''_trace_id_ts_mv ''
       @ clusterString cfg @ ''\<newline>''
   @ ''TO '' @ Database cfg @ ''.'' @ TracesTableName cfg @ ''_trace_id_ts\<newline>''
   @ ''AS SELECT\<newline>''
   @ [CHR 0x09] @ ''TraceId,\<newline>''
   @ [CHR 0x09] @ ''min(Timestamp) as Start,\<newline>''
   @ [CHR 0x09] @ ''max(Timestamp) as End\<newline>''
   @ ''FROM\<newline>''
   @ Database cfg @ ''.'' @ TracesTableName cfg @ ''\<newline>''
   @ ''WHERE TraceId != '' @ [CHR 0x27, CHR 0x27] @ ''\<newline>''
   @ ''GROUP BY TraceId;\<newline>''"
  by (simp add: renderTraceIDTsMaterializedViewSQL_def createTraceIDTsMaterializedViewSQL_def)

lemma span_TraceId_column:
  "row_TraceId (traces_row J spans scope r) = TraceIDToHexOrEmptyString (span_TraceID r)"
  by (simp add: row_TraceId_def traces_column_of_row insert_columns_traces traces_columns_def)

lemma span_Timestamp_column:
  "row_Timestamp (traces_row J spans scope r) = AsTime (span_StartTimestamp r)"
  by (simp add: row_Timestamp_def traces_column_of_row insert_columns_traces traces_columns_def)

lemma trace_id_ts_select_iff:
  "(t, s, e) \<in> set (trace_id_ts_select rows) \<longleftrightarrow>
     t \<noteq> [] \<and> t \<in> row_TraceId ` set rows
     \<and> s = Min (row_Timestamp ` {row \<in> set rows. row_TraceId row = t})
     \<and> e = Max (row_Timestamp ` {row \<in> set rows. row_TraceId row = t})"
proof -
  have "{row \<in> set rows. row_TraceId row \<noteq> [] \<and> row_TraceId row = t}
      = {row \<in> set rows. row_TraceId row = t}" if "t \<noteq> []"
    using that by auto
  then show ?thesis
    by (auto simp: trace_id_ts_select_def Let_def image_iff)
qed

lemma trace_id_ts_select_skips_empty:
  "row_TraceId row = [] \<Longrightarrow>
     trace_id_ts_select (before @ row # after) = trace_id_ts_select (before @ after)"
  by (simp add: trace_id_ts_select_def)

text \<open>
  C10. The rendered DDL of the trace-id time-range view is, for every configuration, the
  statement whose query selects TraceId, min(Timestamp) as Start and max(Timestamp) as End
  from the spans table WHERE TraceId != '' GROUP BY TraceId. Read as a query over the rows
  of the spans table, its result has an entry for a trace id exactly when the id is not
  empty and some row has it, with the least and the greatest Timestamp of the rows of that
  id. A span whose trace id is all zero is stored with the empty TraceId, and the result
  is the same with and without its row.
\<close>

theorem trace_id_view_leaves_out_empty_trace_ids:
  "renderTraceIDTsMaterializedViewSQL cfg =
     ''\<newline>''
   @ ''CREATE MATERIALIZED VIEW IF NOT EXISTS '' @ TracesTableName cfg @ ''_trace_id_ts_mv ''
       @ clusterString cfg @ ''\<newline>''
   @ ''TO '' @ Database cfg @ ''.'' @ TracesTableName cfg @ ''_trace_id_ts\<newline>''
   @ ''AS SELECT\<newline>''
   @ [CHR 0x09] @ ''TraceId,\<newline>''
   @ [CHR 0x09] @ ''min(Timestamp) as Start,\<newline>''
   @ [CHR 0x09] @ ''max(Timestamp) as End\<newline>''
   @ ''FROM\<newline>''
   @ Database cfg @ ''.'' @ TracesTableName cfg @ ''\<newline>''
   @ ''WHERE TraceId != '' @ [CHR 0x27, CHR 0x27] @ ''\<newline>''
   @ ''GROUP BY TraceId;\<newline>''
   \<and> ((t, s, e) \<in> set (trace_id_ts_select rows) \<longleftrightarrow>
        t \<noteq> [] \<and> t \<in> row_TraceId ` set rows
        \<and> s = Min (row_Timestamp ` {row \<in> set rows. row_TraceId row = t})
        \<and> e = Max (row_Timestamp ` {row \<in> set rows. row_TraceId row = t}))
   \<and> ((\<forall>b \<in> set (span_TraceID r). b = 0) \<longrightarrow>
        row_TraceId (traces_row J spans scope r) = []
      \<and> trace_id_ts_select (before @ traces_row J spans scope r # after)
          = trace_id_ts_select (before @ after))"
proof -
  have "row_TraceId (traces_row J spans scope r) = []
      \<and> trace_id_ts_select (before @ traces_row J spans scope r # after)
          = trace_id_ts_select (before @ after)"
    if "\<forall>b \<in> set (span_TraceID r). b = 0"
  proof -
    from that have "row_TraceId (traces_row J spans scope r) = []"
      by (simp add: span_TraceId_column TraceIDToHexOrEmptyString_def IsEmpty_iff)
    then show ?thesis
      by (simp add: trace_id_ts_select_skips_empty)
  qed
  then show ?thesis
    using renderTraceIDTsMaterializedViewSQL_text [of cfg] trace_id_ts_select_iff [of t s e rows]
    by blast
qed

section \<open>Instances\<close>

text \<open>The theorems above at concrete inputs.\<close>

theorem convert_events_links_aligned_witness:
  "(case convertEvents example_JSON
       [\<lparr>event_Timestamp = 5, event_Name = ''retry'', event_Attributes = [(''n'', ''1'')]\<rparr>,
        \<lparr>event_Timestamp = 9, event_Name = ''done'', event_Attributes = []\<rparr>] of
      (times', names, attrs) \<Rightarrow>
        length times' = 2 \<and> length names = 2 \<and> length attrs = 2
      \<and> times' ! 0 = 5 \<and> names ! 0 = ''retry'' \<and> attrs ! 0 = ''n=1;''
      \<and> times' ! 1 = 9 \<and> names ! 1 = ''done'' \<and> attrs ! 1 = [])
   \<and> (case convertLinks example_JSON
       [\<lparr>link_TraceID = [0, 0, 0, 0, 0, 0, 0, 0, 0, 0, 0, 0, 0, 0, 0, 0x2a],
         link_SpanID = [0, 0, 0, 0, 0, 0, 0, 0], link_TraceState = ''k=v'',
         link_Attributes = []\<rparr>] of
      (traceIDs, spanIDs, states, attrs) \<Rightarrow>
        length traceIDs = 1 \<and> length spanIDs = 1 \<and> length states = 1 \<and> length attrs = 1
      \<and> traceIDs ! 0 = ''0000000000000000000000000000002a'' \<and> spanIDs ! 0 = []
      \<and> states ! 0 = ''k=v'' \<and> attrs ! 0 = [])
   \<and> convertEvents example_JSON [] = ([], [], [])
   \<and> convertLinks example_JSON [] = ([], [], [], [])"
proof -
  let ?events = "[\<lparr>event_Timestamp = 5, event_Name = ''retry'', event_Attributes = [(''n'', ''1'')]\<rparr>,
        \<lparr>event_Timestamp = 9, event_Name = ''done'', event_Attributes = []\<rparr>]"
  let ?links = "[\<lparr>link_TraceID = [0, 0, 0, 0, 0, 0, 0, 0, 0, 0, 0, 0, 0, 0, 0, 0x2a],
         link_SpanID = [0, 0, 0, 0, 0, 0, 0, 0], link_TraceState = ''k=v'',
         link_Attributes = []\<rparr>]"
  obtain times' names eattrs where ev: "convertEvents example_JSON ?events = (times', names, eattrs)"
    by (cases "convertEvents example_JSON ?events")
  obtain traceIDs spanIDs states lattrs
    where ln: "convertLinks example_JSON ?links = (traceIDs, spanIDs, states, lattrs)"
    by (cases "convertLinks example_JSON ?links")
  have hex: "TraceIDToHexOrEmptyString [0, 0, 0, 0, 0, 0, 0, 0, 0, 0, 0, 0, 0, 0, 0, 0x2a]
      = ''0000000000000000000000000000002a''"
    "SpanIDToHexOrEmptyString [0, 0, 0, 0, 0, 0, 0, 0] = []"
    by code_simp+
  from convert_events_links_aligned [OF ev ln]
  have "length times' = 2 \<and> length names = 2 \<and> length eattrs = 2
      \<and> times' ! 0 = 5 \<and> names ! 0 = ''retry'' \<and> eattrs ! 0 = ''n=1;''
      \<and> times' ! 1 = 9 \<and> names ! 1 = ''done'' \<and> eattrs ! 1 = []"
    and "length traceIDs = 1 \<and> length spanIDs = 1 \<and> length states = 1 \<and> length lattrs = 1
      \<and> traceIDs ! 0 = ''0000000000000000000000000000002a'' \<and> spanIDs ! 0 = []
      \<and> states ! 0 = ''k=v'' \<and> lattrs ! 0 = []"
    and "convertEvents example_JSON [] = ([], [], [])"
    and "convertLinks example_JSON [] = ([], [], [], [])"
    by (simp_all add: AsTime_def example_JSON_def hex)
  with ev ln show ?thesis
    by simp
qed

theorem insert_with_zero_count_does_nothing_witness:
  "run_push example_JSON (exec_failing_driver 0 (errors_New ''refused'')) empty_DB
     (InsertSum (empty_sumMetrics ''INSERT'')) = (None, empty_DB)
   \<and> run_push example_JSON ok_driver empty_DB
     (InsertHistogram \<lparr>histogramMetrics_histogramModel = [], histogramMetrics_insertSQL = ''INSERT'',
        histogramMetrics_count = 0\<rparr>) = (None, empty_DB)"
  using insert_with_zero_count_does_nothing
      [of "InsertSum (empty_sumMetrics ''INSERT'')" example_JSON
        "exec_failing_driver 0 (errors_New ''refused'')" empty_DB]
    insert_with_zero_count_does_nothing
      [of "InsertHistogram \<lparr>histogramMetrics_histogramModel = [],
          histogramMetrics_insertSQL = ''INSERT'', histogramMetrics_count = 0\<rparr>"
        example_JSON ok_driver empty_DB]
  by (simp add: empty_sumMetrics_def)


theorem insert_columns_match_table_and_arguments_witness:
  "insert_columns insertSumTableSQL = create_columns createSumTableSQL
   \<and> insert_placeholders insertSumTableSQL = replicate 23 ''?''
   \<and> length (sum_row example_JSON (hd (sumMetrics_sumModel example_sumMetrics))
        (example_point 1000 float64_1)) = 23
   \<and> map Some (sum_row example_JSON (hd (sumMetrics_sumModel example_sumMetrics))
        (example_point 1000 float64_1))
     = map (map_of (sum_columns example_JSON (hd (sumMetrics_sumModel example_sumMetrics))
        (example_point 1000 float64_1))) (create_columns createSumTableSQL)"
proof -
  note inst = insert_columns_match_table_and_arguments
      [where J = example_JSON and sm = "hd (sumMetrics_sumModel example_sumMetrics)"
        and sdp = "example_point 1000 float64_1"]
  have cols: "insert_columns insertSumTableSQL = create_columns createSumTableSQL"
    using inst by blast
  have ph: "insert_placeholders insertSumTableSQL =
      replicate (length (insert_columns insertSumTableSQL)) ''?''"
    using inst by blast
  have len: "length (sum_row example_JSON (hd (sumMetrics_sumModel example_sumMetrics))
        (example_point 1000 float64_1)) = 23 \<and> length (create_columns createSumTableSQL) = 23"
    using inst by blast
  have row: "map Some (sum_row example_JSON (hd (sumMetrics_sumModel example_sumMetrics))
        (example_point 1000 float64_1))
     = map (map_of (sum_columns example_JSON (hd (sumMetrics_sumModel example_sumMetrics))
        (example_point 1000 float64_1))) (insert_columns insertSumTableSQL)"
    using inst by blast
  show ?thesis
    using cols ph len row by simp
qed

lemma example_sum_rows:
  "length (push_rows example_JSON (InsertSum example_sumMetrics)) = 2"
  "push_count (InsertSum example_sumMetrics) = Some 2"
  by (simp_all add: example_sumMetrics_def sumMetrics_Add_def empty_sumMetrics_def sum_rows_def
      example_sum_def)

theorem push_is_one_atomic_transaction_witness:
  "count_consistent example_JSON (InsertSum example_sumMetrics)
   \<and> (\<exists>err. fst (run_push example_JSON (exec_failing_driver 1 (errors_New ''refused'')) empty_DB
          (InsertSum example_sumMetrics)) = Some err
        \<and> errors_Is err (errors_New ''refused''))
   \<and> stored (snd (run_push example_JSON (exec_failing_driver 1 (errors_New ''refused'')) empty_DB
          (InsertSum example_sumMetrics))) = []
   \<and> execs (calls (snd (run_push example_JSON (exec_failing_driver 1 (errors_New ''refused''))
          empty_DB (InsertSum example_sumMetrics))))
      = take 2 (push_rows example_JSON (InsertSum example_sumMetrics))
   \<and> last (calls (snd (run_push example_JSON (exec_failing_driver 1 (errors_New ''refused''))
          empty_DB (InsertSum example_sumMetrics)))) = Rollback
   \<and> fst (run_push example_JSON ok_driver empty_DB (InsertSum example_sumMetrics)) = None
   \<and> calls (snd (run_push example_JSON ok_driver empty_DB (InsertSum example_sumMetrics)))
      = [Begin, PrepareContext (push_insertSQL (InsertSum example_sumMetrics))]
        @ map ExecContext (push_rows example_JSON (InsertSum example_sumMetrics))
        @ [Close, Commit, Rollback]
   \<and> stored (snd (run_push example_JSON ok_driver empty_DB (InsertSum example_sumMetrics)))
      = map (Pair (push_insertSQL (InsertSum example_sumMetrics)))
          (push_rows example_JSON (InsertSum example_sumMetrics))"
proof -
  let ?drv = "exec_failing_driver 1 (errors_New ''refused'')"
  let ?p = "InsertSum example_sumMetrics"
  obtain res db' where run: "run_push example_JSON ?drv empty_DB ?p = (res, db')"
    by (cases "run_push example_JSON ?drv empty_DB ?p")
  obtain res2 db2 where run2: "run_push example_JSON ok_driver empty_DB ?p = (res2, db2)"
    by (cases "run_push example_JSON ok_driver empty_DB ?p")
  have inv: "count_consistent example_JSON ?p"
    by (simp add: count_consistent_def example_sum_rows del: push_rows.simps push_count.simps)
  have drv: "BeginErr ?drv = None" "PrepareErr ?drv (push_insertSQL ?p) = None"
    "\<forall>i < 1. ExecErr ?drv i (push_rows example_JSON ?p ! i) = None"
    "ExecErr ?drv 1 (push_rows example_JSON ?p ! 1) = Some (errors_New ''refused'')"
    "(1::nat) < length (push_rows example_JSON ?p)"
    by (simp_all add: exec_failing_driver_def example_sum_rows del: push_rows.simps)
  have ok: "BeginErr ok_driver = None" "PrepareErr ok_driver (push_insertSQL ?p) = None"
    "\<forall>i < length (push_rows example_JSON ?p).
        ExecErr ok_driver i (push_rows example_JSON ?p ! i) = None"
    "CommitErr ok_driver = None" "push_count ?p \<noteq> Some 0"
    by (simp_all add: ok_driver_def example_sum_rows del: push_rows.simps push_count.simps)
  from push_is_one_atomic_transaction [OF run inv] obtain new where
    new: "calls db' = calls empty_DB @ new"
    and failed: "\<forall>k e. BeginErr ?drv = None \<and> PrepareErr ?drv (push_insertSQL ?p) = None
            \<and> k < length (push_rows example_JSON ?p)
            \<and> (\<forall>i < k. ExecErr ?drv i (push_rows example_JSON ?p ! i) = None)
            \<and> ExecErr ?drv k (push_rows example_JSON ?p ! k) = Some e \<longrightarrow>
          (\<exists>err. res = Some err \<and> errors_Is err e)
          \<and> stored db' = stored empty_DB \<and> Commit \<notin> set new \<and> last new = Rollback
          \<and> execs new = take (Suc k) (push_rows example_JSON ?p)"
    by blast
  from failed drv have first: "(\<exists>err. res = Some err \<and> errors_Is err (errors_New ''refused''))
          \<and> stored db' = stored empty_DB \<and> Commit \<notin> set new \<and> last new = Rollback
          \<and> execs new = take (Suc 1) (push_rows example_JSON ?p)"
    by blast
  from push_is_one_atomic_transaction [OF run2 inv] obtain new2 where
    new2: "calls db2 = calls empty_DB @ new2"
    and passed: "BeginErr ok_driver = None \<and> PrepareErr ok_driver (push_insertSQL ?p) = None
          \<and> (\<forall>i < length (push_rows example_JSON ?p).
                ExecErr ok_driver i (push_rows example_JSON ?p ! i) = None)
          \<and> CommitErr ok_driver = None \<longrightarrow>
          res2 = None \<and> execs new2 = push_rows example_JSON ?p
          \<and> stored db2 = stored empty_DB
                @ map (Pair (push_insertSQL ?p)) (push_rows example_JSON ?p)
          \<and> (push_count ?p \<noteq> Some 0 \<longrightarrow>
                new2 = [Begin, PrepareContext (push_insertSQL ?p)]
                      @ map ExecContext (push_rows example_JSON ?p) @ [Close, Commit, Rollback])"
    by blast
  from passed ok have second: "res2 = None
      \<and> stored db2 = stored empty_DB @ map (Pair (push_insertSQL ?p)) (push_rows example_JSON ?p)
      \<and> new2 = [Begin, PrepareContext (push_insertSQL ?p)]
                      @ map ExecContext (push_rows example_JSON ?p) @ [Close, Commit, Rollback]"
    by blast
  from first second new new2 run run2 inv show ?thesis
    by (simp add: empty_DB_def numeral_2_eq_2
        del: push_rows.simps run_push.simps push_insertSQL.simps)
qed

theorem sum_scenario_two_rows_witness:
  "fst (sumMetrics_insert example_JSON ok_driver example_sumMetrics empty_DB) = None
   \<and> length (stored (snd (sumMetrics_insert example_JSON ok_driver example_sumMetrics empty_DB))) = 2
   \<and> length (execs (calls (snd (sumMetrics_insert example_JSON ok_driver example_sumMetrics
        empty_DB)))) = 2
   \<and> map (column_of insertSumTableSQL ''ServiceName'' \<circ> snd)
        (stored (snd (sumMetrics_insert example_JSON ok_driver example_sumMetrics empty_DB)))
      = [Some (ArgString ''api''), Some (ArgString ''api'')]
   \<and> map (column_of insertSumTableSQL ''Value'' \<circ> snd)
        (stored (snd (sumMetrics_insert example_JSON ok_driver example_sumMetrics empty_DB)))
      = [Some (ArgFloat64 float64_1), Some (ArgFloat64 float64_2)]"
proof -
  have points: "(example_point 1000 float64_1)\<lparr>ndp_ValueType := ValueTypeDouble,
        ndp_DoubleValue := float64_1, ndp_Exemplars := []\<rparr> = example_point 1000 float64_1"
    "(example_point 2000 float64_2)\<lparr>ndp_ValueType := ValueTypeDouble,
        ndp_DoubleValue := float64_2, ndp_Exemplars := []\<rparr> = example_point 2000 float64_2"
    by (simp_all add: example_point_def)
  obtain res db' where run:
    "sumMetrics_insert example_JSON ok_driver example_sumMetrics empty_DB = (res, db')"
    by (cases "sumMetrics_insert example_JSON ok_driver example_sumMetrics empty_DB")
  from sum_scenario_two_rows
    [where ?dp1.0 = "example_point 1000 float64_1" and ?dp2.0 = "example_point 2000 float64_2"
      and q = "Sprintf insertSumTableSQL [''otel_metrics_sum'']" and resURL = "[]"
      and scopeInstr = example_scope and scopeURL = "[]" and description = "[]" and unit = "[]"
      and J = example_JSON and db = empty_DB]
  have "res = None
      \<and> (\<exists>row1 row2.
            execs (drop (length (calls empty_DB)) (calls db')) = [row1, row2]
          \<and> stored db' = stored empty_DB
              @ [(Sprintf insertSumTableSQL [''otel_metrics_sum''], row1),
                 (Sprintf insertSumTableSQL [''otel_metrics_sum''], row2)]
          \<and> column_of insertSumTableSQL ''ServiceName'' row1 = Some (ArgString ''api'')
          \<and> column_of insertSumTableSQL ''ServiceName'' row2 = Some (ArgString ''api'')
          \<and> column_of insertSumTableSQL ''Value'' row1 = Some (ArgFloat64 float64_1)
          \<and> column_of insertSumTableSQL ''Value'' row2 = Some (ArgFloat64 float64_2))"
    unfolding Let_def points example_sumMetrics_def [symmetric] example_sum_def [symmetric] run
    by auto
  with run show ?thesis
    by (auto simp: empty_DB_def)
qed

theorem span_duration_bound_unchecked_witness:
  "column_of insertTracesSQLTemplate ''Duration''
       (traces_row example_JSON (hd (example_traces [example_span 0 5000000]))
          (hd (rs_ScopeSpans (hd (example_traces [example_span 0 5000000]))))
          (example_span 0 5000000))
     = Some (ArgInt64 5000000)
   \<and> stored (snd (pushTraceData example_JSON ok_driver insertTracesSQLTemplate empty_DB
        (example_traces [example_span 0 5000000])))
     = map (Pair insertTracesSQLTemplate)
         (traces_rows example_JSON (example_traces [example_span 0 5000000]))"
proof -
  note inst = span_duration_bound_unchecked
      [where J = example_JSON and spans = "hd (example_traces [example_span 0 5000000])"
        and scope = "hd (rs_ScopeSpans (hd (example_traces [example_span 0 5000000])))"
        and r = "example_span 0 5000000" and q = insertTracesSQLTemplate and db = empty_DB
        and td = "example_traces [example_span 0 5000000]"]
  have times: "AsTime (span_EndTimestamp (example_span 0 5000000)) = 5000000"
    "AsTime (span_StartTimestamp (example_span 0 5000000)) = 0"
    by (simp_all add: example_span_def AsTime_def)
  have range: "minDuration \<le> 5000000 - 0" "(5000000::int) - 0 \<le> maxDuration"
    by (simp_all add: minDuration_def maxDuration_def)
  from inst [THEN conjunct2, THEN conjunct1] range
  have "Sub_Nanoseconds 5000000 0 = 5000000"
    unfolding times by simp
  with inst [THEN conjunct1] inst [THEN conjunct2, THEN conjunct2, THEN conjunct2]
  show ?thesis
    unfolding times by (simp add: empty_DB_def)
qed

theorem log_timestamp_falls_back_to_observed_witness:
  "ExecContext
      (logs_row example_JSON (hd (example_logs [example_log 0 1234]))
         (hd (rl_ScopeLogs (hd (example_logs [example_log 0 1234])))) (example_log 0 1234))
     \<in> set (calls (snd (pushLogsData example_JSON ok_driver insertLogsSQLTemplate empty_DB
          (example_logs [example_log 0 1234]))))
   \<and> column_of insertLogsSQLTemplate ''Timestamp''
       (logs_row example_JSON (hd (example_logs [example_log 0 1234]))
         (hd (rl_ScopeLogs (hd (example_logs [example_log 0 1234])))) (example_log 0 1234))
     = Some (ArgTime 1234)"
proof -
  let ?ld = "example_logs [example_log 0 1234]"
  let ?row = "logs_row example_JSON (hd ?ld) (hd (rl_ScopeLogs (hd ?ld))) (example_log 0 1234)"
  obtain res db' where run:
    "pushLogsData example_JSON ok_driver insertLogsSQLTemplate empty_DB ?ld = (res, db')"
    by (cases "pushLogsData example_JSON ok_driver insertLogsSQLTemplate empty_DB ?ld")
  have rows: "logs_rows example_JSON ?ld = [?row]"
    by (simp add: logs_rows_def example_logs_def)
  from run have db': "calls db' = [Begin, PrepareContext insertLogsSQLTemplate, ExecContext ?row,
      Close, Commit, Rollback]"
    by (auto simp: pushLogsData_outcome tx_outcome_ok_driver rows empty_DB_def)
  then have called: "ExecContext ?row \<in> set (drop (length (calls empty_DB)) (calls db'))"
    by (simp add: empty_DB_def)
  from log_timestamp_falls_back_to_observed [OF run called]
  obtain r where "r \<in> set [example_log 0 1234]"
    and "column_of insertLogsSQLTemplate ''Timestamp'' ?row
      = Some (ArgTime (AsTime
          (if log_Timestamp r \<noteq> 0 then log_Timestamp r else log_ObservedTimestamp r)))"
    by (auto simp: example_logs_def)
  then have "column_of insertLogsSQLTemplate ''Timestamp'' ?row = Some (ArgTime 1234)"
    by (simp add: example_log_def AsTime_def)
  with db' run show ?thesis
    by simp
qed

theorem trace_id_view_leaves_out_empty_trace_ids_witness:
  "row_TraceId (traces_row example_JSON (hd (example_traces []))
       (hd (rs_ScopeSpans (hd (example_traces []))))
       ((example_span 0 5)\<lparr>span_TraceID := replicate 16 0\<rparr>)) = []
   \<and> trace_id_ts_select
       [traces_row example_JSON (hd (example_traces []))
          (hd (rs_ScopeSpans (hd (example_traces []))))
          ((example_span 0 5)\<lparr>span_TraceID := replicate 16 0\<rparr>)] = []
   \<and> renderTraceIDTsMaterializedViewSQL
       \<lparr>Database = ''otel'', TracesTableName = ''otel_traces'', LogsTableName = ''otel_logs'',
        clusterString = []\<rparr>
     = ''\<newline>''
     @ ''CREATE MATERIALIZED VIEW IF NOT EXISTS otel_traces_trace_id_ts_mv \<newline>''
     @ ''TO otel.otel_traces_trace_id_ts\<newline>''
     @ ''AS SELECT\<newline>''
     @ [CHR 0x09] @ ''TraceId,\<newline>''
     @ [CHR 0x09] @ ''min(Timestamp) as Start,\<newline>''
     @ [CHR 0x09] @ ''max(Timestamp) as End\<newline>''
     @ ''FROM\<newline>''
     @ ''otel.otel_traces\<newline>''
     @ ''WHERE TraceId != '' @ [CHR 0x27, CHR 0x27] @ ''\<newline>''
     @ ''GROUP BY TraceId;\<newline>''"
proof -
  note inst = trace_id_view_leaves_out_empty_trace_ids
      [where cfg = "\<lparr>Database = ''otel'', TracesTableName = ''otel_traces'',
          LogsTableName = ''otel_logs'', clusterString = []\<rparr>"
        and J = example_JSON and spans = "hd (example_traces [])"
        and scope = "hd (rs_ScopeSpans (hd (example_traces [])))"
        and r = "(example_span 0 5)\<lparr>span_TraceID := replicate 16 0\<rparr>"
        and before = "[]" and after = "[]" and rows = "[]" and t = "[]" and s = 0 and e = 0]
  have zero: "\<forall>b \<in> set (span_TraceID ((example_span 0 5)\<lparr>span_TraceID := replicate 16 0\<rparr>)). b = 0"
    by simp
  from inst [THEN conjunct2, THEN conjunct2] zero
  have "row_TraceId (traces_row example_JSON (hd (example_traces []))
       (hd (rs_ScopeSpans (hd (example_traces []))))
       ((example_span 0 5)\<lparr>span_TraceID := replicate 16 0\<rparr>)) = []
     \<and> trace_id_ts_select
       [traces_row example_JSON (hd (example_traces []))
          (hd (rs_ScopeSpans (hd (example_traces []))))
          ((example_span 0 5)\<lparr>span_TraceID := replicate 16 0\<rparr>)] = trace_id_ts_select []"
    by simp
  moreover have "trace_id_ts_select [] = []"
    by (simp add: trace_id_ts_select_def)
  ultimately show ?thesis
    using inst [THEN conjunct1] by simp
qed

end
